(* ===== verification/Prelude.thy ===== *)
theory Prelude
  imports Complex_Main
begin

text \<open>
  Shared vocabulary of the g-chat backend model: the types that name the
  program's values (timestamps read from \<open>time.time()\<close>, UUID primary keys,
  the tokenizer), the few Python built-ins the code relies on with their
  Python meaning (\<open>int()\<close> of a float, \<open>x or y\<close> on an optional count,
  \<open>str()\<close> of an int), the collections of facts the component theories
  share, and generic lemmas on lists and sums used by several components.
\<close>

named_theorems model_defs
  "definitions of the model that the component proofs unfold"

named_theorems store_simps
  "rewrite rules for the persistent store, shared by the chat and route proofs"

section \<open>Types of the model\<close>

text \<open>
  \<open>time.time()\<close> returns a float of seconds; it is modelled as a real number
  (rounding of the float is not modelled). Primary keys are UUIDs generated
  by \<open>uuid.uuid4\<close>; they are modelled as natural numbers drawn from a counter
  of the store, so that a fresh key is never equal to an existing one.
  The tokenizer (\<open>count_tokens\<close>) is a function from text to an integer.
\<close>

type_synonym timestamp = real
type_synonym uuid = nat
type_synonym tokenizer = "string \<Rightarrow> int"

section \<open>Python built-ins\<close>

text \<open>\<open>int(x)\<close> of a float truncates towards zero.\<close>

definition py_int :: "real \<Rightarrow> int" where
  "py_int x = (if 0 \<le> x then \<lfloor>x\<rfloor> else \<lceil>x\<rceil>)"

text \<open>
  \<open>d.get("token_count") or f()\<close>: the stored count when it is present and
  non-zero, otherwise the fallback (a missing key, \<open>None\<close> and \<open>0\<close> are
  all falsy).
\<close>

definition py_or :: "int option \<Rightarrow> int \<Rightarrow> int" where
  "py_or x y = (case x of None \<Rightarrow> y | Some n \<Rightarrow> if n = 0 then y else n)"

text \<open>\<open>str(n)\<close> of an int: decimal digits, with a minus sign when negative.\<close>

fun digits_of_nat :: "nat \<Rightarrow> string" where
  "digits_of_nat n =
     (if n < 10 then [char_of (48 + n)]
      else digits_of_nat (n div 10) @ [char_of (48 + n mod 10)])"

declare digits_of_nat.simps [simp del]

definition py_str_int :: "int \<Rightarrow> string" where
  "py_str_int i =
     (if i < 0 then CHR ''-'' # digits_of_nat (nat (- i)) else digits_of_nat (nat i))"

text \<open>
  A UUID given as a string (a JWT subject, a path parameter) is converted
  back by the database driver, which rejects a badly formed string.  With
  UUIDs modelled as naturals printed by \<open>str\<close>, the conversion reads the
  decimal digits; anything else is badly formed.
\<close>

fun digits_value :: "nat \<Rightarrow> string \<Rightarrow> nat option" where
  "digits_value acc [] = Some acc"
| "digits_value acc (c # cs) =
     (let d = of_char c :: nat in
      if 48 \<le> d \<and> d < 58 then digits_value (10 * acc + (d - 48)) cs else None)"

definition parse_uuid :: "string \<Rightarrow> uuid option" where
  "parse_uuid s = (if s = [] then None else digits_value 0 s)"

text \<open>
  \<open>d[k] = v\<close> (and \<open>d.update({k: v})\<close>) on a dict, which keeps insertion
  order: an existing key keeps its place, a new key goes last.
\<close>

fun dict_set :: "'k \<Rightarrow> 'v \<Rightarrow> ('k \<times> 'v) list \<Rightarrow> ('k \<times> 'v) list" where
  "dict_set k v [] = [(k, v)]"
| "dict_set k v ((k', v') # kvs) = (if k = k' then (k, v) # kvs else (k', v') # dict_set k v kvs)"

section \<open>Generic lemmas\<close>

lemma dict_set_fresh:
  "k \<notin> fst ` set kvs \<Longrightarrow> dict_set k v kvs = kvs @ [(k, v)]"
  by (induction kvs) auto

lemma map_of_dict_set [simp]: "map_of (dict_set k v kvs) = (map_of kvs)(k \<mapsto> v)"
  by (induction kvs) (auto simp: fun_upd_twist)

lemma py_int_nonneg [simp]: "0 \<le> x \<Longrightarrow> py_int x = \<lfloor>x\<rfloor>"
  by (simp add: py_int_def)

lemma py_int_ge0: "0 \<le> x \<Longrightarrow> 0 \<le> py_int x"
  by simp

lemma py_or_Some_nz [simp]: "n \<noteq> 0 \<Longrightarrow> py_or (Some n) y = n"
  by (simp add: py_or_def)

lemma py_or_Some_0 [simp]: "py_or (Some 0) y = y"
  and py_or_None [simp]: "py_or None y = y"
  by (simp_all add: py_or_def)

lemma py_or_self [simp]: "py_or (Some y) y = y"
  by (simp add: py_or_def)

lemma digits_of_nat_nonempty [simp]: "digits_of_nat n \<noteq> []"
  by (subst digits_of_nat.simps) simp

lemma sum_list_filter_append [simp]:
  "sum_list (map f (filter P (xs @ ys))) =
   sum_list (map f (filter P xs)) + sum_list (map f (filter P ys))"
  by simp

lemma digits_value_append:
  "digits_value acc (xs @ ys) = Option.bind (digits_value acc xs) (\<lambda>a. digits_value a ys)"
  by (induction acc xs rule: digits_value.induct) (simp_all add: Let_def)

lemma digits_value_digits_of_nat: "digits_value 0 (digits_of_nat n) = Some n"
proof (induction n rule: digits_of_nat.induct)
  case (1 n)
  have dig: "of_char (char_of (48 + k) :: char) = 48 + k" if "k < 10" for k :: nat
    using that by (simp add: of_char_of)
  show ?case
  proof (cases "n < 10")
    case True
    then show ?thesis by (subst digits_of_nat.simps) (simp add: dig)
  next
    case False
    then have "digits_value 0 (digits_of_nat (n div 10)) = Some (n div 10)" using 1 by simp
    with False show ?thesis
      by (subst digits_of_nat.simps) (simp add: digits_value_append dig)
  qed
qed

lemma parse_uuid_str [simp]: "parse_uuid (py_str_int (int n)) = Some n"
  by (simp add: parse_uuid_def py_str_int_def digits_value_digits_of_nat)

lemma find_distinct_key:
  "distinct (map f xs) \<Longrightarrow> x \<in> set xs \<Longrightarrow> find (\<lambda>y. f y = f x) xs = Some x"
  by (induction xs) (auto simp: image_iff)

lemma find_append_None [simp]:
  "find P xs = None \<Longrightarrow> find P (xs @ ys) = find P ys"
  by (induction xs) (auto split: if_splits)

end
