(* ===== verification/Errors.thy ===== *)
theory Errors
  imports Prelude
begin

text \<open>
  The error values of the backend (\<open>app/utils/errors.py\<close>) and the way an
  exception raised by an endpoint becomes an HTTP response.  \<open>APIError\<close>
  and its subclasses are records of one type built by one constructor
  function each; an exception in flight is a value of \<open>py_exc\<close>, and an
  endpoint's outcome is a value of \<open>'a response\<close>.  No exception handler
  for \<open>APIError\<close> is registered in \<open>app/main.py\<close> (only slowapi's
  \<open>RateLimitExceeded\<close> has one), so an \<open>APIError\<close> that escapes an
  endpoint is answered by the framework's generic 500 response.
\<close>

section \<open>API errors (errors.py)\<close>

datatype detail_value = D_Str string | D_Int int

record api_error =
  status_code :: int
  message :: string
  details :: "(string \<times> detail_value) list"

definition model_not_found_error :: "string \<Rightarrow> api_error" where
  "model_not_found_error model_name =
     \<lparr>status_code = 404,
      message = ''Model '' @ [CHR 0x27] @ model_name @ [CHR 0x27] @ '' not found'',
      details = [(''requested_model'', D_Str model_name)]\<rparr>"

definition rate_limit_error :: "string \<Rightarrow> int \<Rightarrow> api_error" where
  "rate_limit_error limit_type limit_val =
     \<lparr>status_code = 429,
      message = limit_type @ '' rate limit exceeded: '' @ py_str_int limit_val @ '' per minute'',
      details = [(''limit_type'', D_Str limit_type), (''limit'', D_Int limit_val)]\<rparr>"

definition api_key_missing_error :: api_error where
  "api_key_missing_error =
     \<lparr>status_code = 500,
      message = ''API key is not configured'',
      details = [(''environment_variable'', D_Str ''GOOGLE_API_KEY'')]\<rparr>"

section \<open>Exceptions and responses\<close>

text \<open>
  An exception in flight: FastAPI's \<open>HTTPException(status_code, detail)\<close>,
  an \<open>APIError\<close>, or an error of the database driver (an integrity
  violation at commit) with its message.  \<open>str(e)\<close> of an \<open>APIError\<close> is
  its message (the constructor passes the message to \<open>Exception.__init__\<close>).
  A pydantic \<open>ValidationError\<close> raised inside an endpoint (a model built
  there from values that fail its fields) carries its message; FastAPI
  turns only the validation of the request itself into 422.
\<close>

datatype py_exc = HTTPException int string | APIError api_error | DB_Error string | Validation_Error string

fun exc_str :: "py_exc \<Rightarrow> string" where
  "exc_str (HTTPException code detail) = py_str_int code @ '': '' @ detail"
| "exc_str (APIError e) = message e"
| "exc_str (DB_Error m) = m"
| "exc_str (Validation_Error m) = m"

text \<open>
  The outcome of an endpoint: a normal response, or an error response with
  its status code and detail.  \<open>uncaught\<close> is what the framework does with
  an exception that leaves the endpoint: an \<open>HTTPException\<close> becomes its
  status and detail, anything else the generic 500 response.
\<close>

datatype 'a response = Response 'a | Error_Response int string

fun uncaught :: "py_exc \<Rightarrow> 'a response" where
  "uncaught (HTTPException code detail) = Error_Response code detail"
| "uncaught (APIError e) = Error_Response 500 ''Internal Server Error''"
| "uncaught (DB_Error m) = Error_Response 500 ''Internal Server Error''"
| "uncaught (Validation_Error m) = Error_Response 500 ''Internal Server Error''"

definition to_response :: "py_exc + 'a \<Rightarrow> 'a response" where
  "to_response r = (case r of Inl e \<Rightarrow> uncaught e | Inr v \<Rightarrow> Response v)"

fun response_status :: "'a response \<Rightarrow> int" where
  "response_status (Response v) = 200"
| "response_status (Error_Response code d) = code"

lemma rate_limit_error_status [simp]: "status_code (rate_limit_error t l) = 429"
  by (simp add: rate_limit_error_def)

lemma to_response_Inr [simp]: "to_response (Inr v) = Response v"
  and to_response_Inl [simp]: "to_response (Inl e) = uncaught e"
  by (simp_all add: to_response_def)

end
