(* ===== verification/RateLimiter.thy ===== *)
theory RateLimiter
  imports Errors
begin

text \<open>
  The usage throttle of \<open>app/utils/rate_limiter.py\<close>: a process-wide
  dictionary \<open>usage_tracking\<close> (modelled as the record \<open>usage\<close>) with a
  fixed one-minute window, and the four operations that read or write it.
  Every operation reads the clock once (\<open>time.time()\<close>), which is an argument
  \<open>now\<close> of the model; \<open>get_rate_limit_status\<close> reads it twice.  The limits
  are the two settings of \<open>app/config/settings.py\<close>.  Each operation is
  synchronous Python code without an \<open>await\<close>, so under the asyncio event
  loop it runs atomically; concurrency is the interleaving of whole
  operations (theory \<open>Spec2Isabelle\<close>).
\<close>

section \<open>State and configuration\<close>

record usage =
  last_reset :: timestamp
  tokens_used :: int
  requests_used :: int

record rate_config =
  requests_per_minute :: int
  tokens_per_minute :: int

definition default_rate_config :: rate_config where
  "default_rate_config = \<lparr>requests_per_minute = 60, tokens_per_minute = 60000\<rparr>"

text \<open>The dictionary as it is created at import time.\<close>

definition initial_usage :: "timestamp \<Rightarrow> usage" where
  "initial_usage t = \<lparr>last_reset = t, tokens_used = 0, requests_used = 0\<rparr>"

section \<open>Operations\<close>

definition check_and_reset_counters :: "timestamp \<Rightarrow> usage \<Rightarrow> usage" where
  "check_and_reset_counters current_time u =
     (if current_time - last_reset u > 60 then initial_usage current_time else u)"

text \<open>
  \<open>count_tokens\<close>: the length of the tiktoken encoding, or \<open>len(text) // 4\<close>
  when tiktoken raises.  The encoder is external; it is the argument
  \<open>enc\<close>, with \<open>None\<close> for the exception.
\<close>

definition count_tokens :: "(string \<Rightarrow> nat option) \<Rightarrow> string \<Rightarrow> int" where
  "count_tokens enc text =
     (case enc text of Some n \<Rightarrow> int n | None \<Rightarrow> int (length text) div 4)"

definition check_token_rate_limit ::
  "rate_config \<Rightarrow> timestamp \<Rightarrow> int \<Rightarrow> usage \<Rightarrow> bool \<times> usage" where
  "check_token_rate_limit cfg now token_count u =
     (let u1 = check_and_reset_counters now u in
      if tokens_used u1 + token_count > tokens_per_minute cfg then (False, u1)
      else (True, u1\<lparr>tokens_used := tokens_used u1 + token_count\<rparr>))"

text \<open>
  \<open>track_request\<close> raises \<open>RateLimitError\<close>; the reset it made before
  raising stays in the global dictionary, so the state is returned on both
  branches.
\<close>

definition track_request ::
  "rate_config \<Rightarrow> timestamp \<Rightarrow> usage \<Rightarrow> (py_exc + unit) \<times> usage" where
  "track_request cfg now u =
     (let u1 = check_and_reset_counters now u in
      if requests_used u1 \<ge> requests_per_minute cfg
      then (Inl (APIError (rate_limit_error ''Request'' (requests_per_minute cfg))), u1)
      else (Inr (), u1\<lparr>requests_used := requests_used u1 + 1\<rparr>))"

record limit_info =
  limit :: int
  used :: int
  remaining :: int
  reset_after_seconds :: int

record rate_limit_status =
  requests :: limit_info
  tokens :: limit_info

text \<open>
  \<open>get_rate_limit_status\<close> reads the clock in \<open>check_and_reset_counters\<close>
  (\<open>t_check\<close>) and again for the time until the reset (\<open>t_read\<close>).
\<close>

definition get_rate_limit_status ::
  "rate_config \<Rightarrow> timestamp \<Rightarrow> timestamp \<Rightarrow> usage \<Rightarrow> rate_limit_status \<times> usage" where
  "get_rate_limit_status cfg t_check t_read u =
     (let u1 = check_and_reset_counters t_check u;
          time_until_reset = max 0 (60 - (t_read - last_reset u1));
          remaining_requests = max 0 (requests_per_minute cfg - requests_used u1)
      in (\<lparr>requests = \<lparr>limit = requests_per_minute cfg, used = requests_used u1,
                        remaining = remaining_requests,
                        reset_after_seconds = py_int time_until_reset\<rparr>,
           tokens = \<lparr>limit = tokens_per_minute cfg, used = tokens_used u1,
                      remaining = tokens_per_minute cfg - tokens_used u1,
                      reset_after_seconds = py_int time_until_reset\<rparr>\<rparr>, u1))"

lemmas rate_limiter_defs [model_defs] =
  check_and_reset_counters_def check_token_rate_limit_def track_request_def
  get_rate_limit_status_def initial_usage_def

section \<open>Invariant\<close>

text \<open>
  The counters are never negative and never above the configured limit
  (or zero, when the limit is negative).  Token counts handed to the
  throttle are never negative (\<open>count_tokens\<close> is a length).
\<close>

definition usage_inv :: "rate_config \<Rightarrow> usage \<Rightarrow> bool" where
  "usage_inv cfg u \<longleftrightarrow>
     0 \<le> tokens_used u \<and> tokens_used u \<le> max 0 (tokens_per_minute cfg) \<and>
     0 \<le> requests_used u \<and> requests_used u \<le> max 0 (requests_per_minute cfg)"

lemma initial_usage_sel [simp]:
  "last_reset (initial_usage t) = t" "tokens_used (initial_usage t) = 0"
  "requests_used (initial_usage t) = 0"
  by (simp_all add: initial_usage_def)

lemma usage_inv_initial [simp]: "usage_inv cfg (initial_usage t)"
  by (simp add: usage_inv_def initial_usage_def)

lemma usage_inv_reset [simp]:
  "usage_inv cfg (check_and_reset_counters t u) = (if t - last_reset u > 60 then True else usage_inv cfg u)"
  by (simp add: check_and_reset_counters_def)

lemma count_tokens_nonneg [simp]: "0 \<le> count_tokens enc text"
  by (simp add: count_tokens_def pos_imp_zdiv_nonneg_iff split: option.splits)

lemma check_and_reset_expired [simp]:
  "t - last_reset u > 60 \<Longrightarrow> check_and_reset_counters t u = initial_usage t"
  by (simp add: check_and_reset_counters_def)

lemma check_and_reset_fresh [simp]:
  "\<not> t - last_reset u > 60 \<Longrightarrow> check_and_reset_counters t u = u"
  by (simp add: check_and_reset_counters_def)

lemma check_and_reset_idem [simp]:
  "check_and_reset_counters t (check_and_reset_counters t u) = check_and_reset_counters t u"
  by (simp add: check_and_reset_counters_def initial_usage_def)

lemma last_reset_check_and_reset_le:
  "last_reset u \<le> t \<Longrightarrow> last_reset (check_and_reset_counters t u) \<le> t"
  by (simp add: check_and_reset_counters_def initial_usage_def)

lemma fresh_after_check_and_reset:
  "last_reset u \<le> t \<Longrightarrow> \<not> t - last_reset (check_and_reset_counters t u) > 60"
  by (simp add: check_and_reset_counters_def initial_usage_def)

section \<open>The operations as one interface\<close>

text \<open>
  The three operations that other components call, as a datatype with one
  step function: a token check of \<open>n\<close> tokens (the chat stream), a request
  check (the thread, file and rate-limit endpoints) and a status read (with
  the second clock reading).  \<open>throttle_run\<close> applies a timed sequence of
  them to the shared dictionary, in order, and records each result.
\<close>

datatype throttle_op = Admit_Tokens int | Track_Request | Get_Status timestamp

datatype throttle_result =
  Tokens_Admitted bool | Request_Result "py_exc + unit" | Status_Result rate_limit_status

fun throttle_apply ::
  "rate_config \<Rightarrow> timestamp \<Rightarrow> throttle_op \<Rightarrow> usage \<Rightarrow> throttle_result \<times> usage" where
  "throttle_apply cfg t (Admit_Tokens n) u =
     (case check_token_rate_limit cfg t n u of (ok, u') \<Rightarrow> (Tokens_Admitted ok, u'))"
| "throttle_apply cfg t Track_Request u =
     (case track_request cfg t u of (r, u') \<Rightarrow> (Request_Result r, u'))"
| "throttle_apply cfg t (Get_Status t2) u =
     (case get_rate_limit_status cfg t t2 u of (s, u') \<Rightarrow> (Status_Result s, u'))"

fun throttle_run ::
  "rate_config \<Rightarrow> usage \<Rightarrow> (timestamp \<times> throttle_op) list \<Rightarrow> usage \<times> throttle_result list" where
  "throttle_run cfg u [] = (u, [])"
| "throttle_run cfg u ((t, op) # es) =
     (case throttle_apply cfg t op u of
        (r, u') \<Rightarrow> (case throttle_run cfg u' es of (u'', rs) \<Rightarrow> (u'', r # rs)))"

text \<open>Token counts handed to the throttle are lengths, never negative.\<close>

fun op_wf :: "throttle_op \<Rightarrow> bool" where
  "op_wf (Admit_Tokens n) = (0 \<le> n)"
| "op_wf Track_Request = True"
| "op_wf (Get_Status t2) = True"

text \<open>The tokens a result admitted.\<close>

fun admitted :: "throttle_op \<Rightarrow> throttle_result \<Rightarrow> int" where
  "admitted (Admit_Tokens n) (Tokens_Admitted True) = n"
| "admitted op r = 0"

section \<open>Step lemmas\<close>

text \<open>Every operation begins with the window check, so it sees a reset state.\<close>

lemma throttle_apply_reset:
  "throttle_apply cfg t op (check_and_reset_counters t u) = throttle_apply cfg t op u"
  by (cases op) (simp_all add: check_token_rate_limit_def track_request_def
        get_rate_limit_status_def Let_def)

lemma throttle_apply_expired:
  "t - last_reset u > 60 \<Longrightarrow> throttle_apply cfg t op u = throttle_apply cfg t op (initial_usage t)"
  by (metis check_and_reset_expired throttle_apply_reset)

lemma last_reset_throttle_apply:
  "last_reset (snd (throttle_apply cfg t op u)) = last_reset (check_and_reset_counters t u)"
  by (cases op) (simp_all add: check_token_rate_limit_def track_request_def
        get_rate_limit_status_def Let_def)

lemma throttle_apply_usage_inv:
  assumes "usage_inv cfg u" and "op_wf op"
  shows "usage_inv cfg (snd (throttle_apply cfg t op u))"
proof -
  have u1: "usage_inv cfg (check_and_reset_counters t u)"
    using assms(1) by simp
  show ?thesis
  proof (cases op)
    case (Admit_Tokens n)
    with u1 assms(2) show ?thesis
      by (auto simp: check_token_rate_limit_def usage_inv_def Let_def)
  next
    case Track_Request
    with u1 show ?thesis
      by (auto simp: track_request_def usage_inv_def Let_def)
  next
    case (Get_Status t2)
    with u1 show ?thesis
      by (simp add: get_rate_limit_status_def Let_def)
  qed
qed

lemma tokens_used_throttle_apply:
  "\<not> t - last_reset u > 60 \<Longrightarrow>
   tokens_used (snd (throttle_apply cfg t op u)) =
   tokens_used u + admitted op (fst (throttle_apply cfg t op u))"
  by (cases op) (auto simp: check_token_rate_limit_def track_request_def
        get_rate_limit_status_def Let_def)

lemma last_reset_throttle_apply_fresh:
  "\<not> t - last_reset u > 60 \<Longrightarrow> last_reset (snd (throttle_apply cfg t op u)) = last_reset u"
  by (simp add: last_reset_throttle_apply)

lemma length_throttle_run [simp]: "length (snd (throttle_run cfg u es)) = length es"
  by (induction cfg u es rule: throttle_run.induct) (auto split: prod.splits)

lemma throttle_run_Cons_eq [simp]:
  "throttle_run cfg u ((t, op) # es) =
   (fst (throttle_run cfg (snd (throttle_apply cfg t op u)) es),
    fst (throttle_apply cfg t op u) # snd (throttle_run cfg (snd (throttle_apply cfg t op u)) es))"
  by (simp split: prod.splits)

declare throttle_run.simps(2) [simp del]

lemma throttle_run_append:
  "throttle_run cfg u (xs @ ys) =
   (fst (throttle_run cfg (fst (throttle_run cfg u xs)) ys),
    snd (throttle_run cfg u xs) @ snd (throttle_run cfg (fst (throttle_run cfg u xs)) ys))"
proof (induction xs arbitrary: u)
  case Nil
  then show ?case by simp
next
  case (Cons e xs)
  then show ?case by (cases e) simp
qed

lemma check_token_rate_limit_fresh:
  "\<not> t - last_reset u > 60 \<Longrightarrow>
   check_token_rate_limit cfg t n u =
     (if tokens_used u + n > tokens_per_minute cfg then (False, u)
      else (True, u\<lparr>tokens_used := tokens_used u + n\<rparr>))"
  by (simp add: check_token_rate_limit_def)

lemma track_request_admits [simp]:
  "requests_used (check_and_reset_counters t u) < requests_per_minute cfg \<Longrightarrow>
   track_request cfg t u =
     (Inr (), (check_and_reset_counters t u)\<lparr>requests_used := requests_used (check_and_reset_counters t u) + 1\<rparr>)"
  by (simp add: track_request_def Let_def)

lemma track_request_rejects [simp]:
  "requests_per_minute cfg \<le> requests_used (check_and_reset_counters t u) \<Longrightarrow>
   track_request cfg t u =
     (Inl (APIError (rate_limit_error ''Request'' (requests_per_minute cfg))), check_and_reset_counters t u)"
  by (simp add: track_request_def Let_def)

lemma py_int_window_bounds:
  "0 \<le> x \<Longrightarrow> x \<le> 60 \<Longrightarrow> 0 \<le> py_int x \<and> py_int x \<le> 60"
  by (simp add: floor_le_iff)

section \<open>The throttle as a state machine\<close>

text \<open>
  The states the shared dictionary can reach: it is created at some clock
  reading, and then any caller applies any well-formed operation at a later
  clock reading.  Which request runs next is not determined, so this is a
  relation; the clock is part of the state.
\<close>

inductive throttle_reachable :: "rate_config \<Rightarrow> timestamp \<Rightarrow> usage \<Rightarrow> bool" for cfg where
  boot: "throttle_reachable cfg t (initial_usage t)"
| step: "throttle_reachable cfg t u \<Longrightarrow> t \<le> t' \<Longrightarrow> op_wf op \<Longrightarrow>
         throttle_reachable cfg t' (snd (throttle_apply cfg t' op u))"

section \<open>Boundary burst\<close>

text \<open>
  The tokens admitted by a run at clock readings inside the closed
  interval \<open>[a, a + 60]\<close>.
\<close>

definition burst_tokens ::
  "timestamp \<Rightarrow> (timestamp \<times> throttle_op) list \<Rightarrow> throttle_result list \<Rightarrow> int" where
  "burst_tokens a es rs =
     sum_list (map2 (\<lambda>e r. if a \<le> fst e \<and> fst e \<le> a + 60 then admitted (snd e) r else 0) es rs)"

lemma admitted_nonneg: "op_wf op \<Longrightarrow> 0 \<le> admitted op r"
  by (cases "(op, r)" rule: admitted.cases) auto

lemma tokens_used_throttle_apply_any:
  "tokens_used (snd (throttle_apply cfg t op u)) =
   tokens_used (check_and_reset_counters t u) + admitted op (fst (throttle_apply cfg t op u))"
proof (cases "t - last_reset u > 60")
  case True
  have "\<not> t - last_reset (initial_usage t) > 60" by simp
  then show ?thesis
    using True tokens_used_throttle_apply [of t "initial_usage t" cfg op]
    by (simp add: throttle_apply_expired [OF True])
qed (simp add: tokens_used_throttle_apply)

text \<open>
  The invariant of the bound: \<open>p\<close> counts the tokens admitted inside the
  interval in earlier windows, \<open>c\<close> those of the current window, and
  \<open>tc\<close> is the clock reading of the last operation.  At most two windows
  contribute, because a window only expires more than 60 seconds after it
  started.
\<close>

definition burst_inv :: "rate_config \<Rightarrow> timestamp \<Rightarrow> usage \<Rightarrow> timestamp \<Rightarrow> int \<Rightarrow> int \<Rightarrow> bool" where
  "burst_inv cfg a u tc p c \<longleftrightarrow>
     usage_inv cfg u \<and> last_reset u \<le> tc \<and> 0 \<le> c \<and> c \<le> tokens_used u \<and> 0 \<le> p \<and>
     (0 < p \<longrightarrow> a \<le> last_reset u) \<and> (0 < c \<longrightarrow> a \<le> tc) \<and>
     (p \<le> tokens_per_minute cfg \<or> a + 60 < tc) \<and> p + c \<le> 2 * tokens_per_minute cfg"

text \<open>The tokens one operation admits inside the interval.\<close>

definition burst_admit :: "rate_config \<Rightarrow> timestamp \<Rightarrow> timestamp \<Rightarrow> throttle_op \<Rightarrow> usage \<Rightarrow> int" where
  "burst_admit cfg a t op u =
     (if a \<le> t \<and> t \<le> a + 60 then admitted op (fst (throttle_apply cfg t op u)) else 0)"

lemma burst_admit_bounds:
  assumes "op_wf op"
  shows "0 \<le> burst_admit cfg a t op u"
    and "burst_admit cfg a t op u \<le> admitted op (fst (throttle_apply cfg t op u))"
  using admitted_nonneg [OF assms, of "fst (throttle_apply cfg t op u)"]
  by (auto simp: burst_admit_def)

lemma burst_inv_reset:
  assumes inv: "burst_inv cfg a u tc p c" and tpm: "0 \<le> tokens_per_minute cfg"
    and wf: "op_wf op" and tt: "tc \<le> t" and exp: "t - last_reset u > 60"
  shows "burst_inv cfg a (snd (throttle_apply cfg t op u)) t (p + c) (burst_admit cfg a t op u)"
proof -
  let ?u' = "snd (throttle_apply cfg t op u)"
  have lr: "last_reset ?u' = t" using exp by (simp add: last_reset_throttle_apply)
  have tu: "tokens_used ?u' = admitted op (fst (throttle_apply cfg t op u))"
    using exp by (simp add: tokens_used_throttle_apply_any)
  have inv': "usage_inv cfg ?u'" using throttle_apply_usage_inv inv wf by (simp add: burst_inv_def)
  have cap: "tokens_used ?u' \<le> tokens_per_minute cfg" and c_cap: "c \<le> tokens_per_minute cfg"
    using inv' inv tpm by (auto simp: usage_inv_def burst_inv_def)
  have p0: "a + 60 < t \<or> p = 0" using inv exp by (auto simp: burst_inv_def)
  show ?thesis
    using inv inv' lr tu tt cap c_cap p0 burst_admit_bounds [OF wf, of cfg a t u]
    by (auto simp: burst_inv_def burst_admit_def)
qed

lemma burst_inv_fresh:
  assumes inv: "burst_inv cfg a u tc p c" and tpm: "0 \<le> tokens_per_minute cfg"
    and wf: "op_wf op" and tt: "tc \<le> t" and fresh: "\<not> t - last_reset u > 60"
  shows "burst_inv cfg a (snd (throttle_apply cfg t op u)) t p (c + burst_admit cfg a t op u)"
proof -
  let ?u' = "snd (throttle_apply cfg t op u)"
  have lr: "last_reset ?u' = last_reset u" using fresh by (rule last_reset_throttle_apply_fresh)
  have tu: "tokens_used ?u' = tokens_used u + admitted op (fst (throttle_apply cfg t op u))"
    using fresh by (rule tokens_used_throttle_apply)
  have inv': "usage_inv cfg ?u'" using throttle_apply_usage_inv inv wf by (simp add: burst_inv_def)
  have cap: "tokens_used ?u' \<le> tokens_per_minute cfg" using inv' tpm by (simp add: usage_inv_def)
  have in_p: "a \<le> t \<and> t \<le> a + 60 \<Longrightarrow> p \<le> tokens_per_minute cfg" using inv tt by (auto simp: burst_inv_def)
  show ?thesis
    using inv inv' lr tu tt cap in_p burst_admit_bounds [OF wf, of cfg a t u]
    by (auto simp: burst_inv_def burst_admit_def)
qed

lemma burst_aux:
  assumes "burst_inv cfg a u tc p c" and "0 \<le> tokens_per_minute cfg"
    and "\<forall>e \<in> set es. op_wf (snd e)" and "sorted (tc # map fst es)"
  shows "p + c + burst_tokens a es (snd (throttle_run cfg u es)) \<le> 2 * tokens_per_minute cfg"
  using assms
proof (induction es arbitrary: u tc p c)
  case Nil
  then show ?case by (simp add: burst_tokens_def burst_inv_def)
next
  case (Cons e es)
  obtain t op where e: "e = (t, op)" by (cases e)
  have wf: "op_wf op" and tt: "tc \<le> t" and srt: "sorted (t # map fst es)"
    using Cons.prems(3,4) e by simp_all
  have rest: "burst_tokens a (e # es) (snd (throttle_run cfg u (e # es))) =
              burst_admit cfg a t op u + burst_tokens a es (snd (throttle_run cfg (snd (throttle_apply cfg t op u)) es))"
    by (simp add: e burst_tokens_def burst_admit_def)
  show ?case
  proof (cases "t - last_reset u > 60")
    case True
    from Cons.IH [OF burst_inv_reset [OF Cons.prems(1,2) wf tt True] Cons.prems(2) _ srt] Cons.prems(3)
    show ?thesis using rest by simp
  next
    case False
    from Cons.IH [OF burst_inv_fresh [OF Cons.prems(1,2) wf tt False] Cons.prems(2) _ srt] Cons.prems(3)
    show ?thesis using rest by simp
  qed
qed

section \<open>Properties\<close>

text \<open>
  C1: The counters stay within their bounds along any sequence of
  throttle operations: neither counter is ever negative, the token counter
  never exceeds the token limit and the request counter never exceeds the
  request limit (both read as 0 when the limit is negative).
\<close>

theorem throttle_run_usage_inv:
  assumes "usage_inv cfg u" and "\<forall>e \<in> set es. op_wf (snd e)"
  shows "usage_inv cfg (fst (throttle_run cfg u es))"
  using assms
proof (induction es arbitrary: u)
  case Nil
  then show ?case by simp
next
  case (Cons e es)
  obtain t op where e: "e = (t, op)" by (cases e)
  with Cons.prems have "usage_inv cfg (snd (throttle_apply cfg t op u))"
    by (simp add: throttle_apply_usage_inv)
  with Cons.IH Cons.prems e show ?case
    by simp
qed

theorem throttle_run_usage_inv_witness:
  "usage_inv default_rate_config
     (fst (throttle_run default_rate_config (initial_usage 0)
        [(1, Admit_Tokens 5), (2, Track_Request), (3, Get_Status 4)]))"
  by (rule throttle_run_usage_inv) simp_all

text \<open>
  Fixed-window reset: once the window has expired when an operation
  arrives, everything that happened before is forgotten.  The rest of the
  run, from that operation on, behaves exactly as if the dictionary had
  just been created at that operation's clock reading.
\<close>

theorem throttle_run_forgets_expired_window:
  assumes "t - last_reset (fst (throttle_run cfg u pre)) > 60"
  shows "throttle_run cfg u (pre @ (t, op) # post) =
         (fst (throttle_run cfg (initial_usage t) ((t, op) # post)),
          snd (throttle_run cfg u pre) @ snd (throttle_run cfg (initial_usage t) ((t, op) # post)))"
proof -
  let ?u1 = "fst (throttle_run cfg u pre)"
  have "throttle_apply cfg t op ?u1 = throttle_apply cfg t op (initial_usage t)"
    using assms by (rule throttle_apply_expired)
  then have "throttle_run cfg ?u1 ((t, op) # post) =
             throttle_run cfg (initial_usage t) ((t, op) # post)"
    by (simp only: throttle_run_Cons_eq)
  then show ?thesis
    by (simp only: throttle_run_append)
qed

theorem throttle_run_forgets_expired_window_witness:
  "throttle_run default_rate_config (initial_usage 0)
     ([(1, Admit_Tokens 5)] @ (100, Track_Request) # []) =
   (fst (throttle_run default_rate_config (initial_usage 100) [(100, Track_Request)]),
    snd (throttle_run default_rate_config (initial_usage 0) [(1, Admit_Tokens 5)]) @
    snd (throttle_run default_rate_config (initial_usage 100) [(100, Track_Request)]))"
  by (rule throttle_run_forgets_expired_window)
     (simp add: check_token_rate_limit_def default_rate_config_def)

text \<open>
  Exactly-once token accounting: while no operation of a run finds the
  window expired, the token counter at the end is the counter at the start
  plus the tokens of exactly the token checks that were admitted.
\<close>

theorem throttle_run_counts_admitted:
  assumes "\<forall>(t, op) \<in> set es. \<not> t - last_reset u > 60"
  shows "tokens_used (fst (throttle_run cfg u es)) =
         tokens_used u + sum_list (map2 admitted (map snd es) (snd (throttle_run cfg u es)))"
  using assms
proof (induction es arbitrary: u)
  case Nil
  then show ?case by simp
next
  case (Cons e es)
  obtain t op where e: "e = (t, op)" by (cases e)
  let ?u' = "snd (throttle_apply cfg t op u)"
  have fresh: "\<not> t - last_reset u > 60" using Cons.prems e by auto
  then have "last_reset ?u' = last_reset u" by (rule last_reset_throttle_apply_fresh)
  with Cons.prems have "\<forall>(t, op) \<in> set es. \<not> t - last_reset ?u' > 60" by auto
  then have IH: "tokens_used (fst (throttle_run cfg ?u' es)) =
      tokens_used ?u' + sum_list (map2 admitted (map snd es) (snd (throttle_run cfg ?u' es)))"
    by (rule Cons.IH)
  have "tokens_used ?u' = tokens_used u + admitted op (fst (throttle_apply cfg t op u))"
    using fresh by (rule tokens_used_throttle_apply)
  with IH e show ?case by simp
qed

theorem throttle_run_counts_admitted_witness:
  "tokens_used (fst (throttle_run default_rate_config (initial_usage 0)
      [(1, Admit_Tokens 5), (2, Admit_Tokens 7)])) =
   tokens_used (initial_usage 0) +
   sum_list (map2 admitted (map snd [(1::real, Admit_Tokens 5), (2, Admit_Tokens 7)])
     (snd (throttle_run default_rate_config (initial_usage 0)
        [(1, Admit_Tokens 5), (2, Admit_Tokens 7)])))"
  by (rule throttle_run_counts_admitted) simp

text \<open>
  No over-admission: a sequence of single-token checks inside one
  window, in whatever order the requests issue them, admits exactly as many
  as the remaining budget allows (N checks against a budget of N - 1 admit
  N - 1 and reject one).
\<close>

theorem admit_ones_successes:
  assumes "\<forall>t \<in> set ts. \<not> t - last_reset u > 60"
    and "0 \<le> tokens_used u" and "tokens_used u \<le> tokens_per_minute cfg"
  shows "count_list (snd (throttle_run cfg u (map (\<lambda>t. (t, Admit_Tokens 1)) ts)))
           (Tokens_Admitted True) =
         min (length ts) (nat (tokens_per_minute cfg - tokens_used u))"
  using assms
proof (induction ts arbitrary: u)
  case Nil
  then show ?case by simp
next
  case (Cons t ts)
  have fresh: "\<not> t - last_reset u > 60" using Cons.prems(1) by simp
  show ?case
  proof (cases "tokens_used u + 1 > tokens_per_minute cfg")
    case True
    with Cons.prems have full: "tokens_used u = tokens_per_minute cfg" by simp
    from Cons.prems full have
      "count_list (snd (throttle_run cfg u (map (\<lambda>t. (t, Admit_Tokens 1)) ts)))
         (Tokens_Admitted True) = 0"
      using Cons.IH [of u] by simp
    with True fresh full show ?thesis by (simp add: check_token_rate_limit_fresh)
  next
    case False
    let ?u' = "u\<lparr>tokens_used := tokens_used u + 1\<rparr>"
    from Cons.prems False have
      "count_list (snd (throttle_run cfg ?u' (map (\<lambda>t. (t, Admit_Tokens 1)) ts)))
         (Tokens_Admitted True) = min (length ts) (nat (tokens_per_minute cfg - tokens_used ?u'))"
      by (intro Cons.IH) auto
    moreover have "nat (tokens_per_minute cfg - tokens_used u) =
                   Suc (nat (tokens_per_minute cfg - (tokens_used u + 1)))"
      using False by simp
    ultimately show ?thesis using False fresh by (simp add: check_token_rate_limit_fresh)
  qed
qed

theorem admit_ones_successes_witness:
  "count_list (snd (throttle_run \<lparr>requests_per_minute = 60, tokens_per_minute = 2\<rparr>
      (initial_usage 0) (map (\<lambda>t. (t, Admit_Tokens 1)) [1, 2, 3])))
     (Tokens_Admitted True) = 2"
  using admit_ones_successes [of "[1, 2, 3]" "initial_usage 0"
      "\<lparr>requests_per_minute = 60, tokens_per_minute = 2\<rparr>"]
  by simp

text \<open>
  Reading the status is idempotent inside a window: a second read whose
  window has not expired leaves the dictionary unchanged and reports the
  same used counts as the first.
\<close>

theorem status_read_idempotent:
  assumes "get_rate_limit_status cfg t1 t2 u = (s, u')"
    and "\<not> t3 - last_reset u' > 60"
    and "get_rate_limit_status cfg t3 t4 u' = (s', u'')"
  shows "u'' = u' \<and> used (requests s') = used (requests s) \<and> used (tokens s') = used (tokens s)"
  using assms by (auto simp: get_rate_limit_status_def Let_def)

theorem status_read_idempotent_witness:
  "snd (get_rate_limit_status default_rate_config 30 31
          (snd (get_rate_limit_status default_rate_config 10 11 (initial_usage 0)))) =
   snd (get_rate_limit_status default_rate_config 10 11 (initial_usage 0))"
proof -
  let ?u' = "snd (get_rate_limit_status default_rate_config 10 11 (initial_usage 0))"
  have "snd (get_rate_limit_status default_rate_config 30 31 ?u') = ?u' \<and> True"
    using status_read_idempotent
      [of default_rate_config 10 11 "initial_usage 0"
          "fst (get_rate_limit_status default_rate_config 10 11 (initial_usage 0))" ?u'
          30 31 "fst (get_rate_limit_status default_rate_config 30 31 ?u')"
          "snd (get_rate_limit_status default_rate_config 30 31 ?u')"]
    by (simp add: get_rate_limit_status_def initial_usage_def)
  then show ?thesis by simp
qed

text \<open>
  Bounds of the status report: with the counters within their bounds,
  the clock not running backwards and a non-negative token limit, both
  remaining counts are non-negative and the seconds until the reset lie
  between 0 and 60 and agree for requests and tokens.
\<close>

theorem status_bounds:
  assumes "usage_inv cfg u" and "last_reset u \<le> t_check" and "t_check \<le> t_read"
    and "0 \<le> tokens_per_minute cfg"
    and "s = fst (get_rate_limit_status cfg t_check t_read u)"
  shows "0 \<le> remaining (requests s) \<and> 0 \<le> remaining (tokens s) \<and>
         0 \<le> reset_after_seconds (tokens s) \<and> reset_after_seconds (tokens s) \<le> 60 \<and>
         reset_after_seconds (requests s) = reset_after_seconds (tokens s)"
proof -
  let ?u1 = "check_and_reset_counters t_check u"
  have inv: "usage_inv cfg ?u1" using assms(1) by simp
  have lr: "last_reset ?u1 \<le> t_read"
    using last_reset_check_and_reset_le [OF assms(2)] assms(3) by simp
  let ?x = "max 0 (60 - (t_read - last_reset ?u1))"
  have "0 \<le> ?x" and "?x \<le> 60" using lr by auto
  then have "0 \<le> py_int ?x \<and> py_int ?x \<le> 60" by (rule py_int_window_bounds)
  with inv assms(4,5) show ?thesis
    by (auto simp: get_rate_limit_status_def Let_def usage_inv_def simp del: py_int_nonneg)
qed

theorem status_bounds_witness:
  "reset_after_seconds (tokens (fst (get_rate_limit_status default_rate_config 20 25 (initial_usage 0)))) \<le> 60"
  using status_bounds [of default_rate_config "initial_usage 0" 20 25
      "fst (get_rate_limit_status default_rate_config 20 25 (initial_usage 0))"]
  by (simp add: default_rate_config_def)

text \<open>
  In every state the shared dictionary can reach, under any
  interleaving of the operations of concurrent requests at non-decreasing
  clock readings, the counters are within their bounds and the window was
  started at most 60 seconds before the last operation.
\<close>

theorem throttle_reachable_inv:
  "throttle_reachable cfg t u \<Longrightarrow>
   usage_inv cfg u \<and> last_reset u \<le> t \<and> t - last_reset u \<le> 60"
proof (induction rule: throttle_reachable.induct)
  case (boot t)
  show ?case by simp
next
  case (step t u t' op)
  then have lr: "last_reset u \<le> t'" by simp
  have "usage_inv cfg (snd (throttle_apply cfg t' op u))"
    using step by (simp add: throttle_apply_usage_inv)
  moreover have "last_reset (snd (throttle_apply cfg t' op u)) \<le> t'"
    using last_reset_check_and_reset_le [OF lr] by (simp add: last_reset_throttle_apply)
  moreover have "\<not> t' - last_reset (snd (throttle_apply cfg t' op u)) > 60"
    using fresh_after_check_and_reset [OF lr] by (simp add: last_reset_throttle_apply)
  ultimately show ?case by simp
qed

theorem throttle_reachable_inv_witness:
  "usage_inv default_rate_config
     (snd (throttle_apply default_rate_config 70 (Admit_Tokens 3) (initial_usage 0)))"
proof -
  have "throttle_reachable default_rate_config 70
          (snd (throttle_apply default_rate_config 70 (Admit_Tokens 3) (initial_usage 0)))"
    by (rule throttle_reachable.step [OF throttle_reachable.boot]) simp_all
  then show ?thesis by (blast dest: throttle_reachable_inv)
qed

text \<open>
  A request check admits exactly when the (reset) request counter is
  below the limit, and then counts the request once; a rejected request
  raises the \<open>Request\<close> rate-limit error for the configured limit and is
  not counted.  Neither branch touches the token counter.
\<close>

theorem track_request_counts_once:
  assumes "track_request cfg t u = (r, u')"
  shows "(r = Inr () \<longleftrightarrow> requests_used (check_and_reset_counters t u) < requests_per_minute cfg) \<and>
         requests_used u' = requests_used (check_and_reset_counters t u) + (if r = Inr () then 1 else 0) \<and>
         tokens_used u' = tokens_used (check_and_reset_counters t u) \<and>
         (r \<noteq> Inr () \<longrightarrow> r = Inl (APIError (rate_limit_error ''Request'' (requests_per_minute cfg))))"
  using assms by (auto simp: track_request_def Let_def split: if_splits)

theorem track_request_counts_once_witness:
  "requests_used (snd (track_request default_rate_config 5 (initial_usage 0))) = 1"
proof -
  obtain r u' where ru: "track_request default_rate_config 5 (initial_usage 0) = (r, u')"
    by (cases "track_request default_rate_config 5 (initial_usage 0)")
  have "r = Inr ()"
    using track_request_counts_once [OF ru]
    by (simp add: default_rate_config_def initial_usage_def)
  with track_request_counts_once [OF ru] ru show ?thesis
    by (simp add: initial_usage_def)
qed

text \<open>
  C34: The boundary burst is at most twice the budget, the trade-off the
  fixed window accepts: along any run of well-formed operations at
  non-decreasing clock readings, from counters within their bounds, the
  tokens admitted at clock readings inside any 60-second interval add up
  to at most twice the token limit.  The bound is reached (witness).
\<close>

theorem throttle_burst_at_most_twice:
  assumes "usage_inv cfg u" and "0 \<le> tokens_per_minute cfg"
    and "\<forall>e \<in> set es. op_wf (snd e)" and "sorted (map fst es)"
    and "\<forall>e \<in> set es. last_reset u \<le> fst e"
  shows "burst_tokens a es (snd (throttle_run cfg u es)) \<le> 2 * tokens_per_minute cfg"
proof -
  have srt: "sorted (last_reset u # map fst es)" using assms(4,5) by simp
  have "burst_inv cfg a u (last_reset u) 0 0" using assms(1,2) by (simp add: burst_inv_def usage_inv_def)
  then have "0 + 0 + burst_tokens a es (snd (throttle_run cfg u es)) \<le> 2 * tokens_per_minute cfg"
    using assms(2,3) srt by (rule burst_aux)
  then show ?thesis by simp
qed

theorem throttle_burst_at_most_twice_witness:
  "burst_tokens 59 [(59, Admit_Tokens 5), (61, Admit_Tokens 5)]
     (snd (throttle_run \<lparr>requests_per_minute = 60, tokens_per_minute = 5\<rparr> (initial_usage 0)
        [(59, Admit_Tokens 5), (61, Admit_Tokens 5)])) \<le> 2 * 5 \<and>
   burst_tokens 59 [(59, Admit_Tokens 5), (61, Admit_Tokens 5)]
     (snd (throttle_run \<lparr>requests_per_minute = 60, tokens_per_minute = 5\<rparr> (initial_usage 0)
        [(59, Admit_Tokens 5), (61, Admit_Tokens 5)])) = 10"
proof
  show "burst_tokens 59 [(59, Admit_Tokens 5), (61, Admit_Tokens 5)]
     (snd (throttle_run \<lparr>requests_per_minute = 60, tokens_per_minute = 5\<rparr> (initial_usage 0)
        [(59, Admit_Tokens 5), (61, Admit_Tokens 5)])) \<le> 2 * 5"
    using throttle_burst_at_most_twice [of "\<lparr>requests_per_minute = 60, tokens_per_minute = 5\<rparr>"
        "initial_usage 0" "[(59, Admit_Tokens 5), (61, Admit_Tokens 5)]" 59]
    by simp
  show "burst_tokens 59 [(59, Admit_Tokens 5), (61, Admit_Tokens 5)]
     (snd (throttle_run \<lparr>requests_per_minute = 60, tokens_per_minute = 5\<rparr> (initial_usage 0)
        [(59, Admit_Tokens 5), (61, Admit_Tokens 5)])) = 10"
    by (simp add: burst_tokens_def check_token_rate_limit_def)
qed

end
