(* ===== verification/ThreadStore.thy ===== *)
theory ThreadStore
  imports Errors
begin

text \<open>
  The persistent chat store: the two tables of \<open>app/models/chat.py\<close>
  (\<open>threads\<close>, \<open>conversations\<close>), the CRUD functions of
  \<open>app/crud/chat.py\<close> and the service layer of
  \<open>app/threads/thread_service.py\<close>.  A table is a list of rows in commit
  order; the UUID default \<open>uuid.uuid4\<close> draws from the counter
  \<open>next_key\<close>; \<open>server_default=func.now()\<close> and \<open>datetime.utcnow()\<close> are
  the clock reading \<open>now\<close> passed to the operation (one reading per
  service call).  \<open>ORDER BY created_at\<close> is a stable sort of the commit
  order, which is one of the orders the database may return for equal
  timestamps.
\<close>

section \<open>Rows and the store\<close>

record thread =
  thread_pk :: uuid
  title :: string
  owner :: uuid
  thread_created_at :: timestamp
  updated_at :: "timestamp option"
  is_archived :: "bool option"

record conversation =
  conv_pk :: uuid
  conv_thread :: uuid
  role :: string
  content :: string
  conv_created_at :: timestamp
  model :: "string option"
  token_count :: "int option"

record store =
  threads :: "thread list"
  conversations :: "conversation list"
  next_key :: uuid

definition empty_store :: store where
  "empty_store = \<lparr>threads = [], conversations = [], next_key = 0\<rparr>"

text \<open>
  \<open>ThreadUpdate\<close> with \<open>model_dump(exclude_unset=True)\<close>: a field is unset
  (\<open>None\<close>), or set to a value that may itself be JSON \<open>null\<close>.
\<close>

record thread_update =
  upd_title :: "string option option"
  upd_is_archived :: "bool option option"

text \<open>The message dictionaries handed to \<open>add_messages_to_thread\<close>.\<close>

record message_in =
  msg_content :: string
  msg_model :: "string option"
  msg_token_count :: "int option"

section \<open>CRUD (crud/chat.py)\<close>

text \<open>
  The title column is \<open>String(255)\<close>: PostgreSQL refuses a longer value at
  commit (the schemas set no maximum length), the session is rolled back
  and the error raised.
\<close>

definition title_fits :: "string \<Rightarrow> bool" where
  [simp]: "title_fits t = (length t \<le> 255)"

definition title_too_long_error :: py_exc where
  "title_too_long_error = DB_Error ''value too long for type character varying(255)''"

definition crud_create_thread :: "string \<Rightarrow> uuid \<Rightarrow> timestamp \<Rightarrow> store \<Rightarrow> py_exc + thread \<times> store" where
  "crud_create_thread t user_id now st =
     (let th = \<lparr>thread_pk = next_key st, title = t, owner = user_id,
                thread_created_at = now, updated_at = None, is_archived = Some False\<rparr>
      in if title_fits t then Inr (th, st\<lparr>threads := threads st @ [th], next_key := Suc (next_key st)\<rparr>)
         else Inl title_too_long_error)"

definition crud_get_thread :: "uuid \<Rightarrow> store \<Rightarrow> thread option" where
  "crud_get_thread tid st = find (\<lambda>th. thread_pk th = tid) (threads st)"

definition get_user_threads :: "uuid \<Rightarrow> store \<Rightarrow> thread list" where
  "get_user_threads user_id st = filter (\<lambda>th. owner th = user_id) (threads st)"

text \<open>
  \<open>setattr\<close> of each provided field; SQLAlchemy emits an UPDATE only for
  a changed value, and then \<open>onupdate=func.now()\<close> stamps \<open>updated_at\<close>.
  \<open>title\<close> is \<open>NOT NULL\<close> and \<open>String(255)\<close>: a \<open>null\<close> or a longer
  title fails at commit, the session is rolled back and the error re-raised.
\<close>

definition apply_thread_update :: "thread_update \<Rightarrow> thread \<Rightarrow> thread" where
  "apply_thread_update d th =
     (let th1 = (case upd_title d of Some (Some t) \<Rightarrow> th\<lparr>title := t\<rparr> | _ \<Rightarrow> th);
          th2 = (case upd_is_archived d of Some a \<Rightarrow> th1\<lparr>is_archived := a\<rparr> | None \<Rightarrow> th1)
      in th2)"

definition crud_update_thread ::
  "uuid \<Rightarrow> thread_update \<Rightarrow> timestamp \<Rightarrow> store \<Rightarrow> py_exc + (thread option \<times> store)" where
  "crud_update_thread tid d now st =
     (case crud_get_thread tid st of
        None \<Rightarrow> Inr (None, st)
      | Some th \<Rightarrow>
          if upd_title d = Some None
          then Inl (DB_Error ''null value in column \"title\" violates not-null constraint'')
          else if (case upd_title d of Some (Some t) \<Rightarrow> title_fits t | _ \<Rightarrow> True) then
            (let th' = apply_thread_update d th;
                 th'' = (if th' = th then th else th'\<lparr>updated_at := Some now\<rparr>)
             in Inr (Some th'',
                     st\<lparr>threads := map (\<lambda>x. if thread_pk x = tid then th'' else x) (threads st)\<rparr>))
          else Inl title_too_long_error)"

text \<open>Deleting a thread deletes its conversations (ORM cascade and \<open>ON DELETE CASCADE\<close>).\<close>

definition crud_delete_thread :: "uuid \<Rightarrow> store \<Rightarrow> bool \<times> store" where
  "crud_delete_thread tid st =
     (case crud_get_thread tid st of
        None \<Rightarrow> (False, st)
      | Some th \<Rightarrow> (True, st\<lparr>threads := filter (\<lambda>x. thread_pk x \<noteq> tid) (threads st),
                            conversations := filter (\<lambda>c. conv_thread c \<noteq> tid) (conversations st)\<rparr>))"

definition create_conversation ::
  "uuid \<Rightarrow> string \<Rightarrow> string \<Rightarrow> string option \<Rightarrow> int option \<Rightarrow> timestamp \<Rightarrow> store \<Rightarrow>
   conversation \<times> store" where
  "create_conversation tid r c m tc now st =
     (let cv = \<lparr>conv_pk = next_key st, conv_thread = tid, role = r, content = c,
                conv_created_at = now, model = m, token_count = tc\<rparr>
      in (cv, st\<lparr>conversations := conversations st @ [cv], next_key := Suc (next_key st)\<rparr>))"

text \<open>\<open>ORDER BY created_at ASC\<close>, \<open>OFFSET skip\<close>, \<open>LIMIT limit\<close>.\<close>

definition thread_rows :: "uuid \<Rightarrow> store \<Rightarrow> conversation list" where
  "thread_rows tid st = sort_key conv_created_at (filter (\<lambda>c. conv_thread c = tid) (conversations st))"

definition get_thread_conversations :: "uuid \<Rightarrow> nat \<Rightarrow> nat \<Rightarrow> store \<Rightarrow> conversation list" where
  "get_thread_conversations tid skip limit_n st = take limit_n (drop skip (thread_rows tid st))"

section \<open>Service layer (threads/thread_service.py)\<close>

definition create_thread :: "string \<Rightarrow> uuid \<Rightarrow> timestamp \<Rightarrow> store \<Rightarrow> py_exc + thread \<times> store" where
  "create_thread t user_id now st = crud_create_thread t user_id now st"

text \<open>The service functions that only forward to the CRUD layer.\<close>

definition get_thread :: "uuid \<Rightarrow> store \<Rightarrow> thread option" where
  [simp]: "get_thread tid st = crud_get_thread tid st"

definition get_all_threads :: "uuid \<Rightarrow> store \<Rightarrow> thread list" where
  [simp]: "get_all_threads user_id st = get_user_threads user_id st"

definition update_thread ::
  "uuid \<Rightarrow> thread_update \<Rightarrow> timestamp \<Rightarrow> store \<Rightarrow> py_exc + (thread option \<times> store)" where
  [simp]: "update_thread tid d now st = crud_update_thread tid d now st"

definition delete_thread :: "uuid \<Rightarrow> store \<Rightarrow> bool \<times> store" where
  [simp]: "delete_thread tid st = crud_delete_thread tid st"

definition get_thread_messages :: "uuid \<Rightarrow> store \<Rightarrow> conversation list" where
  "get_thread_messages tid st = get_thread_conversations tid 0 100 st"

text \<open>\<open>SUM(token_count)\<close> over the non-null counts; \<open>NULL\<close> (no rows) becomes 0.\<close>

definition get_thread_token_count :: "uuid \<Rightarrow> store \<Rightarrow> int" where
  "get_thread_token_count tid st =
     sum_list (map (\<lambda>c. the (token_count c))
       (filter (\<lambda>c. conv_thread c = tid \<and> token_count c \<noteq> None) (conversations st)))"

record history_item =
  h_role :: string
  h_parts :: "string list"

definition get_thread_messages_optimized :: "uuid \<Rightarrow> store \<Rightarrow> history_item list" where
  "get_thread_messages_optimized tid st =
     map (\<lambda>c. \<lparr>h_role = role c, h_parts = [content c]\<rparr>) (thread_rows tid st)"

text \<open>
  \<open>add_messages_to_thread\<close>: nothing when the thread is missing; otherwise
  the user turn, then the model turn (each only if given, each with its
  count or, when that is missing or 0, the tokenizer's), then the thread's
  \<open>updated_at\<close>, then the commit.
\<close>

definition add_messages_to_thread ::
  "tokenizer \<Rightarrow> uuid \<Rightarrow> message_in option \<Rightarrow> message_in option \<Rightarrow> timestamp \<Rightarrow> store \<Rightarrow>
   bool \<times> store" where
  "add_messages_to_thread tok tid user_message assistant_response now st =
     (case crud_get_thread tid st of
        None \<Rightarrow> (False, st)
      | Some th \<Rightarrow>
          (let st1 = (case user_message of None \<Rightarrow> st
                       | Some um \<Rightarrow> snd (create_conversation tid ''user'' (msg_content um) None
                                     (Some (py_or (msg_token_count um) (tok (msg_content um)))) now st));
               st2 = (case assistant_response of None \<Rightarrow> st1
                       | Some am \<Rightarrow> snd (create_conversation tid ''model'' (msg_content am) (msg_model am)
                                     (Some (py_or (msg_token_count am) (tok (msg_content am)))) now st1));
               st3 = st2\<lparr>threads := map (\<lambda>x. if thread_pk x = tid then x\<lparr>updated_at := Some now\<rparr> else x)
                                        (threads st2)\<rparr>
           in (True, st3)))"

text \<open>
  \<open>DELETE /threads/{id}/messages\<close> deletes the thread's conversations with
  one bulk query (the statement lives in the route, app/api/routes/threads.py).
\<close>

definition clear_thread_conversations :: "uuid \<Rightarrow> store \<Rightarrow> store" where
  "clear_thread_conversations tid st =
     st\<lparr>conversations := filter (\<lambda>c. conv_thread c \<noteq> tid) (conversations st)\<rparr>"

record thread_preview =
  pv_id :: uuid
  pv_title :: string
  last_message_content :: "string option"
  last_message_timestamp :: "timestamp option"
  pv_updated_at :: "timestamp option"

text \<open>\<open>ORDER BY created_at DESC\<close> then \<open>.first()\<close>: the last row of the ascending order.\<close>

definition thread_preview_of :: "thread \<Rightarrow> store \<Rightarrow> thread_preview" where
  "thread_preview_of th st =
     (let rows = thread_rows (thread_pk th) st in
      \<lparr>pv_id = thread_pk th, pv_title = title th,
       last_message_content = (if rows = [] then None else Some (content (last rows))),
       last_message_timestamp = (if rows = [] then None else Some (conv_created_at (last rows))),
       pv_updated_at = updated_at th\<rparr>)"

definition get_thread_preview :: "uuid \<Rightarrow> store \<Rightarrow> thread_preview option" where
  "get_thread_preview tid st = map_option (\<lambda>th. thread_preview_of th st) (crud_get_thread tid st)"

definition get_all_thread_previews :: "uuid \<Rightarrow> store \<Rightarrow> thread_preview list" where
  "get_all_thread_previews user_id st = map (\<lambda>th. thread_preview_of th st) (get_user_threads user_id st)"

lemmas store_defs [model_defs] =
  crud_create_thread_def crud_get_thread_def get_user_threads_def crud_update_thread_def
  crud_delete_thread_def create_conversation_def thread_rows_def get_thread_conversations_def
  add_messages_to_thread_def

section \<open>The store operations as one interface\<close>

text \<open>
  Every operation that writes the store, as the endpoints and the chat
  stream call it; a failed update is rolled back and leaves the store as
  it was.
\<close>

datatype store_op =
    Op_Create_Thread string uuid
  | Op_Update_Thread uuid thread_update
  | Op_Delete_Thread uuid
  | Op_Add_Messages uuid "message_in option" "message_in option"
  | Op_Clear_Messages uuid

fun store_step :: "tokenizer \<Rightarrow> timestamp \<Rightarrow> store_op \<Rightarrow> store \<Rightarrow> store" where
  "store_step tok now (Op_Create_Thread t u) st =
     (case create_thread t u now st of Inl e \<Rightarrow> st | Inr (th, st') \<Rightarrow> st')"
| "store_step tok now (Op_Update_Thread tid d) st =
     (case crud_update_thread tid d now st of Inl e \<Rightarrow> st | Inr r \<Rightarrow> snd r)"
| "store_step tok now (Op_Delete_Thread tid) st = snd (crud_delete_thread tid st)"
| "store_step tok now (Op_Add_Messages tid um am) st =
     snd (add_messages_to_thread tok tid um am now st)"
| "store_step tok now (Op_Clear_Messages tid) st = clear_thread_conversations tid st"

section \<open>Invariants\<close>

text \<open>
  Well-formedness: primary keys are distinct and below the key counter, and
  every conversation belongs to an existing thread (the foreign key).
\<close>

definition store_wf :: "store \<Rightarrow> bool" where
  "store_wf st \<longleftrightarrow>
     distinct (map thread_pk (threads st)) \<and> distinct (map conv_pk (conversations st)) \<and>
     (\<forall>th \<in> set (threads st). thread_pk th < next_key st) \<and>
     (\<forall>c \<in> set (conversations st). conv_pk c < next_key st) \<and>
     conv_thread ` set (conversations st) \<subseteq> thread_pk ` set (threads st)"

text \<open>
  Chronology: the conversation rows were committed at non-decreasing
  clock readings, none later than \<open>now\<close>.
\<close>

definition chrono :: "timestamp \<Rightarrow> store \<Rightarrow> bool" where
  "chrono now st \<longleftrightarrow>
     sorted (map conv_created_at (conversations st)) \<and>
     (\<forall>c \<in> set (conversations st). conv_created_at c \<le> now)"

section \<open>Lemmas on the store\<close>

lemma crud_get_thread_Some:
  "crud_get_thread tid st = Some th \<Longrightarrow> th \<in> set (threads st) \<and> thread_pk th = tid"
  by (auto simp: crud_get_thread_def find_Some_iff)

lemma crud_get_thread_None:
  "crud_get_thread tid st = None \<longleftrightarrow> tid \<notin> thread_pk ` set (threads st)"
  by (auto simp: crud_get_thread_def find_None_iff)

lemma thread_pk_apply_thread_update [simp]:
  "thread_pk (apply_thread_update d th) = thread_pk th"
  by (simp add: apply_thread_update_def split: option.splits)

lemma map_thread_pk_update:
  assumes "\<And>x. x \<in> set ts \<Longrightarrow> thread_pk x = tid \<Longrightarrow> thread_pk (f x) = tid"
  shows "map thread_pk (map (\<lambda>x. if thread_pk x = tid then f x else x) ts) = map thread_pk ts"
  using assms by (induction ts) auto

lemma store_wf_touch:
  assumes wf: "store_wf st"
    and pk: "\<And>x. x \<in> set (threads st) \<Longrightarrow> thread_pk x = tid \<Longrightarrow> thread_pk (f x) = tid"
  shows "store_wf (st\<lparr>threads := map (\<lambda>x. if thread_pk x = tid then f x else x) (threads st)\<rparr>)"
proof -
  let ?ts = "map (\<lambda>x. if thread_pk x = tid then f x else x) (threads st)"
  have m: "map thread_pk ?ts = map thread_pk (threads st)"
    using pk by (rule map_thread_pk_update)
  then have s: "thread_pk ` set ?ts = thread_pk ` set (threads st)"
    by (metis set_map)
  have b: "\<forall>th \<in> set ?ts. thread_pk th < next_key st"
  proof
    fix th assume "th \<in> set ?ts"
    then have "thread_pk th \<in> thread_pk ` set (threads st)" using s by blast
    with wf show "thread_pk th < next_key st" by (auto simp: store_wf_def)
  qed
  from wf m s b show ?thesis
    unfolding store_wf_def by (simp del: map_map set_map)
qed

lemma store_wf_create_conversation:
  assumes "store_wf st" and "tid \<in> thread_pk ` set (threads st)"
  shows "store_wf (snd (create_conversation tid r c m tc now st))"
proof -
  have "next_key st \<notin> conv_pk ` set (conversations st)"
    using assms(1) by (auto simp: store_wf_def)
  with assms show ?thesis
    by (auto simp: store_wf_def create_conversation_def Let_def less_Suc_eq)
qed

lemma threads_create_conversation [simp]:
  "threads (snd (create_conversation tid r c m tc now st)) = threads st"
  by (simp add: create_conversation_def Let_def)

lemma chrono_create_conversation:
  "chrono now st \<Longrightarrow> chrono now (snd (create_conversation tid r c m tc now st))"
  by (auto simp: chrono_def create_conversation_def Let_def sorted_append)

lemma chrono_mono: "chrono t st \<Longrightarrow> t \<le> t' \<Longrightarrow> chrono t' st"
  by (auto simp: chrono_def)

lemma chrono_filter:
  "chrono now st \<Longrightarrow> chrono now (st\<lparr>conversations := filter P (conversations st)\<rparr>)"
  by (auto simp: chrono_def sorted_filter)

lemma store_wf_add_messages:
  assumes "store_wf st"
  shows "store_wf (snd (add_messages_to_thread tok tid um am now st))"
proof (cases "crud_get_thread tid st")
  case None
  with assms show ?thesis by (simp add: add_messages_to_thread_def)
next
  case (Some th)
  then have tid: "tid \<in> thread_pk ` set (threads st)"
    using crud_get_thread_Some by force
  let ?st1 = "case um of None \<Rightarrow> st
     | Some m \<Rightarrow> snd (create_conversation tid ''user'' (msg_content m) None
                  (Some (py_or (msg_token_count m) (tok (msg_content m)))) now st)"
  have st1: "store_wf ?st1" and tid1: "tid \<in> thread_pk ` set (threads ?st1)"
    using assms tid by (auto simp: store_wf_create_conversation split: option.splits)
  let ?st2 = "case am of None \<Rightarrow> ?st1
     | Some m \<Rightarrow> snd (create_conversation tid ''model'' (msg_content m) (msg_model m)
                  (Some (py_or (msg_token_count m) (tok (msg_content m)))) now ?st1)"
  have "store_wf ?st2"
    using st1 tid1 by (auto simp: store_wf_create_conversation split: option.splits)
  then show ?thesis
    using Some by (simp add: add_messages_to_thread_def Let_def store_wf_touch)
qed

lemma chrono_add_messages:
  assumes "chrono now st"
  shows "chrono now (snd (add_messages_to_thread tok tid um am now st))"
proof -
  have "chrono now (case um of None \<Rightarrow> st
     | Some m \<Rightarrow> snd (create_conversation tid ''user'' (msg_content m) None
                  (Some (py_or (msg_token_count m) (tok (msg_content m)))) now st))"
    (is "chrono now ?st1")
    using assms by (simp add: chrono_create_conversation split: option.splits)
  then have "chrono now (case am of None \<Rightarrow> ?st1
     | Some m \<Rightarrow> snd (create_conversation tid ''model'' (msg_content m) (msg_model m)
                  (Some (py_or (msg_token_count m) (tok (msg_content m)))) now ?st1))"
    by (simp add: chrono_create_conversation split: option.splits)
  then show ?thesis
    using assms by (auto simp: add_messages_to_thread_def Let_def chrono_def split: option.splits)
qed

lemma store_wf_delete:
  assumes "store_wf st"
  shows "store_wf (snd (crud_delete_thread tid st))"
  using assms by (fastforce simp: store_wf_def crud_delete_thread_def distinct_map_filter
      split: option.splits)

lemma store_wf_step:
  assumes "store_wf st"
  shows "store_wf (store_step tok now op st)"
proof (cases op)
  case (Op_Create_Thread t u)
  have "next_key st \<notin> thread_pk ` set (threads st)"
    using assms by (auto simp: store_wf_def)
  with assms Op_Create_Thread show ?thesis
    by (auto simp: store_wf_def create_thread_def crud_create_thread_def Let_def less_Suc_eq)
next
  case (Op_Update_Thread tid d)
  show ?thesis
  proof (cases "crud_get_thread tid st")
    case None
    with assms Op_Update_Thread show ?thesis by (simp add: crud_update_thread_def)
  next
    case (Some th)
    then have "thread_pk th = tid" by (simp add: crud_get_thread_Some)
    then have "thread_pk (if apply_thread_update d th = th then th
                 else apply_thread_update d th\<lparr>updated_at := Some now\<rparr>) = tid"
      by simp
    with assms Op_Update_Thread Some show ?thesis
      by (auto simp: crud_update_thread_def Let_def intro: store_wf_touch)
  qed
next
  case (Op_Delete_Thread tid)
  with assms show ?thesis by (simp add: store_wf_delete)
next
  case (Op_Add_Messages tid um am)
  with assms show ?thesis by (simp add: store_wf_add_messages)
next
  case (Op_Clear_Messages tid)
  with assms show ?thesis
    by (auto simp: store_wf_def clear_thread_conversations_def distinct_map_filter)
qed

lemma chrono_step:
  assumes "chrono now st"
  shows "chrono now (store_step tok now op st)"
proof (cases op)
  case (Op_Create_Thread t u)
  with assms show ?thesis
    by (simp add: chrono_def create_thread_def crud_create_thread_def Let_def)
next
  case (Op_Update_Thread tid d)
  with assms show ?thesis
    by (auto simp: chrono_def crud_update_thread_def Let_def split: option.splits sum.splits)
next
  case (Op_Delete_Thread tid)
  with assms show ?thesis
    by (auto simp: crud_delete_thread_def chrono_def sorted_filter split: option.splits)
next
  case (Op_Add_Messages tid um am)
  with assms show ?thesis by (simp add: chrono_add_messages)
next
  case (Op_Clear_Messages tid)
  with assms show ?thesis by (simp add: clear_thread_conversations_def chrono_filter)
qed

lemma thread_rows_chrono:
  "chrono now st \<Longrightarrow> thread_rows tid st = filter (\<lambda>c. conv_thread c = tid) (conversations st)"
  by (simp add: thread_rows_def chrono_def sorted_filter sort_key_id_if_sorted)

lemma find_map_update:
  assumes "\<And>x. P x \<Longrightarrow> P (f x)"
  shows "find P (map (\<lambda>x. if P x then f x else x) xs) = map_option f (find P xs)"
  using assms by (induction xs) auto

lemma find_filter_weaker:
  assumes "\<And>x. P x \<Longrightarrow> Q x"
  shows "find P (filter Q xs) = find P xs"
  using assms by (induction xs) auto

lemma crud_get_thread_stamp [store_simps]:
  "crud_get_thread tid (st\<lparr>threads := map (\<lambda>x. if thread_pk x = tid then x\<lparr>updated_at := t\<rparr> else x)
                                        (threads st)\<rparr>) =
   map_option (\<lambda>x. x\<lparr>updated_at := t\<rparr>) (crud_get_thread tid st)"
  by (simp add: crud_get_thread_def find_map_update)

lemma add_messages_to_thread_prefix [store_simps]:
  "take (length (conversations st))
     (conversations (snd (add_messages_to_thread tok tid um am now st))) = conversations st"
  by (auto simp: add_messages_to_thread_def create_conversation_def Let_def
      split: option.splits)

lemma add_messages_to_thread_model_only:
  assumes "crud_get_thread tid st = Some th"
  shows "conversations (snd (add_messages_to_thread tok tid None (Some m) now st)) =
         conversations st @
         [\<lparr>conv_pk = next_key st, conv_thread = tid, role = ''model'', content = msg_content m,
           conv_created_at = now, model = msg_model m,
           token_count = Some (py_or (msg_token_count m) (tok (msg_content m)))\<rparr>]"
  using assms by (simp add: add_messages_to_thread_def create_conversation_def Let_def)

lemma add_messages_to_thread_user_only:
  assumes "crud_get_thread tid st = Some th"
  shows "conversations (snd (add_messages_to_thread tok tid (Some m) None now st)) =
         conversations st @
         [\<lparr>conv_pk = next_key st, conv_thread = tid, role = ''user'', content = msg_content m,
           conv_created_at = now, model = None,
           token_count = Some (py_or (msg_token_count m) (tok (msg_content m)))\<rparr>]"
  using assms by (simp add: add_messages_to_thread_def create_conversation_def Let_def)

lemma add_messages_to_thread_missing [store_simps]:
  "crud_get_thread tid st = None \<Longrightarrow> add_messages_to_thread tok tid um am now st = (False, st)"
  by (simp add: add_messages_to_thread_def)

section \<open>Reachable stores\<close>

text \<open>
  The stores the service can reach: the empty database, then any store
  operation at a clock reading no earlier than the previous one.
\<close>

inductive store_reachable :: "tokenizer \<Rightarrow> timestamp \<Rightarrow> store \<Rightarrow> bool" for tok where
  init: "store_reachable tok t empty_store"
| step: "store_reachable tok t st \<Longrightarrow> t \<le> t' \<Longrightarrow>
         store_reachable tok t' (store_step tok t' op st)"

lemma store_reachable_invariants:
  "store_reachable tok t st \<Longrightarrow> store_wf st \<and> chrono t st"
proof (induction rule: store_reachable.induct)
  case (init t)
  show ?case by (simp add: empty_store_def store_wf_def chrono_def)
next
  case (step t st t' op)
  then have "store_wf st" and "chrono t' st" by (auto intro: chrono_mono)
  then show ?case by (simp add: store_wf_step chrono_step)
qed

lemmas store_reachable_simps [store_simps] = store_reachable_invariants thread_rows_chrono

definition demo_store :: store where
  "demo_store =
     store_step (\<lambda>s. int (length s)) 2
       (Op_Add_Messages 0 (Some \<lparr>msg_content = ''hi'', msg_model = None, msg_token_count = None\<rparr>) None)
       (store_step (\<lambda>s. int (length s)) 1 (Op_Create_Thread ''t'' 7) empty_store)"

lemma demo_store_reachable: "store_reachable (\<lambda>s. int (length s)) 2 demo_store"
  unfolding demo_store_def
  by (rule store_reachable.step [OF store_reachable.step [OF store_reachable.init [where t = 0]]]) simp_all

section \<open>Properties\<close>

text \<open>
  C2: Referential integrity: in every reachable store the primary keys of
  threads and of conversations are distinct and every conversation row
  belongs to a thread that exists.
\<close>

theorem store_reachable_wf:
  assumes "store_reachable tok t st"
  shows "distinct (map thread_pk (threads st)) \<and> distinct (map conv_pk (conversations st)) \<and>
         (\<forall>c \<in> set (conversations st). crud_get_thread (conv_thread c) st \<noteq> None)"
proof -
  have "store_wf st" using store_reachable_invariants [OF assms] by simp
  then show ?thesis
    by (auto simp: store_wf_def crud_get_thread_None)
qed

theorem store_reachable_wf_witness:
  "crud_get_thread (conv_thread (hd (conversations demo_store))) demo_store \<noteq> None"
proof -
  have "conversations demo_store \<noteq> []"
    by (simp add: demo_store_def empty_store_def create_thread_def crud_create_thread_def
        add_messages_to_thread_def crud_get_thread_def create_conversation_def Let_def)
  then have "hd (conversations demo_store) \<in> set (conversations demo_store)" by simp
  then show ?thesis using store_reachable_wf [OF demo_store_reachable] by blast
qed

text \<open>
  C3: The conversation history handed to the model
  (\<open>get_thread_messages_optimized\<close>, ordered by creation time) is exactly
  the thread's turns in the order they were committed, in every store
  reachable with a clock that does not run backwards.
\<close>

theorem history_in_commit_order:
  assumes "store_reachable tok t st"
  shows "get_thread_messages_optimized tid st =
         map (\<lambda>c. \<lparr>h_role = role c, h_parts = [content c]\<rparr>)
           (filter (\<lambda>c. conv_thread c = tid) (conversations st))"
proof -
  have "chrono t st" using store_reachable_invariants [OF assms] by simp
  then show ?thesis by (simp add: get_thread_messages_optimized_def thread_rows_chrono)
qed

theorem history_in_commit_order_witness:
  "get_thread_messages_optimized 0 demo_store = [\<lparr>h_role = ''user'', h_parts = [''hi'']\<rparr>]"
proof -
  have "get_thread_messages_optimized 0 demo_store =
        map (\<lambda>c. \<lparr>h_role = role c, h_parts = [content c]\<rparr>)
          (filter (\<lambda>c. conv_thread c = 0) (conversations demo_store))"
    by (rule history_in_commit_order [OF demo_store_reachable])
  then show ?thesis
    by (simp add: demo_store_def empty_store_def create_thread_def crud_create_thread_def
        add_messages_to_thread_def crud_get_thread_def create_conversation_def Let_def)
qed

text \<open>
  \<open>add_messages_to_thread\<close> on an existing thread keeps every earlier
  row, appends the user turn and then the model turn (each when given) to
  that thread stamped with the call's clock reading, and sets the thread's
  \<open>updated_at\<close> to that reading; on a missing thread it reports \<open>False\<close>
  and changes nothing.
\<close>

theorem add_messages_to_thread_appends:
  assumes "add_messages_to_thread tok tid um am now st = (b, st')"
  shows "(b \<longleftrightarrow> crud_get_thread tid st \<noteq> None) \<and> (\<not> b \<longrightarrow> st' = st) \<and>
         (b \<longrightarrow>
            take (length (conversations st)) (conversations st') = conversations st \<and>
            map (\<lambda>c. (role c, content c, conv_thread c, conv_created_at c))
              (drop (length (conversations st)) (conversations st')) =
              (case um of None \<Rightarrow> [] | Some m \<Rightarrow> [(''user'', msg_content m, tid, now)]) @
              (case am of None \<Rightarrow> [] | Some m \<Rightarrow> [(''model'', msg_content m, tid, now)]) \<and>
            map_option updated_at (crud_get_thread tid st') = Some (Some now))"
proof (cases "crud_get_thread tid st")
  case None
  with assms show ?thesis by (simp add: add_messages_to_thread_def)
next
  case (Some th)
  have c: "\<And>r c m tc st0. crud_get_thread tid (snd (create_conversation tid r c m tc now st0)) =
             crud_get_thread tid st0"
    by (simp add: crud_get_thread_def)
  have stamp: "\<And>st0. crud_get_thread tid st0 = Some th \<Longrightarrow>
      map_option updated_at (crud_get_thread tid (st0\<lparr>threads := map (\<lambda>x. if thread_pk x = tid
         then x\<lparr>updated_at := Some now\<rparr> else x) (threads st0)\<rparr>)) = Some (Some now)"
    by (simp only: crud_get_thread_stamp) simp
  let ?st1 = "case um of None \<Rightarrow> st
     | Some m \<Rightarrow> snd (create_conversation tid ''user'' (msg_content m) None
                  (Some (py_or (msg_token_count m) (tok (msg_content m)))) now st)"
  let ?st2 = "case am of None \<Rightarrow> ?st1
     | Some m \<Rightarrow> snd (create_conversation tid ''model'' (msg_content m) (msg_model m)
                  (Some (py_or (msg_token_count m) (tok (msg_content m)))) now ?st1)"
  have g2: "crud_get_thread tid ?st2 = Some th"
    using Some c by (simp split: option.splits)
  have st': "st' = ?st2\<lparr>threads := map (\<lambda>x. if thread_pk x = tid then x\<lparr>updated_at := Some now\<rparr> else x)
                                    (threads ?st2)\<rparr>" and b: b
    using assms Some by (simp_all add: add_messages_to_thread_def Let_def)
  have upd: "map_option updated_at (crud_get_thread tid st') = Some (Some now)"
    unfolding st' using stamp [OF g2] .
  have rows: "take (length (conversations st)) (conversations st') = conversations st \<and>
            map (\<lambda>c. (role c, content c, conv_thread c, conv_created_at c))
              (drop (length (conversations st)) (conversations st')) =
              (case um of None \<Rightarrow> [] | Some m \<Rightarrow> [(''user'', msg_content m, tid, now)]) @
              (case am of None \<Rightarrow> [] | Some m \<Rightarrow> [(''model'', msg_content m, tid, now)])"
    unfolding st' by (cases um; cases am) (simp_all add: create_conversation_def Let_def)
  from Some b upd rows show ?thesis by simp
qed

theorem add_messages_to_thread_appends_witness:
  "map (\<lambda>c. (role c, content c, conv_thread c, conv_created_at c))
     (drop (length (conversations demo_store))
       (conversations (snd (add_messages_to_thread (\<lambda>s. int (length s)) 0 None
          (Some \<lparr>msg_content = ''ok'', msg_model = Some ''gemini-2.0-flash'', msg_token_count = None\<rparr>)
          3 demo_store)))) = [(''model'', ''ok'', 0, 3)]"
proof -
  obtain b st' where r: "add_messages_to_thread (\<lambda>s. int (length s)) 0 None
      (Some \<lparr>msg_content = ''ok'', msg_model = Some ''gemini-2.0-flash'', msg_token_count = None\<rparr>)
      3 demo_store = (b, st')" by fastforce
  have ex: "crud_get_thread 0 demo_store \<noteq> None"
    by (simp add: demo_store_def empty_store_def create_thread_def crud_create_thread_def
        add_messages_to_thread_def crud_get_thread_def create_conversation_def Let_def)
  from add_messages_to_thread_appends [OF r] ex r show ?thesis by simp
qed

text \<open>
  Deleting a thread cascades: afterwards the thread is gone and no
  conversation row refers to it, while every other thread and its
  messages are exactly as before.
\<close>

theorem delete_thread_cascades:
  assumes "crud_delete_thread tid st = (True, st')"
  shows "crud_get_thread tid st' = None \<and> (\<forall>c \<in> set (conversations st'). conv_thread c \<noteq> tid) \<and>
         (\<forall>tid'. tid' \<noteq> tid \<longrightarrow>
            crud_get_thread tid' st' = crud_get_thread tid' st \<and> thread_rows tid' st' = thread_rows tid' st)"
proof -
  obtain th where "crud_get_thread tid st = Some th"
    using assms by (cases "crud_get_thread tid st") (auto simp: crud_delete_thread_def)
  with assms have st': "st' = st\<lparr>threads := filter (\<lambda>x. thread_pk x \<noteq> tid) (threads st),
      conversations := filter (\<lambda>c. conv_thread c \<noteq> tid) (conversations st)\<rparr>"
    by (simp add: crud_delete_thread_def)
  have "\<And>tid'. tid' \<noteq> tid \<Longrightarrow>
      filter (\<lambda>c. conv_thread c = tid') (filter (\<lambda>c. conv_thread c \<noteq> tid) (conversations st)) =
      filter (\<lambda>c. conv_thread c = tid') (conversations st)"
    by (auto intro: filter_cong)
  moreover have "\<And>tid'. tid' \<noteq> tid \<Longrightarrow>
      find (\<lambda>th. thread_pk th = tid') (filter (\<lambda>x. thread_pk x \<noteq> tid) (threads st)) =
      find (\<lambda>th. thread_pk th = tid') (threads st)"
    by (rule find_filter_weaker) auto
  ultimately show ?thesis
    using st' by (auto simp: crud_get_thread_def thread_rows_def find_None_iff)
qed

theorem delete_thread_cascades_witness:
  "crud_get_thread 0 (snd (crud_delete_thread 0 demo_store)) = None \<and>
   filter (\<lambda>c. conv_thread c = 0) (conversations (snd (crud_delete_thread 0 demo_store))) = []"
proof -
  have d: "crud_delete_thread 0 demo_store = (True, snd (crud_delete_thread 0 demo_store))"
    by (simp add: demo_store_def empty_store_def create_thread_def crud_create_thread_def
        add_messages_to_thread_def crud_get_thread_def create_conversation_def
        crud_delete_thread_def Let_def)
  show ?thesis using delete_thread_cascades [OF d] by (simp add: filter_empty_conv)
qed

text \<open>
  Round trip of thread creation: in a well-formed store, the thread
  \<open>create_thread\<close> returns is found again by its key, is listed among the
  owner's threads, and carries the given title and owner with no
  \<open>updated_at\<close> yet.
\<close>

theorem create_then_get_thread:
  assumes "store_wf st" and "create_thread t u now st = Inr (th, st')"
  shows "crud_get_thread (thread_pk th) st' = Some th \<and> th \<in> set (get_user_threads u st') \<and>
         title th = t \<and> owner th = u \<and> updated_at th = None"
proof -
  have "\<forall>x \<in> set (threads st). thread_pk x \<noteq> next_key st"
    using assms(1) by (auto simp: store_wf_def)
  then have "find (\<lambda>x. thread_pk x = next_key st) (threads st) = None"
    by (simp add: find_None_iff)
  with assms(2) show ?thesis
    by (auto simp: create_thread_def crud_create_thread_def Let_def crud_get_thread_def
        get_user_threads_def find_append_None split: if_splits)
qed

theorem create_then_get_thread_witness:
  "\<exists>th st'. create_thread ''t'' 7 1 empty_store = Inr (th, st') \<and> crud_get_thread 0 st' = Some th"
proof -
  have wf: "store_wf empty_store" by (simp add: store_wf_def empty_store_def)
  obtain th st' where c: "create_thread ''t'' 7 1 empty_store = Inr (th, st')" and k: "thread_pk th = 0"
    by (simp add: create_thread_def crud_create_thread_def empty_store_def Let_def title_fits_def)
  show ?thesis using create_then_get_thread [OF wf c] c k by auto
qed

text \<open>
  \<open>GET /threads/{id}/messages\<close> answers with the 100 oldest messages of
  the thread in commit order: a thread with more messages silently loses
  its newest ones from that listing.
\<close>

theorem messages_endpoint_oldest_100:
  assumes "store_reachable tok t st"
  shows "get_thread_messages tid st = take 100 (filter (\<lambda>c. conv_thread c = tid) (conversations st))"
proof -
  have "chrono t st" using store_reachable_invariants [OF assms] by simp
  then show ?thesis
    by (simp add: get_thread_messages_def get_thread_conversations_def thread_rows_chrono)
qed

theorem messages_endpoint_oldest_100_witness:
  "map content (get_thread_messages 0 demo_store) = [''hi'']"
proof -
  have "get_thread_messages 0 demo_store =
        take 100 (filter (\<lambda>c. conv_thread c = 0) (conversations demo_store))"
    by (rule messages_endpoint_oldest_100 [OF demo_store_reachable])
  then show ?thesis
    by (simp add: demo_store_def empty_store_def create_thread_def crud_create_thread_def
        add_messages_to_thread_def crud_get_thread_def create_conversation_def Let_def)
qed

text \<open>
  Updating a thread with an explicit \<open>null\<close> title, or with a title
  longer than the column's 255 characters, fails at commit with a
  database error, and the rolled-back update leaves the store as it was;
  an update that changes nothing does not stamp \<open>updated_at\<close>, one that
  changes a field stamps it with the clock reading.
\<close>

theorem update_thread_null_title_and_stamp:
  assumes "crud_get_thread tid st = Some th"
  shows "(upd_title d = Some None \<or> (\<exists>t. upd_title d = Some (Some t) \<and> 255 < length t) \<longrightarrow>
            (\<exists>m. crud_update_thread tid d now st = Inl (DB_Error m)) \<and>
            store_step tok now (Op_Update_Thread tid d) st = st) \<and>
         (upd_title d \<noteq> Some None \<and> (\<forall>t. upd_title d = Some (Some t) \<longrightarrow> length t \<le> 255) \<longrightarrow>
            (\<exists>st'. crud_update_thread tid d now st =
               Inr (Some (if apply_thread_update d th = th then th
                          else apply_thread_update d th\<lparr>updated_at := Some now\<rparr>), st')))"
  using assms by (auto simp: crud_update_thread_def Let_def title_too_long_error_def split: option.splits)

theorem update_thread_null_title_and_stamp_witness:
  "store_step (\<lambda>s. int (length s)) 5
     (Op_Update_Thread 0 \<lparr>upd_title = Some None, upd_is_archived = None\<rparr>) demo_store = demo_store"
proof -
  obtain th where th: "crud_get_thread 0 demo_store = Some th"
    by (simp add: demo_store_def empty_store_def create_thread_def crud_create_thread_def
        add_messages_to_thread_def crud_get_thread_def create_conversation_def Let_def)
  show ?thesis
    using update_thread_null_title_and_stamp [OF th,
        of "\<lparr>upd_title = Some None, upd_is_archived = None\<rparr>" 5 "\<lambda>s. int (length s)"]
    by simp
qed

end
