(* ===== verification/ChatStream.thy ===== *)
theory ChatStream
  imports RateLimiter ThreadStore
begin

text \<open>
  The streaming chat orchestrator: \<open>stream_response\<close>,
  \<open>process_chat_request\<close> (app/chat/chat_service.py) and the endpoint
  \<open>chat_with_thread\<close> (app/api/routes/chat.py).  The external model's
  stream is the value \<open>upstream\<close>: the chunks it yields, each with the
  clock reading at which the loop handles it and its \<open>chunk.text\<close>
  (\<open>None\<close> when absent), and the exception it raises after the last
  listed chunk, if any.  The generator's output is a list of server-sent
  events.  The throttle (theory RateLimiter) and the store (theory
  ThreadStore) are threaded through: every chunk check is one
  \<open>check_token_rate_limit\<close> call on the shared usage dictionary, and the
  model turn is one \<open>add_messages_to_thread\<close> call.
\<close>

section \<open>Events and the upstream stream\<close>

text \<open>
  One server-sent event: a \<open>{"content": ...}\<close> payload or the terminal
  \<open>[DONE]\<close> marker.  The warning sign U+26A0 U+FE0F that prefixes the
  in-band notices is written as its UTF-8 bytes.
\<close>

datatype sse_event = SSE_Content string | SSE_Done

definition warning_sign :: string where
  "warning_sign = [CHR 0xE2, CHR 0x9A, CHR 0xA0, CHR 0xEF, CHR 0xB8, CHR 0x8F]"

definition truncation_notice :: string where
  "truncation_notice = warning_sign @ '' Token rate limit exceeded. Response truncated.''"

definition error_notice :: "string \<Rightarrow> string" where
  "error_notice e = warning_sign @ '' Error: '' @ e"

record upstream =
  chunks :: "(timestamp \<times> string option) list"
  failure :: "string option"

section \<open>The streaming loop\<close>

text \<open>
  The \<open>for chunk in response\<close> loop of \<open>stream_response\<close>.  A chunk
  without text, or with empty text, is skipped.  Otherwise its text is
  appended to the accumulator first, then its tokens are checked against
  the shared budget: a rejected chunk ends the generator with the
  truncation notice and \<open>[DONE]\<close>; an admitted one is forwarded.
\<close>

record loop_result =
  events :: "sse_event list"
  usage_after :: usage
  accumulated :: string
  truncated :: bool

fun stream_chunks ::
  "rate_config \<Rightarrow> tokenizer \<Rightarrow> string \<Rightarrow> usage \<Rightarrow> (timestamp \<times> string option) list \<Rightarrow> loop_result" where
  "stream_chunks cfg tok acc u [] =
     \<lparr>events = [], usage_after = u, accumulated = acc, truncated = False\<rparr>"
| "stream_chunks cfg tok acc u ((t, c) # cs) =
     (case c of
        None \<Rightarrow> stream_chunks cfg tok acc u cs
      | Some new_text \<Rightarrow>
          (if new_text = [] then stream_chunks cfg tok acc u cs
           else
             (let acc' = acc @ new_text;
                  chunk_tokens = tok new_text
              in (case check_token_rate_limit cfg t chunk_tokens u of
                    (False, u') \<Rightarrow>
                      \<lparr>events = [SSE_Content truncation_notice, SSE_Done], usage_after = u',
                       accumulated = acc', truncated = True\<rparr>
                  | (True, u') \<Rightarrow>
                      (let r = stream_chunks cfg tok acc' u' cs
                       in r\<lparr>events := SSE_Content new_text # events r\<rparr>)))))"

text \<open>
  \<open>stream_response\<close>: after a truncation the generator has returned; an
  exception of the upstream is caught and answered in-band with an error
  notice and \<open>[DONE]\<close>, with nothing persisted; a stream that runs out
  normally is persisted as one model turn (content the accumulated text,
  count its tokens, model the requested one) before \<open>[DONE]\<close>.
  \<open>t_done\<close> is the clock reading of that write.
\<close>

definition stream_response ::
  "rate_config \<Rightarrow> tokenizer \<Rightarrow> uuid \<Rightarrow> string \<Rightarrow> timestamp \<Rightarrow> upstream \<Rightarrow> usage \<Rightarrow> store \<Rightarrow>
   sse_event list \<times> usage \<times> store" where
  "stream_response cfg tok tid model_id t_done up u st =
     (let r = stream_chunks cfg tok [] u (chunks up) in
      if truncated r then (events r, usage_after r, st)
      else
        (case failure up of
           Some e \<Rightarrow> (events r @ [SSE_Content (error_notice e), SSE_Done], usage_after r, st)
         | None \<Rightarrow>
             (let assistant_message =
                    \<lparr>msg_content = accumulated r, msg_model = Some model_id,
                     msg_token_count = Some (tok (accumulated r))\<rparr>;
                  st' = snd (add_messages_to_thread tok tid None (Some assistant_message) t_done st)
              in (events r @ [SSE_Done], usage_after r, st'))))"

section \<open>The request handler\<close>

text \<open>
  \<open>process_chat_request\<close> returns either the streaming response or, when
  creating the client or the chat session raises, a plain JSON reply with
  an error message (status 200).
\<close>

datatype chat_reply =
    Reply_Stream "sse_event list"
  | Reply_Error_Dict string string

text \<open>
  \<open>chat_with_thread\<close>: the thread's history is read first, then the
  user's question is stored as a user turn (with its token count; a
  missing thread is silently ignored by \<open>add_messages_to_thread\<close>), then
  the model is asked with that history.  The endpoint has no
  authentication dependency and calls neither \<open>get_thread\<close> nor
  \<open>track_request\<close>.  The clock readings of the user write and the final
  write are \<open>t_user\<close> and \<open>t_done\<close>; \<open>setup_error\<close> is the exception of
  \<open>genai.Client\<close>/\<open>chats.create\<close>, if any.
\<close>

record chat_env =
  t_user :: timestamp
  t_done :: timestamp
  setup_error :: "string option"
  model_stream :: upstream

definition process_chat_request ::
  "rate_config \<Rightarrow> tokenizer \<Rightarrow> uuid \<Rightarrow> string \<Rightarrow> chat_env \<Rightarrow> usage \<Rightarrow> store \<Rightarrow>
   chat_reply \<times> usage \<times> store" where
  "process_chat_request cfg tok tid model_id env u st =
     (case setup_error env of
        Some e \<Rightarrow> (Reply_Error_Dict ''model'' (warning_sign @ '' Error processing request: '' @ e), u, st)
      | None \<Rightarrow>
          (case stream_response cfg tok tid model_id (t_done env) (model_stream env) u st of
             (evs, u', st') \<Rightarrow> (Reply_Stream evs, u', st')))"

definition chat_with_thread ::
  "rate_config \<Rightarrow> tokenizer \<Rightarrow> uuid \<Rightarrow> string \<Rightarrow> string \<Rightarrow> chat_env \<Rightarrow> usage \<Rightarrow> store \<Rightarrow>
   history_item list \<times> chat_reply \<times> usage \<times> store" where
  "chat_with_thread cfg tok tid question model_id env u st =
     (let existing_conversation_history = get_thread_messages_optimized tid st;
          new_user_message = \<lparr>msg_content = question, msg_model = None,
                              msg_token_count = Some (tok question)\<rparr>;
          st1 = snd (add_messages_to_thread tok tid (Some new_user_message) None (t_user env) st)
      in (case process_chat_request cfg tok tid model_id env u st1 of
            (reply, u', st') \<Rightarrow> (existing_conversation_history, reply, u', st')))"

section \<open>Lemmas on the streaming loop\<close>

text \<open>The chunks the loop acts on: those with non-empty text, in order.\<close>

fun text_chunks :: "(timestamp \<times> string option) list \<Rightarrow> (timestamp \<times> string) list" where
  "text_chunks [] = []"
| "text_chunks ((t, None) # cs) = text_chunks cs"
| "text_chunks ((t, Some x) # cs) = (if x = [] then text_chunks cs else (t, x) # text_chunks cs)"

text \<open>No chunk of the stream finds the window expired.\<close>

definition within_window :: "usage \<Rightarrow> (timestamp \<times> string option) list \<Rightarrow> bool" where
  "within_window u cs \<longleftrightarrow> (\<forall>c \<in> set cs. \<not> fst c - last_reset u > 60)"

definition tok_sum :: "tokenizer \<Rightarrow> (timestamp \<times> string) list \<Rightarrow> int" where
  "tok_sum tok tcs = sum_list (map (\<lambda>c. tok (snd c)) tcs)"

lemma within_window_Cons [simp]:
  "within_window u (c # cs) \<longleftrightarrow> \<not> fst c - last_reset u > 60 \<and> within_window u cs"
  by (simp add: within_window_def)

lemma within_window_tokens_upd [simp]:
  "within_window (u\<lparr>tokens_used := n\<rparr>) cs = within_window u cs"
  by (simp add: within_window_def)

lemma tok_sum_simps [simp]:
  "tok_sum tok [] = 0" "tok_sum tok (c # cs) = tok (snd c) + tok_sum tok cs"
  "tok_sum tok (xs @ ys) = tok_sum tok xs + tok_sum tok ys"
  by (simp_all add: tok_sum_def)

lemma tok_sum_nonneg: "\<forall>s. 0 \<le> tok s \<Longrightarrow> 0 \<le> tok_sum tok tcs"
  by (induction tcs) (auto simp: add_nonneg_nonneg)

lemma stream_chunks_skip:
  "c = None \<or> c = Some [] \<Longrightarrow> stream_chunks cfg tok acc u ((t, c) # cs) = stream_chunks cfg tok acc u cs"
  by auto

text \<open>Inside one window, a stream whose tokens all fit is forwarded whole.\<close>

lemma stream_chunks_fit:
  assumes "within_window u cs" and "\<forall>s. 0 \<le> tok s"
    and "tokens_used u + tok_sum tok (text_chunks cs) \<le> tokens_per_minute cfg"
  shows "stream_chunks cfg tok acc u cs =
    \<lparr>events = map (\<lambda>c. SSE_Content (snd c)) (text_chunks cs),
     usage_after = u\<lparr>tokens_used := tokens_used u + tok_sum tok (text_chunks cs)\<rparr>,
     accumulated = acc @ concat (map snd (text_chunks cs)), truncated = False\<rparr>"
  using assms
proof (induction cs arbitrary: acc u)
  case Nil
  then show ?case by simp
next
  case (Cons tc cs)
  obtain t c where tc: "tc = (t, c)" by (cases tc)
  show ?case
  proof (cases "c = None \<or> c = Some []")
    case True
    with Cons.prems tc have "stream_chunks cfg tok acc u cs =
      \<lparr>events = map (\<lambda>c. SSE_Content (snd c)) (text_chunks cs),
       usage_after = u\<lparr>tokens_used := tokens_used u + tok_sum tok (text_chunks cs)\<rparr>,
       accumulated = acc @ concat (map snd (text_chunks cs)), truncated = False\<rparr>"
      by (intro Cons.IH) auto
    with True tc show ?thesis by auto
  next
    case False
    then obtain x where c: "c = Some x" and x: "x \<noteq> []" by (cases c) auto
    have rest: "0 \<le> tok_sum tok (text_chunks cs)" using Cons.prems(2) by (rule tok_sum_nonneg)
    have fresh: "\<not> t - last_reset u > 60" using Cons.prems(1) tc by simp
    from Cons.prems(3) tc c x rest have fits: "\<not> tokens_used u + tok x > tokens_per_minute cfg"
      by simp
    let ?u' = "u\<lparr>tokens_used := tokens_used u + tok x\<rparr>"
    have "stream_chunks cfg tok (acc @ x) ?u' cs =
      \<lparr>events = map (\<lambda>c. SSE_Content (snd c)) (text_chunks cs),
       usage_after = ?u'\<lparr>tokens_used := tokens_used ?u' + tok_sum tok (text_chunks cs)\<rparr>,
       accumulated = (acc @ x) @ concat (map snd (text_chunks cs)), truncated = False\<rparr>"
      using Cons.prems tc c x by (intro Cons.IH) (simp_all add: add.assoc)
    with fresh fits tc c x show ?thesis
      by (simp add: check_token_rate_limit_fresh add.assoc)
  qed
qed

text \<open>
  Inside one window, the first chunk whose tokens do not fit ends the
  stream: the chunks before it are forwarded, the rest is never read.
\<close>

lemma stream_chunks_cut:
  assumes "within_window u cs" and "\<forall>s. 0 \<le> tok s"
    and "text_chunks cs = pre @ (t, x) # post"
    and "tokens_used u + tok_sum tok pre \<le> tokens_per_minute cfg"
    and "tokens_used u + tok_sum tok pre + tok x > tokens_per_minute cfg"
  shows "stream_chunks cfg tok acc u cs =
    \<lparr>events = map (\<lambda>c. SSE_Content (snd c)) pre @ [SSE_Content truncation_notice, SSE_Done],
     usage_after = u\<lparr>tokens_used := tokens_used u + tok_sum tok pre\<rparr>,
     accumulated = acc @ concat (map snd pre) @ x, truncated = True\<rparr>"
  using assms
proof (induction cs arbitrary: acc u pre)
  case Nil
  then show ?case by simp
next
  case (Cons tc cs)
  obtain t0 c where tc: "tc = (t0, c)" by (cases tc)
  show ?case
  proof (cases "c = None \<or> c = Some []")
    case True
    with Cons.prems tc have "stream_chunks cfg tok acc u cs =
      \<lparr>events = map (\<lambda>c. SSE_Content (snd c)) pre @ [SSE_Content truncation_notice, SSE_Done],
       usage_after = u\<lparr>tokens_used := tokens_used u + tok_sum tok pre\<rparr>,
       accumulated = acc @ concat (map snd pre) @ x, truncated = True\<rparr>"
      by (intro Cons.IH) auto
    with True tc show ?thesis by auto
  next
    case False
    then obtain x0 where c: "c = Some x0" and x0: "x0 \<noteq> []" by (cases c) auto
    have fresh: "\<not> t0 - last_reset u > 60" using Cons.prems(1) tc by simp
    show ?thesis
    proof (cases pre)
      case Nil
      with Cons.prems(3) tc c x0 have "t0 = t" and "x0 = x" by auto
      with Cons.prems(5) Nil fresh tc c x0 show ?thesis
        by (simp add: check_token_rate_limit_fresh)
    next
      case (Cons p pre')
      with Cons.prems(3) tc c x0 have p: "p = (t0, x0)"
        and rest: "text_chunks cs = pre' @ (t, x) # post" by auto
      have "0 \<le> tok_sum tok pre'" using Cons.prems(2) by (rule tok_sum_nonneg)
      with Cons.prems(4) \<open>pre = p # pre'\<close> p
      have fits: "\<not> tokens_used u + tok x0 > tokens_per_minute cfg" by simp
      let ?u' = "u\<lparr>tokens_used := tokens_used u + tok x0\<rparr>"
      have "stream_chunks cfg tok (acc @ x0) ?u' cs =
        \<lparr>events = map (\<lambda>c. SSE_Content (snd c)) pre' @ [SSE_Content truncation_notice, SSE_Done],
         usage_after = ?u'\<lparr>tokens_used := tokens_used ?u' + tok_sum tok pre'\<rparr>,
         accumulated = (acc @ x0) @ concat (map snd pre') @ x, truncated = True\<rparr>"
        using Cons.prems(1,2,4,5) \<open>pre = p # pre'\<close> p rest tc
        by (intro Cons.IH) (simp_all add: add.assoc)
      with fresh fits tc c x0 \<open>pre = p # pre'\<close> p show ?thesis
        by (simp add: check_token_rate_limit_fresh add.assoc)
    qed
  qed
qed

lemma stream_chunks_text:
  assumes "x \<noteq> []" and "check_token_rate_limit cfg t (tok x) u = (ok, u')"
  shows "stream_chunks cfg tok acc u ((t, Some x) # cs) =
    (if ok then (stream_chunks cfg tok (acc @ x) u' cs)
                \<lparr>events := SSE_Content x # events (stream_chunks cfg tok (acc @ x) u' cs)\<rparr>
     else \<lparr>events = [SSE_Content truncation_notice, SSE_Done], usage_after = u',
           accumulated = acc @ x, truncated = True\<rparr>)"
  using assms by (cases ok) (simp_all add: Let_def)

text \<open>Whatever the budget, the loop's events are forwarded texts, possibly
  followed by the truncation notice and the terminal marker.\<close>

lemma stream_chunks_truncated_shape:
  "truncated (stream_chunks cfg tok acc u cs) \<Longrightarrow>
     \<exists>pre. events (stream_chunks cfg tok acc u cs) =
           map SSE_Content pre @ [SSE_Content truncation_notice, SSE_Done]"
proof (induction cs arbitrary: acc u)
  case Nil
  then show ?case by simp
next
  case (Cons tc cs)
  obtain t c where tc: "tc = (t, c)" by (cases tc)
  show ?case
  proof (cases "c = None \<or> c = Some []")
    case True
    with Cons tc show ?thesis by auto
  next
    case False
    then obtain x where c: "c = Some x" and x: "x \<noteq> []" by (cases c) auto
    obtain ok u' where chk: "check_token_rate_limit cfg t (tok x) u = (ok, u')" by fastforce
    note eq = stream_chunks_text [where tok = tok and x = x, OF x chk, of acc cs]
    show ?thesis
    proof (cases ok)
      case True
      with Cons.prems tc c eq have "truncated (stream_chunks cfg tok (acc @ x) u' cs)" by simp
      then obtain pre where "events (stream_chunks cfg tok (acc @ x) u' cs) =
          map SSE_Content pre @ [SSE_Content truncation_notice, SSE_Done]"
        using Cons.IH by blast
      with True tc c eq show ?thesis
        by (intro exI [of _ "x # pre"]) simp
    next
      case False
      with tc c eq show ?thesis by (intro exI [of _ "[]"]) simp
    qed
  qed
qed

lemma stream_chunks_complete_shape:
  "\<not> truncated (stream_chunks cfg tok acc u cs) \<Longrightarrow>
     events (stream_chunks cfg tok acc u cs) = map (\<lambda>c. SSE_Content (snd c)) (text_chunks cs) \<and>
     accumulated (stream_chunks cfg tok acc u cs) = acc @ concat (map snd (text_chunks cs))"
proof (induction cs arbitrary: acc u)
  case Nil
  then show ?case by simp
next
  case (Cons tc cs)
  obtain t c where tc: "tc = (t, c)" by (cases tc)
  show ?case
  proof (cases "c = None \<or> c = Some []")
    case True
    with Cons tc show ?thesis by auto
  next
    case False
    then obtain x where c: "c = Some x" and x: "x \<noteq> []" by (cases c) auto
    obtain ok u' where chk: "check_token_rate_limit cfg t (tok x) u = (ok, u')" by fastforce
    note eq = stream_chunks_text [where tok = tok and x = x, OF x chk, of acc cs]
    show ?thesis
    proof (cases ok)
      case True
      with Cons.prems tc c eq have "\<not> truncated (stream_chunks cfg tok (acc @ x) u' cs)" by simp
      then have "events (stream_chunks cfg tok (acc @ x) u' cs) =
                   map (\<lambda>c. SSE_Content (snd c)) (text_chunks cs) \<and>
                 accumulated (stream_chunks cfg tok (acc @ x) u' cs) =
                   (acc @ x) @ concat (map snd (text_chunks cs))"
        by (rule Cons.IH)
      with True tc c x eq show ?thesis by simp
    next
      case False
      with Cons.prems tc c eq show ?thesis by simp
    qed
  qed
qed

text \<open>
  What a client reassembles from the events: the concatenation of the
  content payloads.
\<close>

fun reassemble :: "sse_event list \<Rightarrow> string" where
  "reassemble [] = []"
| "reassemble (SSE_Content s # es) = s @ reassemble es"
| "reassemble (SSE_Done # es) = reassemble es"

lemma reassemble_map_content [simp]:
  "reassemble (map (\<lambda>c. SSE_Content (snd c)) tcs @ [SSE_Done]) = concat (map snd tcs)"
  by (induction tcs) auto

lemma requests_used_stream_chunks:
  "requests_used (usage_after (stream_chunks cfg tok acc u cs)) = requests_used u \<or>
   requests_used (usage_after (stream_chunks cfg tok acc u cs)) = 0"
proof (induction cs arbitrary: acc u)
  case Nil
  then show ?case by simp
next
  case (Cons tc cs)
  obtain t c where tc: "tc = (t, c)" by (cases tc)
  show ?case
  proof (cases "c = None \<or> c = Some []")
    case True
    then show ?thesis using Cons.IH [of acc u] tc by auto
  next
    case False
    then obtain x where c: "c = Some x" and x: "x \<noteq> []" by (cases c) auto
    obtain ok u' where chk: "check_token_rate_limit cfg t (tok x) u = (ok, u')" by fastforce
    have ru': "requests_used u' = requests_used u \<or> requests_used u' = 0"
      using chk by (auto simp: check_token_rate_limit_def check_and_reset_counters_def Let_def
          split: if_splits)
    note eq = stream_chunks_text [where tok = tok and x = x, OF x chk, of acc cs]
    show ?thesis
    proof (cases ok)
      case True
      then show ?thesis using Cons.IH [of "acc @ x" u'] ru' tc c eq by auto
    next
      case False
      then show ?thesis using ru' tc c eq by auto
    qed
  qed
qed

lemma stream_response_usage:
  "fst (snd (stream_response cfg tok tid model_id t_end up u st)) =
   usage_after (stream_chunks cfg tok [] u (chunks up))"
  by (simp add: stream_response_def Let_def split: option.splits)

lemma stream_response_prefix:
  "take (length (conversations st))
     (conversations (snd (snd (stream_response cfg tok tid model_id t_end up u st)))) =
   conversations st"
  by (simp add: stream_response_def Let_def add_messages_to_thread_prefix split: option.splits)

section \<open>Properties\<close>

definition demo_cfg :: rate_config where
  "demo_cfg = \<lparr>requests_per_minute = 60, tokens_per_minute = 5\<rparr>"

definition len_tok :: tokenizer where
  "len_tok s = int (length s)"

text \<open>
  C4: Truncation stops forwarding: inside one window, when the chunks
  before some chunk fit the token budget and that chunk does not, the
  stream forwards exactly the chunks before it, then the truncation notice
  and the terminal marker; later chunks (and a later upstream error) are
  never read, only the forwarded chunks' tokens are counted, and no model
  turn is stored.
\<close>

theorem truncation_stops_forwarding:
  assumes "within_window u (chunks up)" and "\<forall>s. 0 \<le> tok s"
    and "text_chunks (chunks up) = pre @ (t, x) # post"
    and "tokens_used u + tok_sum tok pre \<le> tokens_per_minute cfg"
    and "tokens_used u + tok_sum tok pre + tok x > tokens_per_minute cfg"
  shows "stream_response cfg tok tid model_id t_end up u st =
         (map (\<lambda>c. SSE_Content (snd c)) pre @ [SSE_Content truncation_notice, SSE_Done],
          u\<lparr>tokens_used := tokens_used u + tok_sum tok pre\<rparr>, st)"
  using stream_chunks_cut [OF assms, of "[]"] by (simp add: stream_response_def)

theorem truncation_stops_forwarding_witness:
  "stream_response demo_cfg len_tok 0 ''gemini-2.0-flash'' 3
     \<lparr>chunks = [(1, Some ''aaaaa''), (2, Some ''bbbbb'')], failure = None\<rparr> (initial_usage 0) empty_store =
   ([SSE_Content ''aaaaa'', SSE_Content truncation_notice, SSE_Done],
    (initial_usage 0)\<lparr>tokens_used := 5\<rparr>, empty_store)"
  using truncation_stops_forwarding [of "initial_usage 0"
      "\<lparr>chunks = [(1, Some ''aaaaa''), (2, Some ''bbbbb'')], failure = None\<rparr>" len_tok
      "[(1, ''aaaaa'')]" 2 "''bbbbb''" "[]" demo_cfg 0 "''gemini-2.0-flash''" 3 empty_store]
  by (simp add: within_window_def len_tok_def demo_cfg_def)

text \<open>
  C5: Exactly-once persistence: inside one window, when every chunk fits
  the budget, the upstream ends normally and the thread exists, the stream
  forwards every chunk and then the terminal marker, counts each chunk's
  tokens once, and stores exactly one model turn whose content is the
  concatenation of the chunks, with its token count and the requested model.
\<close>

theorem completed_stream_persists_once:
  assumes "within_window u (chunks up)" and "\<forall>s. 0 \<le> tok s" and "failure up = None"
    and "tokens_used u + tok_sum tok (text_chunks (chunks up)) \<le> tokens_per_minute cfg"
    and "crud_get_thread tid st = Some th"
    and "stream_response cfg tok tid model_id t_end up u st = (evs, u', st')"
  shows "evs = map (\<lambda>c. SSE_Content (snd c)) (text_chunks (chunks up)) @ [SSE_Done] \<and>
         u' = u\<lparr>tokens_used := tokens_used u + tok_sum tok (text_chunks (chunks up))\<rparr> \<and>
         conversations st' = conversations st @
           [\<lparr>conv_pk = next_key st, conv_thread = tid, role = ''model'',
             content = concat (map snd (text_chunks (chunks up))), conv_created_at = t_end,
             model = Some model_id, token_count = Some (tok (concat (map snd (text_chunks (chunks up)))))\<rparr>]"
proof -
  have r: "stream_chunks cfg tok [] u (chunks up) =
    \<lparr>events = map (\<lambda>c. SSE_Content (snd c)) (text_chunks (chunks up)),
     usage_after = u\<lparr>tokens_used := tokens_used u + tok_sum tok (text_chunks (chunks up))\<rparr>,
     accumulated = [] @ concat (map snd (text_chunks (chunks up))), truncated = False\<rparr>"
    using assms(1,2,4) by (rule stream_chunks_fit)
  show ?thesis
    using assms(3,6) r add_messages_to_thread_model_only [OF assms(5)]
    by (auto simp: stream_response_def Let_def)
qed

theorem completed_stream_persists_once_witness:
  "conversations (snd (snd (stream_response default_rate_config len_tok 0 ''gemini-2.0-flash'' 5
      \<lparr>chunks = [(1, Some ''Hel''), (2, Some ''lo''), (3, Some '' world'')], failure = None\<rparr>
      (initial_usage 0) demo_store))) =
   conversations demo_store @
     [\<lparr>conv_pk = 2, conv_thread = 0, role = ''model'', content = ''Hello world'',
       conv_created_at = 5, model = Some ''gemini-2.0-flash'', token_count = Some 11\<rparr>]"
proof -
  let ?up = "\<lparr>chunks = [(1::real, Some ''Hel''), (2, Some ''lo''), (3, Some '' world'')],
              failure = None\<rparr>"
  obtain th where th: "crud_get_thread 0 demo_store = Some th"
    by (simp add: demo_store_def empty_store_def create_thread_def crud_create_thread_def
        add_messages_to_thread_def crud_get_thread_def create_conversation_def Let_def)
  have k: "next_key demo_store = 2"
    by (simp add: demo_store_def empty_store_def create_thread_def crud_create_thread_def
        add_messages_to_thread_def crud_get_thread_def create_conversation_def Let_def)
  obtain evs u' st' where r: "stream_response default_rate_config len_tok 0 ''gemini-2.0-flash'' 5 ?up
      (initial_usage 0) demo_store = (evs, u', st')" by (metis prod_cases3)
  have w1: "within_window (initial_usage 0) (chunks ?up)" by (simp add: within_window_def)
  have w2: "\<forall>s. 0 \<le> len_tok s" by (simp add: len_tok_def)
  have w3: "failure ?up = None" by simp
  have w4: "tokens_used (initial_usage 0) + tok_sum len_tok (text_chunks (chunks ?up))
              \<le> tokens_per_minute default_rate_config"
    by (simp add: len_tok_def default_rate_config_def)
  have "conversations st' = conversations demo_store @
     [\<lparr>conv_pk = next_key demo_store, conv_thread = 0, role = ''model'',
       content = concat (map snd (text_chunks (chunks ?up))), conv_created_at = 5,
       model = Some ''gemini-2.0-flash'',
       token_count = Some (len_tok (concat (map snd (text_chunks (chunks ?up)))))\<rparr>]"
    using completed_stream_persists_once [OF w1 w2 w3 w4 th r] by blast
  with r k show ?thesis by (simp add: len_tok_def)
qed

text \<open>
  An upstream failure is reported in-band and never persisted: when
  the model's stream raises, the store is left as it was (the user turn
  stored earlier stays, no model turn is added), and the events are the
  forwarded chunks followed by the error notice (or, if the budget ran out
  first, the truncation notice) and the terminal marker.
\<close>

theorem upstream_failure_not_persisted:
  assumes "failure up = Some e"
    and "stream_response cfg tok tid model_id t_end up u st = (evs, u', st')"
  shows "st' = st \<and>
         (\<exists>pre. evs = map SSE_Content pre @ [SSE_Content (error_notice e), SSE_Done] \<or>
                evs = map SSE_Content pre @ [SSE_Content truncation_notice, SSE_Done])"
proof (cases "truncated (stream_chunks cfg tok [] u (chunks up))")
  case True
  then obtain pre where "events (stream_chunks cfg tok [] u (chunks up)) =
      map SSE_Content pre @ [SSE_Content truncation_notice, SSE_Done]"
    using stream_chunks_truncated_shape by blast
  moreover have "evs = events (stream_chunks cfg tok [] u (chunks up)) \<and> st' = st"
    using True assms(2) by (simp add: stream_response_def Let_def)
  ultimately show ?thesis by blast
next
  case False
  then have "events (stream_chunks cfg tok [] u (chunks up)) =
      map SSE_Content (map snd (text_chunks (chunks up)))"
    using stream_chunks_complete_shape by simp
  moreover have "evs = events (stream_chunks cfg tok [] u (chunks up)) @
                       [SSE_Content (error_notice e), SSE_Done] \<and> st' = st"
    using False assms by (simp add: stream_response_def Let_def)
  ultimately show ?thesis by blast
qed

theorem upstream_failure_not_persisted_witness:
  "snd (snd (stream_response default_rate_config len_tok 0 ''gemini-2.0-flash'' 5
     \<lparr>chunks = [(1, Some ''ab'')], failure = Some ''boom''\<rparr> (initial_usage 0) demo_store)) =
   demo_store"
proof -
  obtain evs u' st' where r: "stream_response default_rate_config len_tok 0 ''gemini-2.0-flash'' 5
     \<lparr>chunks = [(1::real, Some ''ab'')], failure = Some ''boom''\<rparr> (initial_usage 0) demo_store =
     (evs, u', st')" by (metis prod_cases3)
  have "failure \<lparr>chunks = [(1::real, Some ''ab'')], failure = Some ''boom''\<rparr> = Some ''boom''"
    by simp
  from upstream_failure_not_persisted [OF this r] r show ?thesis by simp
qed

text \<open>
  Every stream the orchestrator produces ends with the terminal
  \<open>[DONE]\<close> marker, and the marker occurs nowhere else, so a client detects
  the end with certainty after normal completion, truncation or failure.
\<close>

theorem stream_ends_with_done:
  "\<exists>pre. fst (stream_response cfg tok tid model_id t_end up u st) = pre @ [SSE_Done] \<and>
         SSE_Done \<notin> set pre"
proof (cases "truncated (stream_chunks cfg tok [] u (chunks up))")
  case True
  then obtain pre where "events (stream_chunks cfg tok [] u (chunks up)) =
      map SSE_Content pre @ [SSE_Content truncation_notice, SSE_Done]"
    using stream_chunks_truncated_shape by blast
  with True show ?thesis
    by (intro exI [of _ "map SSE_Content pre @ [SSE_Content truncation_notice]"])
       (auto simp: stream_response_def)
next
  case False
  then have ev: "events (stream_chunks cfg tok [] u (chunks up)) =
      map SSE_Content (map snd (text_chunks (chunks up)))"
    using stream_chunks_complete_shape by simp
  show ?thesis
  proof (cases "failure up")
    case None
    with False ev show ?thesis
      by (intro exI [of _ "map SSE_Content (map snd (text_chunks (chunks up)))"])
         (auto simp: stream_response_def Let_def)
  next
    case (Some e)
    with False ev show ?thesis
      by (intro exI [of _ "map SSE_Content (map snd (text_chunks (chunks up))) @
                           [SSE_Content (error_notice e)]"])
         (auto simp: stream_response_def)
  qed
qed

text \<open>
  What is stored is what was sent: whenever a stream changes the
  store, it appends exactly one model turn of the requested model to the
  requested thread, its content is exactly the text a client reassembles
  from the events, and the events end with the terminal marker.
\<close>

theorem persisted_equals_forwarded:
  assumes "stream_response cfg tok tid model_id t_end up u st = (evs, u', st')" and "st' \<noteq> st"
  shows "\<exists>row. conversations st' = conversations st @ [row] \<and> role row = ''model'' \<and>
               conv_thread row = tid \<and> model row = Some model_id \<and>
               content row = reassemble evs \<and> last evs = SSE_Done"
proof -
  let ?r = "stream_chunks cfg tok [] u (chunks up)"
  have nt: "\<not> truncated ?r" and nf: "failure up = None"
    using assms by (auto simp: stream_response_def Let_def split: option.splits if_splits)
  obtain th where th: "crud_get_thread tid st = Some th"
  proof (cases "crud_get_thread tid st")
    case None
    with assms nt nf show ?thesis
      by (simp add: stream_response_def Let_def add_messages_to_thread_missing)
  qed
  have shape: "events ?r = map (\<lambda>c. SSE_Content (snd c)) (text_chunks (chunks up)) \<and>
               accumulated ?r = [] @ concat (map snd (text_chunks (chunks up)))"
    using nt by (rule stream_chunks_complete_shape)
  then have evs: "evs = map (\<lambda>c. SSE_Content (snd c)) (text_chunks (chunks up)) @ [SSE_Done]"
    using assms(1) nt nf by (simp add: stream_response_def Let_def)
  have "st' = snd (add_messages_to_thread tok tid None
      (Some \<lparr>msg_content = accumulated ?r, msg_model = Some model_id,
             msg_token_count = Some (tok (accumulated ?r))\<rparr>) t_end st)"
    using assms(1) nt nf by (simp add: stream_response_def Let_def)
  with add_messages_to_thread_model_only [OF th] shape evs show ?thesis
    by auto
qed

theorem persisted_equals_forwarded_witness:
  "content (last (conversations (snd (snd (stream_response default_rate_config len_tok 0
      ''gemini-2.0-flash'' 5 \<lparr>chunks = [(1, Some ''Hel''), (2, Some ''lo'')], failure = None\<rparr>
      (initial_usage 0) demo_store))))) = ''Hello''"
proof -
  let ?up = "\<lparr>chunks = [(1::real, Some ''Hel''), (2, Some ''lo'')], failure = None\<rparr>"
  obtain evs u' st' where r: "stream_response default_rate_config len_tok 0 ''gemini-2.0-flash'' 5 ?up
      (initial_usage 0) demo_store = (evs, u', st')" by (metis prod_cases3)
  have ev: "stream_response default_rate_config len_tok 0 ''gemini-2.0-flash'' 5 ?up
      (initial_usage 0) demo_store =
      ([SSE_Content ''Hel'', SSE_Content ''lo'', SSE_Done],
       (initial_usage 0)\<lparr>tokens_used := 5\<rparr>,
       snd (add_messages_to_thread len_tok 0 None
          (Some \<lparr>msg_content = ''Hello'', msg_model = Some ''gemini-2.0-flash'',
                 msg_token_count = Some 5\<rparr>) 5 demo_store))"
    by (simp add: stream_response_def check_token_rate_limit_def check_and_reset_counters_def
        default_rate_config_def len_tok_def Let_def)
  have len: "length (conversations st') = 2"
    using r ev
    by (simp add: demo_store_def empty_store_def create_thread_def crud_create_thread_def
        add_messages_to_thread_def crud_get_thread_def create_conversation_def Let_def)
  have "length (conversations demo_store) = 1"
    by (simp add: demo_store_def empty_store_def create_thread_def crud_create_thread_def
        add_messages_to_thread_def crud_get_thread_def create_conversation_def Let_def)
  with len have ne: "st' \<noteq> demo_store" by auto
  from persisted_equals_forwarded [OF r ne] obtain row where
    "conversations st' = conversations demo_store @ [row]" and "content row = reassemble evs"
    by blast
  moreover have "evs = [SSE_Content ''Hel'', SSE_Content ''lo'', SSE_Done]"
    using r ev by (metis prod.inject)
  ultimately show ?thesis using r by simp
qed

text \<open>
  C6: The chat endpoint stores the question first: the history handed
  to the model is the thread's history before the question, and the
  question is appended as a user turn (with its token count) directly
  after the existing rows, whatever the model then does.  The endpoint never
  counts the request against the request budget: the request counter is
  unchanged, or zero after a window reset.
\<close>

theorem chat_stores_question_first:
  assumes "crud_get_thread tid st = Some th"
    and "chat_with_thread cfg tok tid q model_id env u st = (hist, reply, u', st')"
  shows "hist = get_thread_messages_optimized tid st \<and>
         take (Suc (length (conversations st))) (conversations st') =
           conversations st @
           [\<lparr>conv_pk = next_key st, conv_thread = tid, role = ''user'', content = q,
             conv_created_at = t_user env, model = None, token_count = Some (tok q)\<rparr>] \<and>
         (requests_used u' = requests_used u \<or> requests_used u' = 0)"
proof -
  let ?m = "\<lparr>msg_content = q, msg_model = None, msg_token_count = Some (tok q)\<rparr>"
  let ?st1 = "snd (add_messages_to_thread tok tid (Some ?m) None (t_user env) st)"
  have c1: "conversations ?st1 = conversations st @
           [\<lparr>conv_pk = next_key st, conv_thread = tid, role = ''user'', content = q,
             conv_created_at = t_user env, model = None, token_count = Some (tok q)\<rparr>]"
    using add_messages_to_thread_user_only [OF assms(1), of tok ?m "t_user env"] by simp
  have p: "process_chat_request cfg tok tid model_id env u ?st1 = (reply, u', st')"
    using assms(2) by (simp add: chat_with_thread_def Let_def split: prod.splits)
  have "take (length (conversations ?st1)) (conversations st') = conversations ?st1 \<and>
        (requests_used u' = requests_used u \<or> requests_used u' = 0)"
  proof (cases "setup_error env")
    case None
    with p have "st' = snd (snd (stream_response cfg tok tid model_id (t_done env) (model_stream env) u ?st1))"
      and "u' = fst (snd (stream_response cfg tok tid model_id (t_done env) (model_stream env) u ?st1))"
      by (auto simp: process_chat_request_def split: prod.splits)
    then show ?thesis
      using stream_response_prefix requests_used_stream_chunks by (simp add: stream_response_usage)
  next
    case (Some e)
    with p show ?thesis by (auto simp: process_chat_request_def)
  qed
  with c1 assms(2) show ?thesis by (auto simp: chat_with_thread_def Let_def split: prod.splits)
qed

theorem chat_stores_question_first_witness:
  "take 2 (conversations (snd (snd (snd (chat_with_thread default_rate_config len_tok 0 ''q''
      ''gemini-2.0-flash''
      \<lparr>t_user = 3, t_done = 4, setup_error = None,
       model_stream = \<lparr>chunks = [], failure = Some ''boom''\<rparr>\<rparr> (initial_usage 0) demo_store))))) =
   conversations demo_store @
   [\<lparr>conv_pk = 2, conv_thread = 0, role = ''user'', content = ''q'',
     conv_created_at = 3, model = None, token_count = Some 1\<rparr>]"
proof -
  let ?env = "\<lparr>t_user = 3::real, t_done = 4, setup_error = None,
               model_stream = \<lparr>chunks = [], failure = Some ''boom''\<rparr>\<rparr>"
  obtain th where th: "crud_get_thread 0 demo_store = Some th"
    by (simp add: demo_store_def empty_store_def create_thread_def crud_create_thread_def
        add_messages_to_thread_def crud_get_thread_def create_conversation_def Let_def)
  have k: "next_key demo_store = 2" and l: "length (conversations demo_store) = 1"
    by (simp_all add: demo_store_def empty_store_def create_thread_def crud_create_thread_def
        add_messages_to_thread_def crud_get_thread_def create_conversation_def Let_def)
  obtain hist reply u' st' where r: "chat_with_thread default_rate_config len_tok 0 ''q''
      ''gemini-2.0-flash'' ?env (initial_usage 0) demo_store = (hist, reply, u', st')"
    by (metis prod_cases4)
  from chat_stores_question_first [OF th r] r k l show ?thesis
    by (simp add: len_tok_def numeral_2_eq_2)
qed

text \<open>
  C33: The chat endpoint never answers \<open>NotFound\<close>: a chat request for a
  thread that does not exist (with a working client) is answered with a
  stream, its chunks are charged to the token budget as for any stream,
  and nothing is stored, neither the question nor the answer.
\<close>

theorem chat_missing_thread_streams:
  assumes "crud_get_thread tid st = None" and "setup_error env = None"
  shows "\<exists>evs. chat_with_thread cfg tok tid q model_id env u st =
           (get_thread_messages_optimized tid st, Reply_Stream evs,
            usage_after (stream_chunks cfg tok [] u (chunks (model_stream env))), st)"
proof -
  let ?sr = "stream_response cfg tok tid model_id (t_done env) (model_stream env) u st"
  have store: "snd (snd ?sr) = st"
    using assms(1)
    by (auto simp: stream_response_def add_messages_to_thread_missing Let_def split: option.splits)
  have "fst (snd ?sr) = usage_after (stream_chunks cfg tok [] u (chunks (model_stream env)))"
    by (rule stream_response_usage)
  with store assms show ?thesis
    by (auto simp: chat_with_thread_def process_chat_request_def add_messages_to_thread_missing Let_def
        split: prod.splits)
qed

theorem chat_missing_thread_streams_witness:
  "\<exists>evs. chat_with_thread demo_cfg len_tok 0 ''hi'' ''gemini-2.0-flash''
           \<lparr>t_user = 1, t_done = 3, setup_error = None,
            model_stream = \<lparr>chunks = [(2, Some ''abc'')], failure = None\<rparr>\<rparr> (initial_usage 0) empty_store =
         (get_thread_messages_optimized 0 empty_store, Reply_Stream evs,
          usage_after (stream_chunks demo_cfg len_tok [] (initial_usage 0) [(2, Some ''abc'')]), empty_store)"
  using chat_missing_thread_streams [of 0 empty_store
      "\<lparr>t_user = 1, t_done = 3, setup_error = None,
        model_stream = \<lparr>chunks = [(2, Some ''abc'')], failure = None\<rparr>\<rparr>" demo_cfg len_tok "''hi''"
      "''gemini-2.0-flash''" "initial_usage 0"]
  by (simp add: crud_get_thread_def empty_store_def)

end
