(* ===== verification/ThreadRoutes.thy ===== *)
theory ThreadRoutes
  imports RateLimiter ThreadStore
begin

text \<open>
  The thread endpoints of \<open>app/api/routes/threads.py\<close> and the status
  endpoint of \<open>app/api/routes/rate_limits.py\<close>.  Each endpoint runs the
  dependency \<open>get_current_active_user\<close> (app/auth/auth.py; token decoding
  is external, its result is the argument \<open>cu\<close>), then its body, which
  starts with \<open>track_request\<close> on the shared usage dictionary.  The three
  ways the bodies treat exceptions are kept apart: no handler (an
  \<open>APIError\<close> escapes and the framework answers 500), a handler that turns
  every exception into 500 (\<open>create_new_thread\<close>), and one that re-raises
  \<open>HTTPException\<close> and turns the others into 500 (\<open>update\<close>, \<open>delete\<close>).
  A UUID in a message is printed with \<open>py_str_int\<close> of the key that models it.
\<close>

section \<open>Authentication dependency\<close>

record auth_user =
  au_id :: uuid
  au_email :: string
  au_name :: string
  au_created :: timestamp
  au_active :: bool
  au_admin :: bool

definition get_current_active_user :: "auth_user \<Rightarrow> py_exc + auth_user" where
  "get_current_active_user cu =
     (if \<not> au_active cu then Inl (HTTPException 400 ''Inactive user'') else Inr cu)"

definition endpoint ::
  "auth_user \<Rightarrow> (usage \<Rightarrow> store \<Rightarrow> 'a response \<times> usage \<times> store) \<Rightarrow> usage \<Rightarrow> store \<Rightarrow>
   'a response \<times> usage \<times> store" where
  "endpoint cu body u st =
     (case get_current_active_user cu of Inl e \<Rightarrow> (uncaught e, u, st) | Inr _ \<Rightarrow> body u st)"

section \<open>Messages\<close>

definition not_found_detail :: "uuid \<Rightarrow> string" where
  "not_found_detail tid = ''Thread with ID '' @ py_str_int (int tid) @ '' not found''"

definition no_permission :: "string \<Rightarrow> string" where
  "no_permission action =
     ''You don'' @ [CHR 0x27] @ ''t have permission to '' @ action @ '' this thread''"

text \<open>
  The handler of \<open>update_thread_by_id\<close> and \<open>delete_thread_by_id\<close>:
  \<open>except HTTPException: raise\<close>, \<open>except Exception as e: 500, str(e)\<close>.
\<close>

fun reraise_http :: "py_exc + 'a \<Rightarrow> 'a response" where
  "reraise_http (Inr v) = Response v"
| "reraise_http (Inl (HTTPException code detail)) = Error_Response code detail"
| "reraise_http (Inl e) = Error_Response 500 (exc_str e)"

section \<open>Endpoints (routes/threads.py)\<close>

definition create_new_thread ::
  "rate_config \<Rightarrow> timestamp \<Rightarrow> auth_user \<Rightarrow> string \<Rightarrow> usage \<Rightarrow> store \<Rightarrow>
   thread response \<times> usage \<times> store" where
  "create_new_thread cfg now cu t =
     endpoint cu (\<lambda>u st.
       (case track_request cfg now u of
          (Inl e, u1) \<Rightarrow> (Error_Response 500 (''Error creating thread: '' @ exc_str e), u1, st)
        | (Inr _, u1) \<Rightarrow>
            (case create_thread t (au_id cu) now st of
               Inl e \<Rightarrow> (Error_Response 500 (''Error creating thread: '' @ exc_str e), u1, st)
             | Inr (th, st') \<Rightarrow> (Response th, u1, st'))))"

definition list_all_threads ::
  "rate_config \<Rightarrow> timestamp \<Rightarrow> auth_user \<Rightarrow> usage \<Rightarrow> store \<Rightarrow>
   thread list response \<times> usage \<times> store" where
  "list_all_threads cfg now cu =
     endpoint cu (\<lambda>u st.
       (case track_request cfg now u of
          (Inl e, u1) \<Rightarrow> (uncaught e, u1, st)
        | (Inr _, u1) \<Rightarrow> (Response (get_all_threads (au_id cu) st), u1, st)))"

definition get_thread_previews ::
  "rate_config \<Rightarrow> timestamp \<Rightarrow> auth_user \<Rightarrow> usage \<Rightarrow> store \<Rightarrow>
   thread_preview list response \<times> usage \<times> store" where
  "get_thread_previews cfg now cu =
     endpoint cu (\<lambda>u st.
       (case track_request cfg now u of
          (Inl e, u1) \<Rightarrow> (uncaught e, u1, st)
        | (Inr _, u1) \<Rightarrow> (Response (get_all_thread_previews (au_id cu) st), u1, st)))"

text \<open>The lookup and ownership check shared by the single-thread endpoints.\<close>

definition owned_thread :: "auth_user \<Rightarrow> string \<Rightarrow> uuid \<Rightarrow> store \<Rightarrow> py_exc + thread" where
  "owned_thread cu action tid st =
     (case get_thread tid st of
        None \<Rightarrow> Inl (HTTPException 404 (not_found_detail tid))
      | Some th \<Rightarrow>
          if owner th \<noteq> au_id cu then Inl (HTTPException 403 (no_permission action))
          else Inr th)"

definition get_thread_by_id ::
  "rate_config \<Rightarrow> timestamp \<Rightarrow> auth_user \<Rightarrow> uuid \<Rightarrow> usage \<Rightarrow> store \<Rightarrow>
   thread response \<times> usage \<times> store" where
  "get_thread_by_id cfg now cu tid =
     endpoint cu (\<lambda>u st.
       (case track_request cfg now u of
          (Inl e, u1) \<Rightarrow> (uncaught e, u1, st)
        | (Inr _, u1) \<Rightarrow> (to_response (owned_thread cu ''access'' tid st), u1, st)))"

definition update_thread_by_id ::
  "rate_config \<Rightarrow> timestamp \<Rightarrow> auth_user \<Rightarrow> uuid \<Rightarrow> thread_update \<Rightarrow> usage \<Rightarrow> store \<Rightarrow>
   thread response \<times> usage \<times> store" where
  "update_thread_by_id cfg now cu tid d =
     endpoint cu (\<lambda>u st.
       (case track_request cfg now u of
          (Inl e, u1) \<Rightarrow> (reraise_http (Inl e), u1, st)
        | (Inr _, u1) \<Rightarrow>
            (case owned_thread cu ''update'' tid st of
               Inl e \<Rightarrow> (reraise_http (Inl e), u1, st)
             | Inr th \<Rightarrow>
                 (case update_thread tid d now st of
                    Inl e \<Rightarrow> (reraise_http (Inl e), u1, st)
                  | Inr (None, st') \<Rightarrow>
                      (Error_Response 500 (''Error updating thread '' @ py_str_int (int tid)), u1, st')
                  | Inr (Some th', st') \<Rightarrow> (Response th', u1, st')))))"

definition delete_thread_by_id ::
  "rate_config \<Rightarrow> timestamp \<Rightarrow> auth_user \<Rightarrow> uuid \<Rightarrow> usage \<Rightarrow> store \<Rightarrow>
   string response \<times> usage \<times> store" where
  "delete_thread_by_id cfg now cu tid =
     endpoint cu (\<lambda>u st.
       (case track_request cfg now u of
          (Inl e, u1) \<Rightarrow> (reraise_http (Inl e), u1, st)
        | (Inr _, u1) \<Rightarrow>
            (case owned_thread cu ''delete'' tid st of
               Inl e \<Rightarrow> (reraise_http (Inl e), u1, st)
             | Inr th \<Rightarrow>
                 (case delete_thread tid st of
                    (False, st') \<Rightarrow>
                      (Error_Response 500 (''Error deleting thread '' @ py_str_int (int tid)), u1, st')
                  | (True, st') \<Rightarrow>
                      (Response (''Thread '' @ [CHR 0x27] @ title th @ [CHR 0x27] @
                                 '' deleted successfully''), u1, st')))))"

definition get_messages_for_thread ::
  "rate_config \<Rightarrow> timestamp \<Rightarrow> auth_user \<Rightarrow> uuid \<Rightarrow> usage \<Rightarrow> store \<Rightarrow>
   conversation list response \<times> usage \<times> store" where
  "get_messages_for_thread cfg now cu tid =
     endpoint cu (\<lambda>u st.
       (case track_request cfg now u of
          (Inl e, u1) \<Rightarrow> (uncaught e, u1, st)
        | (Inr _, u1) \<Rightarrow>
            (case owned_thread cu ''access'' tid st of
               Inl e \<Rightarrow> (uncaught e, u1, st)
             | Inr th \<Rightarrow> (Response (get_thread_messages tid st), u1, st))))"

definition clear_thread_messages ::
  "rate_config \<Rightarrow> timestamp \<Rightarrow> auth_user \<Rightarrow> uuid \<Rightarrow> usage \<Rightarrow> store \<Rightarrow>
   string response \<times> usage \<times> store" where
  "clear_thread_messages cfg now cu tid =
     endpoint cu (\<lambda>u st.
       (case track_request cfg now u of
          (Inl e, u1) \<Rightarrow> (uncaught e, u1, st)
        | (Inr _, u1) \<Rightarrow>
            (case owned_thread cu ''clear messages in'' tid st of
               Inl e \<Rightarrow> (uncaught e, u1, st)
             | Inr th \<Rightarrow>
                 (Response ''Messages cleared successfully'', u1, clear_thread_conversations tid st))))"

section \<open>Rate-limit status endpoint (routes/rate_limits.py)\<close>

text \<open>No authentication dependency; three clock readings.\<close>

definition get_rate_limits ::
  "rate_config \<Rightarrow> timestamp \<Rightarrow> timestamp \<Rightarrow> timestamp \<Rightarrow> usage \<Rightarrow>
   rate_limit_status response \<times> usage" where
  "get_rate_limits cfg t1 t2 t3 u =
     (case track_request cfg t1 u of
        (Inl e, u1) \<Rightarrow> (uncaught e, u1)
      | (Inr _, u1) \<Rightarrow>
          (case get_rate_limit_status cfg t2 t3 u1 of (s, u2) \<Rightarrow> (Response s, u2)))"

section \<open>The endpoints as one interface\<close>

datatype thread_request =
    Req_Create string
  | Req_List
  | Req_Previews
  | Req_Get uuid
  | Req_Update uuid thread_update
  | Req_Delete uuid
  | Req_Messages uuid
  | Req_Clear uuid

text \<open>The status code each endpoint answers with, and the states it leaves.\<close>

fun thread_route ::
  "rate_config \<Rightarrow> timestamp \<Rightarrow> auth_user \<Rightarrow> thread_request \<Rightarrow> usage \<Rightarrow> store \<Rightarrow>
   int \<times> usage \<times> store" where
  "thread_route cfg now cu (Req_Create t) u st =
     (case create_new_thread cfg now cu t u st of (r, s) \<Rightarrow> (response_status r, s))"
| "thread_route cfg now cu Req_List u st =
     (case list_all_threads cfg now cu u st of (r, s) \<Rightarrow> (response_status r, s))"
| "thread_route cfg now cu Req_Previews u st =
     (case get_thread_previews cfg now cu u st of (r, s) \<Rightarrow> (response_status r, s))"
| "thread_route cfg now cu (Req_Get tid) u st =
     (case get_thread_by_id cfg now cu tid u st of (r, s) \<Rightarrow> (response_status r, s))"
| "thread_route cfg now cu (Req_Update tid d) u st =
     (case update_thread_by_id cfg now cu tid d u st of (r, s) \<Rightarrow> (response_status r, s))"
| "thread_route cfg now cu (Req_Delete tid) u st =
     (case delete_thread_by_id cfg now cu tid u st of (r, s) \<Rightarrow> (response_status r, s))"
| "thread_route cfg now cu (Req_Messages tid) u st =
     (case get_messages_for_thread cfg now cu tid u st of (r, s) \<Rightarrow> (response_status r, s))"
| "thread_route cfg now cu (Req_Clear tid) u st =
     (case clear_thread_messages cfg now cu tid u st of (r, s) \<Rightarrow> (response_status r, s))"

text \<open>The thread a single-thread request names.\<close>

fun req_target :: "thread_request \<Rightarrow> uuid option" where
  "req_target (Req_Get tid) = Some tid"
| "req_target (Req_Update tid d) = Some tid"
| "req_target (Req_Delete tid) = Some tid"
| "req_target (Req_Messages tid) = Some tid"
| "req_target (Req_Clear tid) = Some tid"
| "req_target r = None"

text \<open>The store operation a request writes through, if it writes.\<close>

fun req_store_op :: "auth_user \<Rightarrow> thread_request \<Rightarrow> store_op option" where
  "req_store_op cu (Req_Create t) = Some (Op_Create_Thread t (au_id cu))"
| "req_store_op cu (Req_Update tid d) = Some (Op_Update_Thread tid d)"
| "req_store_op cu (Req_Delete tid) = Some (Op_Delete_Thread tid)"
| "req_store_op cu (Req_Clear tid) = Some (Op_Clear_Messages tid)"
| "req_store_op cu r = None"

lemmas route_defs [model_defs] =
  create_new_thread_def list_all_threads_def get_thread_previews_def
  get_thread_by_id_def update_thread_by_id_def delete_thread_by_id_def
  get_messages_for_thread_def clear_thread_messages_def

section \<open>Lemmas\<close>

lemma endpoint_active [simp]: "au_active cu \<Longrightarrow> endpoint cu body u st = body u st"
  by (simp add: endpoint_def get_current_active_user_def)

lemma endpoint_inactive [simp]:
  "\<not> au_active cu \<Longrightarrow> endpoint cu body u st = (Error_Response 400 ''Inactive user'', u, st)"
  by (simp add: endpoint_def get_current_active_user_def)

lemma owned_thread_forbidden:
  "crud_get_thread tid st = Some th \<Longrightarrow> owner th \<noteq> au_id cu \<Longrightarrow>
   owned_thread cu action tid st = Inl (HTTPException 403 (no_permission action))"
  by (simp add: owned_thread_def)

lemma owned_thread_Inr:
  "owned_thread cu action tid st = Inr th \<Longrightarrow> crud_get_thread tid st = Some th \<and> owner th = au_id cu"
  by (auto simp: owned_thread_def split: option.splits if_splits)

lemma owned_thread_Inl_http:
  "owned_thread cu action tid st = Inl e \<Longrightarrow> \<exists>code d. e = HTTPException code d \<and> code \<noteq> 200"
  by (auto simp: owned_thread_def split: option.splits if_splits)

lemma crud_update_thread_store:
  "crud_update_thread tid d now st = Inr (None, st') \<Longrightarrow> st' = st"
  by (auto simp: crud_update_thread_def Let_def split: option.splits if_splits)

lemma crud_delete_thread_False:
  "crud_delete_thread tid st = (False, st') \<Longrightarrow> st' = st"
  by (auto simp: crud_delete_thread_def split: option.splits)

text \<open>Every endpoint passes the request check first and returns the dictionary it left.\<close>

lemma thread_route_usage:
  "fst (snd (thread_route cfg now cu req u st)) =
   (if au_active cu then snd (track_request cfg now u) else u)"
  by (cases req) (auto simp: route_defs split: prod.splits sum.splits option.splits bool.splits)

text \<open>An endpoint writes the store through at most the one operation its request names.\<close>

lemma thread_route_store:
  "snd (snd (thread_route cfg now cu req u st)) = st \<or>
   (\<exists>op. req_store_op cu req = Some op \<and> snd (snd (thread_route cfg now cu req u st)) = store_step tok now op st)"
  by (cases "au_active cu"; cases req)
     (auto simp: route_defs create_thread_def split: prod.splits sum.splits option.splits bool.splits)

text \<open>
  A write of a single-thread endpoint happens only after the ownership
  check has passed, so it names a thread of the requesting user.
\<close>

lemma thread_route_store_owned:
  "snd (snd (thread_route cfg now cu req u st)) = st \<or>
   (\<exists>t. req = Req_Create t \<and>
      snd (snd (thread_route cfg now cu req u st)) = store_step tok now (Op_Create_Thread t (au_id cu)) st) \<or>
   (\<exists>tid op th'. req_target req = Some tid \<and> req_store_op cu req = Some op \<and>
      crud_get_thread tid st = Some th' \<and> owner th' = au_id cu \<and>
      snd (snd (thread_route cfg now cu req u st)) = store_step tok now op st)"
  by (cases "au_active cu"; cases req)
     (auto simp: route_defs create_thread_def owned_thread_def
        split: prod.splits sum.splits option.splits bool.splits if_splits)

lemma other_owner_pk:
  assumes "store_wf st" and "crud_get_thread tid st = Some th'" and "owner th' = au_id cu"
    and "th \<in> set (threads st)" and "owner th \<noteq> au_id cu"
  shows "thread_pk th \<noteq> tid"
proof
  assume pk: "thread_pk th = tid"
  have "th' \<in> set (threads st)" and "thread_pk th' = tid"
    using crud_get_thread_Some [OF assms(2)] by auto
  with pk assms(1,4) have "th = th'"
    by (auto simp: store_wf_def dest: inj_onD [OF iffD1 [OF distinct_map, THEN conjunct2]])
  with assms(3,5) show False by simp
qed

lemma filter_other_key:
  "a \<noteq> b \<Longrightarrow> filter (\<lambda>x. f x \<noteq> b \<and> f x = a) xs = filter (\<lambda>x. f x = a) xs"
  by (induction xs) auto

text \<open>A store operation on another thread leaves this thread and its messages alone.\<close>

lemma store_step_other_thread:
  assumes "req_store_op cu req = Some op" and "req_target req = Some tid" and "thread_pk th \<noteq> tid"
    and "th \<in> set (threads st)"
  shows "th \<in> set (threads (store_step tok now op st)) \<and>
         filter (\<lambda>c. conv_thread c = thread_pk th) (conversations (store_step tok now op st)) =
         filter (\<lambda>c. conv_thread c = thread_pk th) (conversations st)"
  using assms
  by (cases req)
     (auto simp: crud_update_thread_def crud_delete_thread_def clear_thread_conversations_def
        filter_filter filter_other_key Let_def split: option.splits sum.splits)

definition stranger :: auth_user where
  "stranger = \<lparr>au_id = 8, au_email = ''bob@example.com'', au_name = ''bob'', au_created = 0, au_active = True, au_admin = False\<rparr>"

definition owner7 :: auth_user where
  "owner7 = \<lparr>au_id = 7, au_email = ''alice@example.com'', au_name = ''alice'', au_created = 0, au_active = True, au_admin = False\<rparr>"

section \<open>Properties\<close>

text \<open>
  C7: Ownership is enforced: a request of an active user for one thread
  (read, update, delete, list or clear its messages) that names an
  existing thread owned by someone else is answered 403 and leaves the
  store unchanged; the request is still counted by the throttle.
\<close>

theorem ownership_enforced:
  assumes "req_target req = Some tid" and "au_active cu"
    and "crud_get_thread tid st = Some th" and "owner th \<noteq> au_id cu"
    and "requests_used (check_and_reset_counters now u) < requests_per_minute cfg"
  shows "thread_route cfg now cu req u st = (403, snd (track_request cfg now u), st)"
proof -
  have f: "\<And>action. owned_thread cu action tid st = Inl (HTTPException 403 (no_permission action))"
    using assms(3,4) by (rule owned_thread_forbidden)
  show ?thesis
    using assms(1,2,5) f
    by (cases req) (simp_all add: get_thread_by_id_def update_thread_by_id_def
        delete_thread_by_id_def get_messages_for_thread_def clear_thread_messages_def)
qed

theorem ownership_enforced_witness:
  "thread_route default_rate_config 1 stranger (Req_Delete 0) (initial_usage 0) demo_store =
   (403, snd (track_request default_rate_config 1 (initial_usage 0)), demo_store)"
proof -
  obtain th where th: "crud_get_thread 0 demo_store = Some th" and o: "owner th = 7"
    by (simp add: demo_store_def empty_store_def create_thread_def crud_create_thread_def
        add_messages_to_thread_def crud_get_thread_def create_conversation_def Let_def)
  show ?thesis
    by (rule ownership_enforced [OF _ _ th])
       (simp_all add: stranger_def o default_rate_config_def)
qed

text \<open>
  Failures have no side effects on the store: whenever a thread
  endpoint answers with a status other than 200, the store is exactly as
  before the request.
\<close>

theorem error_responses_leave_store_unchanged:
  assumes "thread_route cfg now cu req u st = (code, u', st')" and "code \<noteq> 200"
  shows "st' = st"
proof (cases "au_active cu")
  case False
  with assms show ?thesis by (cases req) (simp_all add: route_defs)
next
  case True
  show ?thesis
  proof (cases "requests_used (check_and_reset_counters now u) < requests_per_minute cfg")
    case False
    with True assms show ?thesis by (cases req) (simp_all add: route_defs not_less)
  next
    case adm: True
    show ?thesis
    proof (cases req)
      case (Req_Update tid d)
      with True adm assms show ?thesis
        by (auto simp: update_thread_by_id_def crud_update_thread_store
            split: sum.splits option.splits prod.splits dest: owned_thread_Inl_http)
    next
      case (Req_Delete tid)
      with True adm assms show ?thesis
        by (auto simp: delete_thread_by_id_def crud_delete_thread_False
            split: sum.splits bool.splits prod.splits dest: owned_thread_Inl_http)
    next
      case (Req_Clear tid)
      with True adm assms show ?thesis
        by (auto simp: clear_thread_messages_def split: sum.splits
            dest: owned_thread_Inl_http)
    qed (use True adm assms in \<open>auto simp: route_defs split: prod.splits sum.splits\<close>)
  qed
qed

theorem error_responses_leave_store_unchanged_witness:
  "snd (snd (thread_route default_rate_config 1 stranger (Req_Clear 0) (initial_usage 0) demo_store)) =
   demo_store"
proof -
  obtain code u' st' where r: "thread_route default_rate_config 1 stranger (Req_Clear 0)
      (initial_usage 0) demo_store = (code, u', st')" by (metis prod_cases3)
  have "code = 403"
    using r by (simp add: clear_thread_messages_def owned_thread_def stranger_def
        default_rate_config_def demo_store_def empty_store_def create_thread_def
        crud_create_thread_def add_messages_to_thread_def crud_get_thread_def
        create_conversation_def Let_def)
  then have "code \<noteq> 200" by simp
  from error_responses_leave_store_unchanged [OF r this] r show ?thesis by simp
qed

text \<open>
  C8: A request rejected by the request budget is never answered 429:
  every thread endpoint of an active user and the rate-limit status
  endpoint answer 500 (the \<open>RateLimitError\<close> is not an \<open>HTTPException\<close>
  and no handler for it is registered), and the store is unchanged.
\<close>

theorem rate_limited_routes_answer_500:
  assumes "au_active cu"
    and "requests_per_minute cfg \<le> requests_used (check_and_reset_counters now u)"
  shows "thread_route cfg now cu req u st = (500, check_and_reset_counters now u, st) \<and>
         get_rate_limits cfg now t2 t3 u =
           (Error_Response 500 ''Internal Server Error'', check_and_reset_counters now u)"
  using assms by (cases req) (simp_all add: route_defs get_rate_limits_def)

theorem rate_limited_routes_answer_500_witness:
  "thread_route \<lparr>requests_per_minute = 0, tokens_per_minute = 100\<rparr> 1 stranger (Req_Get 0)
     (initial_usage 0) demo_store = (500, initial_usage 0, demo_store)"
proof -
  have "thread_route \<lparr>requests_per_minute = 0, tokens_per_minute = 100\<rparr> 1 stranger (Req_Get 0)
     (initial_usage 0) demo_store = (500, check_and_reset_counters 1 (initial_usage 0), demo_store)"
    using rate_limited_routes_answer_500 [of stranger "\<lparr>requests_per_minute = 0, tokens_per_minute = 100\<rparr>"
        1 "initial_usage 0" "Req_Get 0" demo_store 2 3]
    by (simp add: stranger_def)
  then show ?thesis by simp
qed

text \<open>
  Listing is isolated per user: the thread list an endpoint returns
  holds exactly the caller's own threads, and listing writes nothing.
\<close>

theorem list_threads_isolated:
  assumes "list_all_threads cfg now cu u st = (Response ths, u', st')"
  shows "set ths = {th \<in> set (threads st). owner th = au_id cu} \<and> st' = st"
  using assms
  by (cases "au_active cu")
     (auto simp: list_all_threads_def get_user_threads_def track_request_def Let_def
        split: if_splits)

theorem list_threads_isolated_witness:
  "\<exists>ths. fst (list_all_threads default_rate_config 1 \<lparr>au_id = 7, au_email = ''alice@example.com'', au_name = ''alice'', au_created = 0, au_active = True, au_admin = False\<rparr>
            (initial_usage 0) demo_store) = Response ths \<and>
         set ths = set (threads demo_store)"
proof -
  let ?cu = "\<lparr>au_id = 7, au_email = ''alice@example.com'', au_name = ''alice'', au_created = 0, au_active = True, au_admin = False\<rparr>"
  have own: "\<forall>th \<in> set (threads demo_store). owner th = 7"
    by (simp add: demo_store_def empty_store_def create_thread_def crud_create_thread_def
        add_messages_to_thread_def crud_get_thread_def create_conversation_def Let_def)
  obtain ths u' st' where r: "list_all_threads default_rate_config 1 ?cu (initial_usage 0) demo_store =
      (Response ths, u', st')"
    by (simp add: list_all_threads_def default_rate_config_def)
  from list_threads_isolated [OF r] own have "set ths = set (threads demo_store)" by auto
  with r show ?thesis by simp
qed

text \<open>
  C32: Isolation between users: in a well-formed store, no request of the
  thread endpoints, of whatever kind and whatever its outcome, removes or
  changes a thread of another user, or adds, changes or removes any of
  that thread's messages.
\<close>

theorem thread_routes_isolate_users:
  assumes wf: "store_wf st" and th: "th \<in> set (threads st)" and other: "owner th \<noteq> au_id cu"
    and st': "st' = snd (snd (thread_route cfg now cu req u st))"
  shows "th \<in> set (threads st') \<and>
         filter (\<lambda>c. conv_thread c = thread_pk th) (conversations st') =
         filter (\<lambda>c. conv_thread c = thread_pk th) (conversations st)"
proof -
  consider (same) "st' = st"
    | (create) t where "req = Req_Create t"
        "st' = store_step (\<lambda>s. 0) now (Op_Create_Thread t (au_id cu)) st"
    | (owned) tid op th' where "req_target req = Some tid" "req_store_op cu req = Some op"
        "crud_get_thread tid st = Some th'" "owner th' = au_id cu" "st' = store_step (\<lambda>s. 0) now op st"
    using thread_route_store_owned [of cfg now cu req u st "\<lambda>s. 0"] st' by blast
  then show ?thesis
  proof cases
    case same
    then show ?thesis using th by simp
  next
    case create
    then show ?thesis using th by (simp add: create_thread_def crud_create_thread_def Let_def)
  next
    case owned
    have "thread_pk th \<noteq> tid" using other_owner_pk [OF wf owned(3,4) th other] .
    with owned th show ?thesis using store_step_other_thread [OF owned(2,1)] by simp
  qed
qed

theorem thread_routes_isolate_users_witness:
  "hd (threads demo_store) \<in> set (threads (snd (snd (thread_route default_rate_config 1 stranger
      (Req_Update 0 \<lparr>upd_title = Some (Some ''mine''), upd_is_archived = None\<rparr>) (initial_usage 0) demo_store))))"
proof -
  have wf: "store_wf demo_store"
    using store_reachable_invariants [OF demo_store_reachable] by simp
  have th: "hd (threads demo_store) \<in> set (threads demo_store)" and o: "owner (hd (threads demo_store)) = 7"
    by (simp_all add: demo_store_def empty_store_def create_thread_def crud_create_thread_def
        add_messages_to_thread_def crud_get_thread_def create_conversation_def Let_def)
  have "owner (hd (threads demo_store)) \<noteq> au_id stranger" using o by (simp add: stranger_def)
  then show ?thesis by (rule conjunct1 [OF thread_routes_isolate_users [OF wf th _ refl]])
qed

text \<open>
  C9: A title longer than the 255 characters of the \<open>title\<close> column is
  accepted by the request schemas, which set no maximum length, and then
  refused by the database at commit: creating a thread with it, or
  renaming one's own thread to it, is answered 500 with the database's
  message, the request is counted, and the store is unchanged.
\<close>

theorem long_title_answered_500:
  assumes "au_active cu" "requests_used (check_and_reset_counters now u) < requests_per_minute cfg"
    and "255 < length t" "crud_get_thread tid st = Some th" "owner th = au_id cu"
  shows "thread_route cfg now cu (Req_Create t) u st = (500, snd (track_request cfg now u), st) \<and>
         thread_route cfg now cu (Req_Update tid \<lparr>upd_title = Some (Some t), upd_is_archived = a\<rparr>) u st =
           (500, snd (track_request cfg now u), st)"
  using assms
  by (simp add: create_new_thread_def update_thread_by_id_def endpoint_def get_current_active_user_def
      track_request_def Let_def create_thread_def crud_create_thread_def owned_thread_def crud_update_thread_def
      title_too_long_error_def)

theorem long_title_answered_500_witness:
  "thread_route default_rate_config 1 owner7 (Req_Create (replicate 256 (CHR ''a''))) (initial_usage 0) demo_store =
     (500, snd (track_request default_rate_config 1 (initial_usage 0)), demo_store) \<and>
   thread_route default_rate_config 1 owner7
     (Req_Update 0 \<lparr>upd_title = Some (Some (replicate 256 (CHR ''a''))), upd_is_archived = None\<rparr>)
     (initial_usage 0) demo_store =
     (500, snd (track_request default_rate_config 1 (initial_usage 0)), demo_store)"
proof -
  obtain th where th: "crud_get_thread 0 demo_store = Some th" and o: "owner th = 7"
    by (simp add: demo_store_def empty_store_def create_thread_def crud_create_thread_def
        add_messages_to_thread_def crud_get_thread_def create_conversation_def Let_def)
  show ?thesis
    by (rule long_title_answered_500 [OF _ _ _ th])
       (simp_all add: owner7_def o default_rate_config_def initial_usage_def check_and_reset_counters_def)
qed

end
