(* ===== verification/Server.thy ===== *)
theory Server
  imports ChatStream ThreadRoutes
begin

text \<open>
  The server as one state machine: the thread endpoints
  (\<open>app/api/routes/threads.py\<close>), the chat endpoint
  (\<open>app/api/routes/chat.py\<close>) and the streaming generators of
  \<open>app/chat/chat_service.py\<close> share the usage dictionary of the throttle
  and the database.  Under the asyncio event loop a request handler runs
  without interruption up to the \<open>StreamingResponse\<close> it returns; the
  generator of that response suspends at every \<open>yield\<close> and at the
  \<open>await asyncio.sleep(0.01)\<close> after each forwarded chunk, and between two
  resumptions any other request or generator may run.  A step of this
  machine is a whole thread request, the synchronous part of a chat
  request (the user turn is stored, the generator is created), or one
  resumption of an open generator, which handles one upstream chunk or,
  when none is left, the end of the stream.  A chunk without text does not
  suspend the code's generator, so the model admits a few interleavings
  the code does not; its safety results cover the code's.
\<close>

section \<open>Open streams and the server state\<close>

text \<open>The local state of a suspended \<open>stream_response\<close> generator.\<close>

record session =
  sess_thread :: uuid
  sess_model :: string
  sess_pending :: "string option list"
  sess_failure :: "string option"
  sess_acc :: string
  sess_sent :: "sse_event list"

record server =
  srv_usage :: usage
  srv_store :: store
  srv_sessions :: "nat \<Rightarrow> session option"
  srv_next_session :: nat
  srv_replies :: "(nat \<times> chat_reply) list"

definition initial_server :: "timestamp \<Rightarrow> server" where
  "initial_server t =
     \<lparr>srv_usage = initial_usage t, srv_store = empty_store, srv_sessions = Map.empty,
      srv_next_session = 0, srv_replies = []\<rparr>"

datatype server_event =
    Ev_Route timestamp auth_user thread_request
  | Ev_Chat timestamp uuid string string "string option" "string option list" "string option"
  | Ev_Resume nat timestamp

fun event_time :: "server_event \<Rightarrow> timestamp" where
  "event_time (Ev_Route now cu req) = now"
| "event_time (Ev_Chat now tid q m e cs f) = now"
| "event_time (Ev_Resume sid now) = now"

section \<open>Steps\<close>

text \<open>
  The synchronous part of \<open>chat_with_thread\<close> and
  \<open>process_chat_request\<close>: the user turn is stored, then either the client
  setup fails and the error dictionary is the reply, or a generator is
  created over the upstream chunks \<open>cs\<close> (and the upstream's exception
  \<open>fail\<close> after them, if any).
\<close>

definition open_chat ::
  "tokenizer \<Rightarrow> timestamp \<Rightarrow> uuid \<Rightarrow> string \<Rightarrow> string \<Rightarrow> string option \<Rightarrow>
   string option list \<Rightarrow> string option \<Rightarrow> server \<Rightarrow> server" where
  "open_chat tok now tid question model_id setup_err cs fail srv =
     (let new_user_message = \<lparr>msg_content = question, msg_model = None,
                              msg_token_count = Some (tok question)\<rparr>;
          st1 = snd (add_messages_to_thread tok tid (Some new_user_message) None now (srv_store srv));
          sid = srv_next_session srv;
          srv1 = srv\<lparr>srv_store := st1, srv_next_session := Suc sid\<rparr>
      in (case setup_err of
            Some e \<Rightarrow> srv1\<lparr>srv_replies := srv_replies srv @
                        [(sid, Reply_Error_Dict ''model'' (warning_sign @ '' Error processing request: '' @ e))]\<rparr>
          | None \<Rightarrow> srv1\<lparr>srv_sessions := (srv_sessions srv)(sid \<mapsto>
                        \<lparr>sess_thread = tid, sess_model = model_id, sess_pending = cs,
                         sess_failure = fail, sess_acc = [], sess_sent = []\<rparr>)\<rparr>))"

text \<open>
  One iteration of the loop of \<open>stream_response\<close> on the next chunk: it is
  skipped when it has no text; otherwise its tokens are checked against
  the shared dictionary at the current clock reading, and the generator
  either forwards the text and suspends again (\<open>Inl\<close>) or ends with the
  truncation notice (\<open>Inr\<close>, the events it sent).
\<close>

definition resume_stream ::
  "rate_config \<Rightarrow> tokenizer \<Rightarrow> timestamp \<Rightarrow> string option \<Rightarrow> session \<Rightarrow> usage \<Rightarrow>
   (session + sse_event list) \<times> usage" where
  "resume_stream cfg tok now c s u =
     (case c of
        None \<Rightarrow> (Inl s, u)
      | Some new_text \<Rightarrow>
          if new_text = [] then (Inl s, u)
          else
            (let acc' = sess_acc s @ new_text
             in (case check_token_rate_limit cfg now (tok new_text) u of
                   (False, u') \<Rightarrow> (Inr (sess_sent s @ [SSE_Content truncation_notice, SSE_Done]), u')
                 | (True, u') \<Rightarrow>
                     (Inl (s\<lparr>sess_acc := acc', sess_sent := sess_sent s @ [SSE_Content new_text]\<rparr>), u'))))"

text \<open>
  The generator after its last chunk: the upstream's exception is
  answered with the error notice, otherwise the model turn is stored at
  the current clock reading before \<open>[DONE]\<close>.
\<close>

definition finish_stream :: "tokenizer \<Rightarrow> timestamp \<Rightarrow> session \<Rightarrow> store \<Rightarrow> sse_event list \<times> store" where
  "finish_stream tok now s st =
     (case sess_failure s of
        Some e \<Rightarrow> (sess_sent s @ [SSE_Content (error_notice e), SSE_Done], st)
      | None \<Rightarrow>
          (let assistant_message =
                 \<lparr>msg_content = sess_acc s, msg_model = Some (sess_model s),
                  msg_token_count = Some (tok (sess_acc s))\<rparr>
           in (sess_sent s @ [SSE_Done],
               snd (add_messages_to_thread tok (sess_thread s) None (Some assistant_message) now st))))"

definition close_session :: "nat \<Rightarrow> sse_event list \<Rightarrow> server \<Rightarrow> server" where
  "close_session sid evs srv =
     srv\<lparr>srv_sessions := (srv_sessions srv)(sid := None),
         srv_replies := srv_replies srv @ [(sid, Reply_Stream evs)]\<rparr>"

fun server_step :: "rate_config \<Rightarrow> tokenizer \<Rightarrow> server_event \<Rightarrow> server \<Rightarrow> server" where
  "server_step cfg tok (Ev_Route now cu req) srv =
     (case thread_route cfg now cu req (srv_usage srv) (srv_store srv) of
        (code, u', st') \<Rightarrow> srv\<lparr>srv_usage := u', srv_store := st'\<rparr>)"
| "server_step cfg tok (Ev_Chat now tid q m e cs f) srv = open_chat tok now tid q m e cs f srv"
| "server_step cfg tok (Ev_Resume sid now) srv =
     (case srv_sessions srv sid of
        None \<Rightarrow> srv
      | Some s \<Rightarrow>
          (case sess_pending s of
             [] \<Rightarrow>
               (case finish_stream tok now s (srv_store srv) of
                  (evs, st') \<Rightarrow> close_session sid evs (srv\<lparr>srv_store := st'\<rparr>))
           | c # cs \<Rightarrow>
               (case resume_stream cfg tok now c s (srv_usage srv) of
                  (Inl s', u') \<Rightarrow>
                    srv\<lparr>srv_usage := u', srv_sessions := (srv_sessions srv)(sid \<mapsto> s'\<lparr>sess_pending := cs\<rparr>)\<rparr>
                | (Inr evs, u') \<Rightarrow> close_session sid evs (srv\<lparr>srv_usage := u'\<rparr>))))"

fun server_run :: "rate_config \<Rightarrow> tokenizer \<Rightarrow> server_event list \<Rightarrow> server \<Rightarrow> server" where
  "server_run cfg tok [] srv = srv"
| "server_run cfg tok (ev # evs) srv = server_run cfg tok evs (server_step cfg tok ev srv)"

text \<open>
  The server states reachable from a fresh process under any interleaving
  of requests and generator resumptions at non-decreasing clock readings.
\<close>

inductive server_reachable :: "rate_config \<Rightarrow> tokenizer \<Rightarrow> timestamp \<Rightarrow> server \<Rightarrow> bool"
  for cfg tok where
  init: "server_reachable cfg tok t (initial_server t)"
| step: "server_reachable cfg tok t srv \<Longrightarrow> t \<le> event_time ev \<Longrightarrow>
         server_reachable cfg tok (event_time ev) (server_step cfg tok ev srv)"

section \<open>Lemmas\<close>

lemma server_run_append [simp]:
  "server_run cfg tok (xs @ ys) srv = server_run cfg tok ys (server_run cfg tok xs srv)"
  by (induction xs arbitrary: srv) simp_all

lemma server_run_closed:
  "srv_sessions srv sid = None \<Longrightarrow> server_run cfg tok (map (\<lambda>c. Ev_Resume sid (f c)) cs) srv = srv"
  by (induction cs) simp_all

lemma close_session_sel [simp]:
  "srv_usage (close_session sid evs srv) = srv_usage srv"
  "srv_store (close_session sid evs srv) = srv_store srv"
  "srv_sessions (close_session sid evs srv) = (srv_sessions srv)(sid := None)"
  "srv_next_session (close_session sid evs srv) = srv_next_session srv"
  by (simp_all add: close_session_def)

lemma close_session_overwrites [simp]:
  "close_session sid evs (srv\<lparr>srv_sessions := (srv_sessions srv)(sid := y), srv_usage := u\<rparr>) =
   close_session sid evs (srv\<lparr>srv_usage := u\<rparr>)"
  by (simp add: close_session_def)

text \<open>
  Resuming a generator over its chunks one after the other, with no other
  step in between, is the loop of \<open>stream_response\<close>.
\<close>

lemma server_run_stream:
  assumes "srv_sessions srv sid = Some s" and "sess_pending s = map snd cs"
  shows "server_run cfg tok (map (\<lambda>c. Ev_Resume sid (fst c)) cs) srv =
    (let r = stream_chunks cfg tok (sess_acc s) (srv_usage srv) cs in
     if truncated r then close_session sid (sess_sent s @ events r) (srv\<lparr>srv_usage := usage_after r\<rparr>)
     else srv\<lparr>srv_usage := usage_after r,
              srv_sessions := (srv_sessions srv)(sid \<mapsto> s\<lparr>sess_pending := [], sess_acc := accumulated r,
                                                           sess_sent := sess_sent s @ events r\<rparr>)\<rparr>)"
  using assms
proof (induction cs arbitrary: srv s)
  case Nil
  then show ?case by (simp add: map_upd_triv)
next
  case (Cons tc cs)
  obtain t c where tc: "tc = (t, c)" by (cases tc)
  show ?case
  proof (cases "c = None \<or> c = Some []")
    case True
    let ?srv' = "srv\<lparr>srv_sessions := (srv_sessions srv)(sid \<mapsto> s\<lparr>sess_pending := map snd cs\<rparr>)\<rparr>"
    have IH: "srv_sessions ?srv' sid = Some (s\<lparr>sess_pending := map snd cs\<rparr>)" by simp
    note IH = Cons.IH [OF IH, simplified]
    from True Cons.prems tc IH show ?thesis
      by (auto simp: resume_stream_def stream_chunks_skip Let_def)
  next
    case False
    then obtain x where x: "c = Some x" "x \<noteq> []" by (cases c) auto
    obtain ok u' where chk: "check_token_rate_limit cfg t (tok x) (srv_usage srv) = (ok, u')"
      by (cases "check_token_rate_limit cfg t (tok x) (srv_usage srv)")
    show ?thesis
    proof (cases ok)
      case True
      let ?s' = "s\<lparr>sess_acc := sess_acc s @ x, sess_sent := sess_sent s @ [SSE_Content x],
                    sess_pending := map snd cs\<rparr>"
      let ?srv' = "srv\<lparr>srv_usage := u', srv_sessions := (srv_sessions srv)(sid \<mapsto> ?s')\<rparr>"
      have IH: "srv_sessions ?srv' sid = Some ?s'" by simp
      note IH = Cons.IH [OF IH, simplified]
      from True x chk Cons.prems tc IH show ?thesis
        using stream_chunks_text [where tok = tok and x = x, OF x(2) chk, of "sess_acc s" cs]
        by (simp add: resume_stream_def Let_def)
    next
      case False
      let ?srv' = "close_session sid (sess_sent s @ [SSE_Content truncation_notice, SSE_Done])
                     (srv\<lparr>srv_usage := u'\<rparr>)"
      have "server_run cfg tok (map (\<lambda>c. Ev_Resume sid (fst c)) cs) ?srv' = ?srv'"
        by (rule server_run_closed) simp
      with False x chk Cons.prems tc show ?thesis
        using stream_chunks_text [where tok = tok and x = x, OF x(2) chk, of "sess_acc s" cs]
        by (simp add: resume_stream_def Let_def)
    qed
  qed
qed

text \<open>What one step does to the two shared resources and to the stream identifiers.\<close>

lemma server_step_route [simp]:
  "server_step cfg tok (Ev_Route now cu req) srv =
   srv\<lparr>srv_usage := fst (snd (thread_route cfg now cu req (srv_usage srv) (srv_store srv))),
       srv_store := snd (snd (thread_route cfg now cu req (srv_usage srv) (srv_store srv)))\<rparr>"
  by (simp split: prod.split)

declare server_step.simps(1) [simp del]

lemma throttle_apply_snd:
  "snd (throttle_apply cfg t Track_Request u) = snd (track_request cfg t u)"
  "snd (throttle_apply cfg t (Admit_Tokens n) u) = snd (check_token_rate_limit cfg t n u)"
  by (simp_all split: prod.split)

lemma resume_stream_usage:
  "snd (resume_stream cfg tok now c s u) = u \<or>
   (\<exists>x. snd (resume_stream cfg tok now c s u) = snd (check_token_rate_limit cfg now (tok x) u))"
proof (cases "c = None \<or> c = Some []")
  case False
  then obtain x where x: "c = Some x" "x \<noteq> []" by (cases c) auto
  obtain ok u' where chk: "check_token_rate_limit cfg now (tok x) u = (ok, u')"
    by (cases "check_token_rate_limit cfg now (tok x) u")
  have "snd (resume_stream cfg tok now c s u) = snd (check_token_rate_limit cfg now (tok x) u)"
    using x chk by (cases ok) (simp_all add: resume_stream_def Let_def)
  then show ?thesis by blast
qed (auto simp: resume_stream_def)

lemma server_step_usage:
  "srv_usage (server_step cfg tok ev srv) = srv_usage srv \<or>
   (\<exists>op. (op = Track_Request \<or> (\<exists>x. op = Admit_Tokens (tok x))) \<and>
         srv_usage (server_step cfg tok ev srv) = snd (throttle_apply cfg (event_time ev) op (srv_usage srv)))"
proof (cases ev)
  case (Ev_Route now cu req)
  have "srv_usage (server_step cfg tok ev srv) =
        (if au_active cu then snd (track_request cfg now (srv_usage srv)) else srv_usage srv)"
    using thread_route_usage [of cfg now cu req "srv_usage srv" "srv_store srv"] Ev_Route
    by simp
  with Ev_Route show ?thesis
    using throttle_apply_snd(1) [of cfg now "srv_usage srv"] by (metis event_time.simps(1))
next
  case (Ev_Chat now tid q m e cs f)
  then show ?thesis by (simp add: open_chat_def Let_def split: option.split)
next
  case (Ev_Resume sid now)
  show ?thesis
  proof (cases "srv_sessions srv sid")
    case (Some s)
    show ?thesis
    proof (cases "sess_pending s")
      case (Cons c cs)
      have "snd (resume_stream cfg tok now c s (srv_usage srv)) = srv_usage srv \<or>
            (\<exists>x. snd (resume_stream cfg tok now c s (srv_usage srv)) =
                 snd (throttle_apply cfg now (Admit_Tokens (tok x)) (srv_usage srv)))"
        using resume_stream_usage [of cfg tok now c s "srv_usage srv"] throttle_apply_snd(2) by metis
      with Ev_Resume Some Cons show ?thesis
        by (auto split: prod.splits sum.splits)
    qed (simp_all add: Ev_Resume Some split: prod.split)
  qed (simp add: Ev_Resume)
qed

lemma server_step_usage_wf:
  assumes "\<forall>s. 0 \<le> tok s"
  shows "srv_usage (server_step cfg tok ev srv) = srv_usage srv \<or>
   (\<exists>op. op_wf op \<and>
         srv_usage (server_step cfg tok ev srv) = snd (throttle_apply cfg (event_time ev) op (srv_usage srv)))"
  using server_step_usage [of cfg tok ev srv] assms by (metis op_wf.simps(1,2))

lemma server_step_store:
  "srv_store (server_step cfg tok ev srv) = srv_store srv \<or>
   (\<exists>op. srv_store (server_step cfg tok ev srv) = store_step tok (event_time ev) op (srv_store srv))"
proof (cases ev)
  case (Ev_Route now cu req)
  then show ?thesis
    using thread_route_store [of cfg now cu req "srv_usage srv" "srv_store srv" tok]
    by auto
next
  case (Ev_Chat now tid q m e cs f)
  then show ?thesis
    by (auto simp: open_chat_def Let_def split: option.split intro: exI [of _ "Op_Add_Messages tid _ None"])
next
  case (Ev_Resume sid now)
  show ?thesis
  proof (cases "srv_sessions srv sid")
    case (Some s)
    show ?thesis
    proof (cases "sess_pending s")
      case Nil
      with Ev_Resume Some show ?thesis
        by (auto simp: finish_stream_def Let_def split: option.splits prod.splits
            intro: exI [of _ "Op_Add_Messages (sess_thread s) None _"])
    qed (simp_all add: Ev_Resume Some split: prod.splits sum.splits)
  qed (simp add: Ev_Resume)
qed

lemma server_step_fresh:
  assumes "\<forall>sid. srv_next_session srv \<le> sid \<longrightarrow> srv_sessions srv sid = None"
  shows "\<forall>sid. srv_next_session (server_step cfg tok ev srv) \<le> sid \<longrightarrow>
              srv_sessions (server_step cfg tok ev srv) sid = None"
proof (cases ev)
  case (Ev_Route now cu req)
  with assms show ?thesis by simp
next
  case (Ev_Chat now tid q m e cs f)
  with assms show ?thesis by (simp add: open_chat_def Let_def split: option.split)
next
  case (Ev_Resume sid0 now)
  with assms show ?thesis
    by (cases "srv_sessions srv sid0")
       (auto split: list.splits prod.splits sum.splits)
qed

text \<open>
  A fresh generator resumed once per upstream chunk and once more at the
  end, with no other step in between, is \<open>stream_response\<close>: the same
  events, the same dictionary and the same store.
\<close>

lemma session_schedule_refines_stream:
  assumes s: "srv_sessions srv sid = Some \<lparr>sess_thread = tid, sess_model = model_id,
                 sess_pending = map snd (chunks up), sess_failure = failure up, sess_acc = [], sess_sent = []\<rparr>"
    and sr: "stream_response cfg tok tid model_id t_end up (srv_usage srv) (srv_store srv) = (evs, u', st')"
  shows "server_run cfg tok (map (\<lambda>c. Ev_Resume sid (fst c)) (chunks up) @ [Ev_Resume sid t_end]) srv =
         close_session sid evs (srv\<lparr>srv_usage := u', srv_store := st'\<rparr>)"
proof -
  let ?r = "stream_chunks cfg tok [] (srv_usage srv) (chunks up)"
  note run = server_run_stream [OF s, of "chunks up" cfg tok]
  show ?thesis
  proof (cases "truncated ?r")
    case True
    with run sr show ?thesis
      by (simp add: stream_response_def close_session_def Let_def)
  next
    case False
    with run sr show ?thesis
      by (auto simp: stream_response_def close_session_def finish_stream_def Let_def split: option.splits)
  qed
qed

section \<open>Progress of one stream\<close>

text \<open>
  The resumptions one open stream still needs before it is closed (its
  pending chunks and the final resumption), whether an event resumes it,
  and whether a reply of the stream ending with \<open>[DONE]\<close> was sent.
\<close>

definition stream_potential :: "nat \<Rightarrow> server \<Rightarrow> nat" where
  "stream_potential sid srv =
     (case srv_sessions srv sid of None \<Rightarrow> 0 | Some s \<Rightarrow> Suc (length (sess_pending s)))"

fun is_resume :: "nat \<Rightarrow> server_event \<Rightarrow> bool" where
  "is_resume sid (Ev_Resume sid' now) = (sid' = sid)"
| "is_resume sid ev = False"

definition stream_replied :: "nat \<Rightarrow> server \<Rightarrow> bool" where
  "stream_replied sid srv =
     list_ex (\<lambda>r. fst r = sid \<and>
                  (case snd r of Reply_Stream evs \<Rightarrow> evs \<noteq> [] \<and> last evs = SSE_Done | _ \<Rightarrow> False))
       (srv_replies srv)"

lemma next_session_mono:
  "srv_next_session srv \<le> srv_next_session (server_step cfg tok ev srv)"
  by (cases ev) (auto simp: open_chat_def Let_def split: option.splits list.splits prod.splits sum.splits)

lemma stream_potential_step:
  assumes "sid < srv_next_session srv"
  shows "stream_potential sid (server_step cfg tok ev srv) \<le>
         (if is_resume sid ev then stream_potential sid srv - 1 else stream_potential sid srv)"
proof (cases ev)
  case (Ev_Route now cu req)
  then show ?thesis by (simp add: stream_potential_def)
next
  case (Ev_Chat now tid q m e cs f)
  with assms show ?thesis
    by (simp add: stream_potential_def open_chat_def Let_def split: option.split)
next
  case (Ev_Resume sid' now)
  show ?thesis
  proof (cases "srv_sessions srv sid'")
    case (Some s)
    with Ev_Resume show ?thesis
      by (auto simp: stream_potential_def split: list.splits prod.splits sum.splits option.splits)
  qed (auto simp: Ev_Resume stream_potential_def)
qed

lemma stream_replied_step:
  assumes "srv_sessions srv sid = None \<longrightarrow> stream_replied sid srv"
  shows "srv_sessions (server_step cfg tok ev srv) sid = None \<longrightarrow>
         stream_replied sid (server_step cfg tok ev srv)"
proof (cases ev)
  case (Ev_Route now cu req)
  with assms show ?thesis by (simp add: stream_replied_def)
next
  case (Ev_Chat now tid q m e cs f)
  with assms show ?thesis
    by (auto simp: stream_replied_def open_chat_def Let_def split: option.split)
next
  case (Ev_Resume sid' now)
  show ?thesis
  proof (cases "srv_sessions srv sid'")
    case (Some s)
    with Ev_Resume assms show ?thesis
      by (auto simp: stream_replied_def close_session_def finish_stream_def resume_stream_def Let_def
          split: list.splits prod.splits sum.splits option.splits bool.splits if_splits)
  qed (use Ev_Resume assms in simp)
qed

lemma server_run_closes:
  assumes "sid < srv_next_session srv"
    and "srv_sessions srv sid = None \<longrightarrow> stream_replied sid srv"
    and "stream_potential sid srv \<le> length (filter (is_resume sid) evs)"
  shows "srv_sessions (server_run cfg tok evs srv) sid = None \<and>
         stream_replied sid (server_run cfg tok evs srv)"
  using assms
proof (induction evs arbitrary: srv)
  case Nil
  then show ?case by (simp add: stream_potential_def split: option.splits)
next
  case (Cons ev evs)
  let ?srv' = "server_step cfg tok ev srv"
  have "sid < srv_next_session ?srv'"
    using Cons.prems(1) next_session_mono [of srv cfg tok ev] by linarith
  moreover have "srv_sessions ?srv' sid = None \<longrightarrow> stream_replied sid ?srv'"
    using Cons.prems(2) by (rule stream_replied_step)
  moreover have "stream_potential sid ?srv' \<le> length (filter (is_resume sid) evs)"
    using stream_potential_step [OF Cons.prems(1), of cfg tok ev] Cons.prems(3)
    by (auto split: if_splits)
  ultimately show ?case using Cons.IH by simp
qed

text \<open>The steps of one chat request run back to back, with no other step between them.\<close>

definition chat_schedule :: "uuid \<Rightarrow> string \<Rightarrow> string \<Rightarrow> chat_env \<Rightarrow> nat \<Rightarrow> server_event list" where
  "chat_schedule tid question model_id env sid =
     Ev_Chat (t_user env) tid question model_id (setup_error env)
       (map snd (chunks (model_stream env))) (failure (model_stream env)) #
     map (\<lambda>c. Ev_Resume sid (fst c)) (chunks (model_stream env)) @ [Ev_Resume sid (t_done env)]"

lemma chat_schedule_run:
  "server_run cfg tok (chat_schedule tid question model_id env sid) srv =
   server_run cfg tok (map (\<lambda>c. Ev_Resume sid (fst c)) (chunks (model_stream env)) @ [Ev_Resume sid (t_done env)])
     (server_step cfg tok (Ev_Chat (t_user env) tid question model_id (setup_error env)
        (map snd (chunks (model_stream env))) (failure (model_stream env))) srv)"
  by (simp add: chat_schedule_def)

text \<open>When the client cannot be created the chat step answers at once and opens no generator.\<close>

lemma chat_schedule_setup_failed:
  assumes "srv_sessions srv (srv_next_session srv) = None" "setup_error env = Some e"
  shows "server_run cfg tok (chat_schedule tid question model_id env (srv_next_session srv)) srv =
         server_step cfg tok (Ev_Chat (t_user env) tid question model_id (setup_error env)
           (map snd (chunks (model_stream env))) (failure (model_stream env))) srv"
proof -
  let ?ev = "Ev_Chat (t_user env) tid question model_id (setup_error env)
               (map snd (chunks (model_stream env))) (failure (model_stream env))"
  have "srv_sessions (server_step cfg tok ?ev srv) (srv_next_session srv) = None"
    using assms by (simp add: open_chat_def Let_def)
  from server_run_closed [OF this, of cfg tok fst "chunks (model_stream env) @ [(t_done env, None)]"]
  have "server_run cfg tok (map (\<lambda>c. Ev_Resume (srv_next_session srv) (fst c)) (chunks (model_stream env)) @
          [Ev_Resume (srv_next_session srv) (t_done env)]) (server_step cfg tok ?ev srv) = server_step cfg tok ?ev srv"
    by simp
  with chat_schedule_run show ?thesis by (rule trans)
qed

text \<open>Otherwise the generator is opened and the resumptions run it to its end.\<close>

lemma chat_schedule_opened:
  assumes "setup_error env = None"
    and "stream_response cfg tok tid model_id (t_done env) (model_stream env) (srv_usage srv)
           (snd (add_messages_to_thread tok tid
              (Some \<lparr>msg_content = question, msg_model = None, msg_token_count = Some (tok question)\<rparr>)
              None (t_user env) (srv_store srv))) = (evs, u0, st0)"
  shows "server_run cfg tok (chat_schedule tid question model_id env (srv_next_session srv)) srv =
         close_session (srv_next_session srv) evs
           (srv\<lparr>srv_next_session := Suc (srv_next_session srv),
                srv_sessions := (srv_sessions srv)(srv_next_session srv \<mapsto>
                  \<lparr>sess_thread = tid, sess_model = model_id, sess_pending = map snd (chunks (model_stream env)),
                   sess_failure = failure (model_stream env), sess_acc = [], sess_sent = []\<rparr>),
                srv_usage := u0, srv_store := st0\<rparr>)"
proof -
  let ?sid = "srv_next_session srv"
  let ?s = "\<lparr>sess_thread = tid, sess_model = model_id, sess_pending = map snd (chunks (model_stream env)),
             sess_failure = failure (model_stream env), sess_acc = [], sess_sent = []\<rparr>"
  let ?st1 = "snd (add_messages_to_thread tok tid
              (Some \<lparr>msg_content = question, msg_model = None, msg_token_count = Some (tok question)\<rparr>)
              None (t_user env) (srv_store srv))"
  let ?srv1 = "srv\<lparr>srv_store := ?st1, srv_next_session := Suc ?sid,
                   srv_sessions := (srv_sessions srv)(?sid \<mapsto> ?s)\<rparr>"
  have open1: "server_step cfg tok (Ev_Chat (t_user env) tid question model_id (setup_error env)
                 (map snd (chunks (model_stream env))) (failure (model_stream env))) srv = ?srv1"
    using assms(1) by (simp add: open_chat_def Let_def)
  have "server_run cfg tok (map (\<lambda>c. Ev_Resume ?sid (fst c)) (chunks (model_stream env)) @
          [Ev_Resume ?sid (t_done env)]) ?srv1 =
        close_session ?sid evs (?srv1\<lparr>srv_usage := u0, srv_store := st0\<rparr>)"
    using assms(2) by (intro session_schedule_refines_stream) simp_all
  with chat_schedule_run [of cfg tok tid question model_id env ?sid srv, unfolded open1]
  have "server_run cfg tok (chat_schedule tid question model_id env ?sid) srv =
        close_session ?sid evs (?srv1\<lparr>srv_usage := u0, srv_store := st0\<rparr>)" by (rule trans)
  then show ?thesis by simp
qed
text \<open>
  The invariant of the composed server at clock reading \<open>t\<close>: the counters
  within their limits, the database well formed and in clock order up to
  \<open>t\<close>, and no stream identifier at or above the counter in use.
\<close>

definition server_inv :: "rate_config \<Rightarrow> timestamp \<Rightarrow> server \<Rightarrow> bool" where
  "server_inv cfg t srv \<longleftrightarrow>
     usage_inv cfg (srv_usage srv) \<and> store_wf (srv_store srv) \<and> chrono t (srv_store srv) \<and>
     (\<forall>sid. srv_next_session srv \<le> sid \<longrightarrow> srv_sessions srv sid = None)"

lemma server_inv_initial: "server_inv cfg t (initial_server t)"
  by (simp add: server_inv_def initial_server_def empty_store_def store_wf_def chrono_def)

lemma server_inv_step:
  assumes "server_inv cfg t srv" "t \<le> event_time ev"
  shows "server_inv cfg (event_time ev) (server_step cfg (count_tokens enc) ev srv)"
proof -
  let ?srv' = "server_step cfg (count_tokens enc) ev srv"
  have inv: "usage_inv cfg (srv_usage srv)" "store_wf (srv_store srv)" "chrono t (srv_store srv)"
    "\<forall>sid. srv_next_session srv \<le> sid \<longrightarrow> srv_sessions srv sid = None"
    using assms(1) by (simp_all add: server_inv_def)
  have "usage_inv cfg (srv_usage ?srv')"
    using server_step_usage_wf [of "count_tokens enc" cfg ev srv] inv(1)
    by (metis count_tokens_nonneg throttle_apply_usage_inv)
  moreover have "store_wf (srv_store ?srv')"
    using server_step_store [of cfg "count_tokens enc" ev srv] inv(2)
    by (auto intro: store_wf_step)
  moreover have "chrono (event_time ev) (srv_store ?srv')"
  proof -
    have "chrono (event_time ev) (srv_store srv)"
      using inv(3) assms(2) by (blast intro: chrono_mono)
    then show ?thesis
      using server_step_store [of cfg "count_tokens enc" ev srv] by (auto intro: chrono_step)
  qed
  moreover have "\<forall>sid. srv_next_session ?srv' \<le> sid \<longrightarrow> srv_sessions ?srv' sid = None"
    using inv(4) by (intro server_step_fresh) simp
  ultimately show ?thesis by (simp add: server_inv_def)
qed


end
