(* ===== verification/FileService.thy ===== *)
theory FileService
  imports ThreadRoutes "HOL-Library.While_Combinator"
begin

text \<open>
  The file upload service of \<open>app/file_management/file_service.py\<close> and its
  endpoints in \<open>app/api/routes/files.py\<close>.  The module-level dictionary
  \<open>uploaded_files\<close> is an association list in insertion order (a Python
  dict keeps that order), the upload directory is a map from paths to
  file contents (bytes are \<open>char\<close>s), and the settings \<open>UPLOAD_DIR\<close>,
  \<open>MAX_UPLOAD_SIZE\<close> and \<open>ALLOWED_EXTENSIONS\<close> form a record.  The random
  file identifier (an MD5 hex digest of the name, the time and a
  \<open>uuid4\<close>), the ISO time stamp and the \<open>mimetypes\<close> guess are arguments.
\<close>

section \<open>Python library functions\<close>

text \<open>
  \<open>os.path.splitext(p)[1]\<close> (\<open>genericpath._splitext\<close>): the suffix from the
  last dot of the last path component, unless everything before that dot
  in the component is dots.
\<close>

definition py_splitext_ext :: "string \<Rightarrow> string" where
  "py_splitext_ext p =
     (let base = rev (takeWhile (\<lambda>c. c \<noteq> CHR ''/'') (rev p))
      in if CHR ''.'' \<notin> set base then []
         else
           (let ext = CHR ''.'' # rev (takeWhile (\<lambda>c. c \<noteq> CHR ''.'') (rev base));
                stem = take (length base - length ext) base
            in if list_all (\<lambda>c. c = CHR ''.'') stem then [] else ext))"

text \<open>\<open>str.lower()\<close> on the ASCII letters.\<close>

definition py_lower :: "string \<Rightarrow> string" where
  "py_lower s =
     map (\<lambda>c. let n = (of_char c :: nat) in if 65 \<le> n \<and> n \<le> 90 then char_of (n + 32) else c) s"

text \<open>\<open>os.path.join(d, n)\<close> for one component.\<close>

definition py_path_join :: "string \<Rightarrow> string \<Rightarrow> string" where
  "py_path_join d n =
     (if take 1 n = ''/'' then n
      else if d = [] \<or> last d = CHR ''/'' then d @ n else d @ ''/'' @ n)"

text \<open>
  \<open>f"{x:.1f}"\<close> of \<open>x = m / (1024 * 1024)\<close>: the quotient is exact in
  binary, so the digit is rounded half to even.
\<close>

definition fmt_tenths :: "nat \<Rightarrow> string" where
  "fmt_tenths m =
     (let q = (10 * m) div 1048576; r = (10 * m) mod 1048576;
          n = (if 2 * r > 1048576 \<or> (2 * r = 1048576 \<and> odd q) then q + 1 else q)
      in py_str_int (int (n div 10)) @ ''.'' @ py_str_int (int (n mod 10)))"

definition fmt_mb :: "int \<Rightarrow> string" where
  "fmt_mb m = (if m < 0 then ''-'' @ fmt_tenths (nat (- m)) else fmt_tenths (nat m))"

section \<open>State\<close>

record file_config =
  upload_dir :: string
  max_upload_size :: int
  allowed_extensions :: "string list"

definition default_file_config :: file_config where
  "default_file_config =
     \<lparr>upload_dir = ''uploads'', max_upload_size = 10 * 1024 * 1024,
      allowed_extensions = [''.jpg'', ''.jpeg'', ''.png'', ''.gif'', ''.bmp'', ''.webp'',
        ''.pdf'', ''.doc'', ''.docx'', ''.txt'', ''.md'', ''.csv'', ''.xlsx'', ''.xls'',
        ''.py'', ''.js'', ''.html'', ''.css'', ''.json'', ''.xml'', ''.yaml'', ''.yml'']\<rparr>"

record uploaded_file =
  file_id :: string
  filename :: string
  content_type :: string
  size :: int
  upload_time :: string

record file_state =
  uploaded_files :: "(string \<times> uploaded_file) list"
  disk :: "string \<Rightarrow> string option"

text \<open>The multipart file as Starlette hands it over.\<close>

record upload =
  up_filename :: string
  up_content_type :: "string option"
  up_data :: string

section \<open>Service operations (file_service.py)\<close>

definition upload_chunk_size :: nat where
  "upload_chunk_size = 1024 * 1024"

definition too_large_error :: "file_config \<Rightarrow> py_exc" where
  "too_large_error cfg =
     HTTPException 413 (''File too large. Maximum size: '' @ fmt_mb (max_upload_size cfg) @ '' MB'')"

text \<open>
  The copy loop \<open>while chunk := await file.read(chunk_size)\<close>, kept as a
  loop over its state: what is left of the upload, \<open>file_size\<close> the bytes
  read so far and \<open>written\<close> what the buffer holds, or the exception that
  left the loop.  The condition reads the next chunk; the body adds its
  size and raises 413 as soon as the running size exceeds the limit (the
  chunk that exceeds it is not written), and writes it otherwise.
\<close>

type_synonym copy_state = "py_exc + nat \<times> string \<times> string"

definition copy_continue :: "copy_state \<Rightarrow> bool" where
  "copy_continue s = (case s of Inr (file_size, data, written) \<Rightarrow> take upload_chunk_size data \<noteq> [] | Inl e \<Rightarrow> False)"

definition copy_step :: "file_config \<Rightarrow> copy_state \<Rightarrow> copy_state" where
  "copy_step cfg s =
     (case s of
        Inl e \<Rightarrow> Inl e
      | Inr (file_size, data, written) \<Rightarrow>
          (let chunk = take upload_chunk_size data;
               file_size' = file_size + length chunk
            in if int file_size' > max_upload_size cfg then Inl (too_large_error cfg)
               else Inr (file_size', drop upload_chunk_size data, written @ chunk)))"

text \<open>
  The loop run to its end with \<open>while\<close>, which is meaningful because the
  loop always ends (\<open>copy_loop_terminates\<close> below).
\<close>

definition copy_chunks :: "file_config \<Rightarrow> nat \<Rightarrow> string \<Rightarrow> string \<Rightarrow> py_exc + nat \<times> string" where
  "copy_chunks cfg file_size data written =
     (case while copy_continue (copy_step cfg) (Inr (file_size, data, written)) of
        Inl e \<Rightarrow> Inl e
      | Inr (file_size', data', written') \<Rightarrow> Inr (file_size', written'))"

text \<open>\<open>sep.join(xs)\<close>.\<close>

fun py_join :: "string \<Rightarrow> string list \<Rightarrow> string" where
  "py_join sep [] = []"
| "py_join sep [x] = x"
| "py_join sep (x # y # xs) = x @ sep @ py_join sep (y # xs)"

text \<open>
  \<open>ALLOWED_EXTENSIONS\<close> is a set; \<open>', '.join\<close> lists it in the set's
  iteration order, which depends on string hashing and is not fixed by
  the code.  The model lists it in the order of the configuration list.
\<close>

definition not_allowed_error :: "file_config \<Rightarrow> py_exc" where
  "not_allowed_error cfg =
     HTTPException 400 (''File type not allowed. Allowed types: '' @
                        py_join '', '' (allowed_extensions cfg))"

definition file_path_of :: "file_config \<Rightarrow> string \<Rightarrow> string \<Rightarrow> string" where
  "file_path_of cfg fid name = py_path_join (upload_dir cfg) (fid @ py_lower (py_splitext_ext name))"

text \<open>\<open>x or y\<close> on optional strings: \<open>None\<close> and the empty string are false.\<close>

definition or_str :: "string option \<Rightarrow> string \<Rightarrow> string" where
  "or_str x y = (case x of Some s \<Rightarrow> if s = [] then y else s | None \<Rightarrow> y)"

text \<open>Dictionary assignment: an existing key keeps its place, a new one is appended.\<close>

definition save_uploaded_file ::
  "file_config \<Rightarrow> string \<Rightarrow> string \<Rightarrow> (string \<Rightarrow> string option) \<Rightarrow> upload \<Rightarrow> file_state \<Rightarrow>
   (py_exc + uploaded_file) \<times> file_state" where
  "save_uploaded_file cfg unique_id timestamp guess_type file fs =
     (let filename = up_filename file;
          file_extension = py_lower (py_splitext_ext filename)
      in if file_extension \<notin> set (allowed_extensions cfg) then (Inl (not_allowed_error cfg), fs)
         else
           (let file_path = py_path_join (upload_dir cfg) (unique_id @ file_extension);
                fs1 = fs\<lparr>disk := (disk fs)(file_path \<mapsto> [])\<rparr>
            in (case copy_chunks cfg 0 (up_data file) [] of
                  Inl e \<Rightarrow> (Inl e, fs1\<lparr>disk := (disk fs1)(file_path := None)\<rparr>)
                | Inr (file_size, written) \<Rightarrow>
                    (let content_type = or_str (up_content_type file)
                                          (or_str (guess_type filename) ''application/octet-stream'');
                         file_data = \<lparr>file_id = unique_id, filename = filename,
                                      content_type = content_type, size = int file_size,
                                      upload_time = timestamp\<rparr>
                     in (Inr file_data,
                         fs1\<lparr>disk := (disk fs1)(file_path \<mapsto> written),
                             uploaded_files := dict_set unique_id file_data (uploaded_files fs1)\<rparr>)))))"

definition get_file_info :: "string \<Rightarrow> file_state \<Rightarrow> uploaded_file option" where
  "get_file_info fid fs = map_of (uploaded_files fs) fid"

definition list_files :: "file_state \<Rightarrow> uploaded_file list" where
  "list_files fs = map snd (uploaded_files fs)"

definition delete_file :: "file_config \<Rightarrow> string \<Rightarrow> file_state \<Rightarrow> bool \<times> file_state" where
  "delete_file cfg fid fs =
     (case map_of (uploaded_files fs) fid of
        None \<Rightarrow> (False, fs)
      | Some file_data \<Rightarrow>
          (let file_path = file_path_of cfg fid (filename file_data)
           in (True, fs\<lparr>disk := (disk fs)(file_path := None),
                        uploaded_files := filter (\<lambda>kv. fst kv \<noteq> fid) (uploaded_files fs)\<rparr>)))"

datatype file_part = Image_Part string string | Text_Part string

fun prepare_file_parts :: "file_config \<Rightarrow> string list \<Rightarrow> file_state \<Rightarrow> py_exc + file_part list" where
  "prepare_file_parts cfg [] fs = Inr []"
| "prepare_file_parts cfg (fid # fids) fs =
     (case map_of (uploaded_files fs) fid of
        None \<Rightarrow> Inl (HTTPException 404 (''File with ID '' @ fid @ '' not found''))
      | Some file_data \<Rightarrow>
          (case disk fs (file_path_of cfg fid (filename file_data)) of
             None \<Rightarrow> Inl (HTTPException 404 (''File with ID '' @ fid @ '' is missing''))
           | Some image_bytes \<Rightarrow>
               (let mime_type = content_type file_data;
                    part = (if take 6 mime_type = ''image/'' then Image_Part mime_type image_bytes
                            else Text_Part (''[Reference to uploaded file: '' @ filename file_data @ '']''))
                in (case prepare_file_parts cfg fids fs of
                      Inl e \<Rightarrow> Inl e
                    | Inr parts \<Rightarrow> Inr (part # parts)))))"

section \<open>Endpoints (routes/files.py)\<close>

text \<open>
  \<open>upload_file\<close> and \<open>get_files\<close> depend on \<open>get_current_active_user\<close>;
  \<open>get_file_by_id\<close> and \<open>remove_file\<close> have no authentication dependency.
  A \<open>RateLimitError\<close> of \<open>track_request\<close> is not an \<open>HTTPException\<close>: the
  upload handler turns it into a 500, the others let it escape (500).
\<close>

definition upload_file ::
  "rate_config \<Rightarrow> file_config \<Rightarrow> timestamp \<Rightarrow> auth_user \<Rightarrow> string \<Rightarrow> string \<Rightarrow>
   (string \<Rightarrow> string option) \<Rightarrow> upload \<Rightarrow> usage \<Rightarrow> file_state \<Rightarrow>
   uploaded_file response \<times> usage \<times> file_state" where
  "upload_file cfg fcfg now cu unique_id timestamp guess_type file u fs =
     (case get_current_active_user cu of
        Inl e \<Rightarrow> (uncaught e, u, fs)
      | Inr _ \<Rightarrow>
          (case track_request cfg now u of
             (Inl e, u1) \<Rightarrow> (Error_Response 500 (''Error uploading file: '' @ exc_str e), u1, fs)
           | (Inr _, u1) \<Rightarrow>
               (case save_uploaded_file fcfg unique_id timestamp guess_type file fs of
                  (Inl (HTTPException c d), fs') \<Rightarrow> (Error_Response c d, u1, fs')
                | (Inl e, fs') \<Rightarrow> (Error_Response 500 (''Error uploading file: '' @ exc_str e), u1, fs')
                | (Inr fd, fs') \<Rightarrow> (Response fd, u1, fs'))))"

definition get_files ::
  "rate_config \<Rightarrow> timestamp \<Rightarrow> auth_user \<Rightarrow> usage \<Rightarrow> file_state \<Rightarrow>
   uploaded_file list response \<times> usage \<times> file_state" where
  "get_files cfg now cu u fs =
     (case get_current_active_user cu of
        Inl e \<Rightarrow> (uncaught e, u, fs)
      | Inr _ \<Rightarrow>
          (case track_request cfg now u of
             (Inl e, u1) \<Rightarrow> (uncaught e, u1, fs)
           | (Inr _, u1) \<Rightarrow> (Response (list_files fs), u1, fs)))"

definition file_not_found :: "string \<Rightarrow> py_exc" where
  "file_not_found fid = HTTPException 404 (''File with ID '' @ fid @ '' not found'')"

definition get_file_by_id ::
  "rate_config \<Rightarrow> timestamp \<Rightarrow> string \<Rightarrow> usage \<Rightarrow> file_state \<Rightarrow>
   uploaded_file response \<times> usage \<times> file_state" where
  "get_file_by_id cfg now fid u fs =
     (case track_request cfg now u of
        (Inl e, u1) \<Rightarrow> (uncaught e, u1, fs)
      | (Inr _, u1) \<Rightarrow>
          (case get_file_info fid fs of
             None \<Rightarrow> (uncaught (file_not_found fid), u1, fs)
           | Some fd \<Rightarrow> (Response fd, u1, fs)))"

definition remove_file ::
  "rate_config \<Rightarrow> file_config \<Rightarrow> timestamp \<Rightarrow> string \<Rightarrow> usage \<Rightarrow> file_state \<Rightarrow>
   string response \<times> usage \<times> file_state" where
  "remove_file cfg fcfg now fid u fs =
     (case track_request cfg now u of
        (Inl e, u1) \<Rightarrow> (uncaught e, u1, fs)
      | (Inr _, u1) \<Rightarrow>
          (case get_file_info fid fs of
             None \<Rightarrow> (uncaught (file_not_found fid), u1, fs)
           | Some file_data \<Rightarrow>
               (case delete_file fcfg fid fs of
                  (True, fs') \<Rightarrow>
                    (Response (''File '' @ filename file_data @ '' deleted successfully''), u1, fs')
                | (False, fs') \<Rightarrow> (Error_Response 500 ''Failed to delete file'', u1, fs'))))"

section \<open>The file requests as one interface\<close>

datatype file_request =
    F_Upload auth_user string string "string \<Rightarrow> string option" upload
  | F_List auth_user
  | F_Get string
  | F_Remove string

fun file_route ::
  "rate_config \<Rightarrow> file_config \<Rightarrow> timestamp \<Rightarrow> file_request \<Rightarrow> usage \<Rightarrow> file_state \<Rightarrow>
   int \<times> usage \<times> file_state" where
  "file_route cfg fcfg now (F_Upload cu fid ts g up) u fs =
     (case upload_file cfg fcfg now cu fid ts g up u fs of (r, s) \<Rightarrow> (response_status r, s))"
| "file_route cfg fcfg now (F_List cu) u fs =
     (case get_files cfg now cu u fs of (r, s) \<Rightarrow> (response_status r, s))"
| "file_route cfg fcfg now (F_Get fid) u fs =
     (case get_file_by_id cfg now fid u fs of (r, s) \<Rightarrow> (response_status r, s))"
| "file_route cfg fcfg now (F_Remove fid) u fs =
     (case remove_file cfg fcfg now fid u fs of (r, s) \<Rightarrow> (response_status r, s))"

text \<open>
  The identifier of an upload is the MD5 digest of the name, the time and
  a fresh \<open>uuid4\<close>; the model assumes, as the code does, that it names
  neither a registered file nor a file on disk.
\<close>

fun fresh_upload :: "file_config \<Rightarrow> file_request \<Rightarrow> file_state \<Rightarrow> bool" where
  "fresh_upload fcfg (F_Upload cu fid ts g up) fs =
     (fid \<notin> fst ` set (uploaded_files fs) \<and> disk fs (file_path_of fcfg fid (up_filename up)) = None)"
| "fresh_upload fcfg req fs = True"

text \<open>
  The registries the process can reach: empty at import, with whatever
  the upload directory holds, then any file request under any state of
  the throttle.
\<close>

inductive files_reachable :: "file_config \<Rightarrow> file_state \<Rightarrow> bool" for fcfg where
  init: "files_reachable fcfg \<lparr>uploaded_files = [], disk = d\<rparr>"
| step: "files_reachable fcfg fs \<Longrightarrow> fresh_upload fcfg req fs \<Longrightarrow>
         files_reachable fcfg (snd (snd (file_route cfg fcfg now req u fs)))"

text \<open>
  Registry consistency: identifiers are distinct and name their entry,
  distinct entries live at distinct paths, and every registered file is
  on disk with the registered size.
\<close>

definition file_entry_ok :: "file_config \<Rightarrow> file_state \<Rightarrow> string \<times> uploaded_file \<Rightarrow> bool" where
  "file_entry_ok fcfg fs kv =
     (file_id (snd kv) = fst kv \<and>
      (case disk fs (file_path_of fcfg (fst kv) (filename (snd kv))) of
         None \<Rightarrow> False | Some c \<Rightarrow> int (length c) = size (snd kv)))"

definition files_wf :: "file_config \<Rightarrow> file_state \<Rightarrow> bool" where
  "files_wf fcfg fs \<longleftrightarrow>
     distinct (map fst (uploaded_files fs)) \<and>
     distinct (map (\<lambda>kv. file_path_of fcfg (fst kv) (filename (snd kv))) (uploaded_files fs)) \<and>
     list_all (file_entry_ok fcfg fs) (uploaded_files fs)"

section \<open>Lemmas\<close>

text \<open>
  The chunked copy is a single write: it fails exactly when the upload is
  non-empty and its total size exceeds the limit, and otherwise writes
  the whole upload.
\<close>

lemma copy_while_Inl [simp]: "while copy_continue (copy_step cfg) (Inl e) = Inl e"
  by (subst while_unfold) (simp add: copy_continue_def)

text \<open>Each turn of the loop reads a non-empty chunk, so the unread part of the upload shrinks.\<close>

lemma copy_step_decreases:
  assumes "copy_continue s"
  shows "(case copy_step cfg s of Inr (n, d, w) \<Rightarrow> length d | Inl e \<Rightarrow> 0) <
         (case s of Inr (n, d, w) \<Rightarrow> length d | Inl e \<Rightarrow> 0)"
  using assms by (auto simp: copy_continue_def copy_step_def Let_def upload_chunk_size_def split: sum.splits)

lemma copy_step_error:
  "(case s of Inl e \<Rightarrow> e = too_large_error cfg | Inr _ \<Rightarrow> True) \<Longrightarrow>
   (case copy_step cfg s of Inl e \<Rightarrow> e = too_large_error cfg | Inr _ \<Rightarrow> True)"
  by (auto simp: copy_step_def Let_def split: sum.splits)

text \<open>One turn of the loop: the recursive reading of the code.\<close>

lemma copy_chunks_unfold:
  "copy_chunks cfg file_size data written =
     (let chunk = take upload_chunk_size data
      in if chunk = [] then Inr (file_size, written)
         else
           (let file_size' = file_size + length chunk
            in if int file_size' > max_upload_size cfg then Inl (too_large_error cfg)
               else copy_chunks cfg file_size' (drop upload_chunk_size data) (written @ chunk)))"
  unfolding copy_chunks_def
  by (subst while_unfold) (simp add: copy_continue_def copy_step_def Let_def)

lemma copy_chunks_eq:
  "copy_chunks cfg n data w =
     (if data = [] then Inr (n, w)
      else if int (n + length data) > max_upload_size cfg then Inl (too_large_error cfg)
      else Inr (n + length data, w @ data))"
proof (induction "length data" arbitrary: n data w rule: less_induct)
  case less
  let ?chunk = "take upload_chunk_size data"
  have pos: "0 < upload_chunk_size" by (simp add: upload_chunk_size_def)
  show ?case
  proof (cases "data = []")
    case True
    then show ?thesis by (simp add: copy_chunks_unfold)
  next
    case False
    then have ne: "?chunk \<noteq> []" using pos by simp
    show ?thesis
    proof (cases "int (n + length ?chunk) > max_upload_size cfg")
      case True
      moreover have "length ?chunk \<le> length data" by simp
      ultimately show ?thesis using ne False by (simp add: copy_chunks_unfold Let_def)
    next
      case over: False
      have shorter: "length (drop upload_chunk_size data) < length data" using False pos by simp
      have IH: "copy_chunks cfg (n + length ?chunk) (drop upload_chunk_size data) (w @ ?chunk) =
         (if drop upload_chunk_size data = [] then Inr (n + length ?chunk, w @ ?chunk)
          else if int (n + length ?chunk + length (drop upload_chunk_size data)) > max_upload_size cfg
          then Inl (too_large_error cfg)
          else Inr (n + length ?chunk + length (drop upload_chunk_size data),
                    w @ ?chunk @ drop upload_chunk_size data))"
        using less [OF shorter] by simp
      have len: "length ?chunk + length (drop upload_chunk_size data) = length data" by simp
      show ?thesis
        using IH over ne False len
        by (cases "drop upload_chunk_size data = []") (auto simp: copy_chunks_unfold [of cfg n data] Let_def)
    qed
  qed
qed

lemma save_path [simp]:
  "py_path_join (upload_dir cfg) (fid @ py_lower (py_splitext_ext n)) = file_path_of cfg fid n"
  by (simp add: file_path_of_def)

text \<open>The two outcomes of an upload with an allowed extension, on a fresh path.\<close>

lemma save_uploaded_file_allowed:
  assumes "py_lower (py_splitext_ext (up_filename up)) \<in> set (allowed_extensions cfg)"
    and "disk fs (file_path_of cfg fid (up_filename up)) = None"
  shows "save_uploaded_file cfg fid ts g up fs =
     (if up_data up \<noteq> [] \<and> int (length (up_data up)) > max_upload_size cfg
      then (Inl (too_large_error cfg), fs)
      else (Inr \<lparr>file_id = fid, filename = up_filename up,
                 content_type = or_str (up_content_type up)
                                  (or_str (g (up_filename up)) ''application/octet-stream''),
                 size = int (length (up_data up)), upload_time = ts\<rparr>,
            fs\<lparr>disk := (disk fs)(file_path_of cfg fid (up_filename up) \<mapsto> up_data up),
                uploaded_files := dict_set fid
                  \<lparr>file_id = fid, filename = up_filename up,
                   content_type = or_str (up_content_type up)
                                    (or_str (g (up_filename up)) ''application/octet-stream''),
                   size = int (length (up_data up)), upload_time = ts\<rparr> (uploaded_files fs)\<rparr>))"
proof -
  have triv: "(disk fs)(file_path_of cfg fid (up_filename up) := None) = disk fs"
    using assms(2) by (rule fun_upd_idem)
  show ?thesis
    using assms(1) triv
    by (auto simp: save_uploaded_file_def copy_chunks_eq Let_def)
qed

lemma file_entry_ok_disk:
  "file_entry_ok fcfg fs kv \<Longrightarrow>
   disk fs' (file_path_of fcfg (fst kv) (filename (snd kv))) = disk fs (file_path_of fcfg (fst kv) (filename (snd kv))) \<Longrightarrow>
   file_entry_ok fcfg fs' kv"
  by (simp add: file_entry_ok_def)

lemma files_wf_save:
  assumes wf: "files_wf cfg fs" and fresh: "fid \<notin> fst ` set (uploaded_files fs)"
    and free: "disk fs (file_path_of cfg fid (up_filename up)) = None"
  shows "files_wf cfg (snd (save_uploaded_file cfg fid ts g up fs))"
proof (cases "py_lower (py_splitext_ext (up_filename up)) \<in> set (allowed_extensions cfg)")
  case False
  with wf show ?thesis by (simp add: save_uploaded_file_def Let_def)
next
  case True
  let ?p = "file_path_of cfg fid (up_filename up)"
  let ?path = "\<lambda>kv. file_path_of cfg (fst kv) (filename (snd kv))"
  have other: "?path kv \<noteq> ?p" if "kv \<in> set (uploaded_files fs)" for kv
    using wf that free by (fastforce simp: files_wf_def list_all_iff file_entry_ok_def split: option.splits)
  have old: "file_entry_ok cfg (fs\<lparr>disk := (disk fs)(?p \<mapsto> up_data up), uploaded_files := X\<rparr>) kv"
    if "kv \<in> set (uploaded_files fs)" for kv X
    using wf that other [OF that] by (auto simp: files_wf_def list_all_iff intro: file_entry_ok_disk)
  have "?p \<notin> ?path ` set (uploaded_files fs)" using other by force
  with wf fresh True free old show ?thesis
    by (auto simp: save_uploaded_file_allowed dict_set_fresh files_wf_def file_entry_ok_def list_all_iff)
qed

lemma files_wf_delete:
  assumes wf: "files_wf cfg fs"
  shows "files_wf cfg (snd (delete_file cfg fid fs))"
proof (cases "map_of (uploaded_files fs) fid")
  case None
  with wf show ?thesis by (simp add: delete_file_def)
next
  case (Some fd)
  let ?path = "\<lambda>kv. file_path_of cfg (fst kv) (filename (snd kv))"
  have mem: "(fid, fd) \<in> set (uploaded_files fs)" using Some by (rule map_of_SomeD)
  have inj: "inj_on ?path (set (uploaded_files fs))" using wf by (simp add: files_wf_def distinct_map)
  have other: "?path kv \<noteq> ?path (fid, fd)" if "kv \<in> set (uploaded_files fs)" "fst kv \<noteq> fid" for kv
    using inj_onD [OF inj _ that(1) mem] that(2) by auto
  have "file_entry_ok cfg (fs\<lparr>disk := (disk fs)(?path (fid, fd) := None),
           uploaded_files := filter (\<lambda>kv. fst kv \<noteq> fid) (uploaded_files fs)\<rparr>) kv"
    if "kv \<in> set (uploaded_files fs)" "fst kv \<noteq> fid" for kv
    using wf that other [OF that] by (auto simp: files_wf_def list_all_iff intro: file_entry_ok_disk)
  with wf Some show ?thesis
    by (auto simp: delete_file_def files_wf_def list_all_iff distinct_map_filter)
qed

text \<open>A file request writes the registry only through an upload or a deletion.\<close>

lemma file_route_state:
  "snd (snd (file_route cfg fcfg now req u fs)) = fs \<or>
   (\<exists>cu fid ts g up. req = F_Upload cu fid ts g up \<and>
      snd (snd (file_route cfg fcfg now req u fs)) = snd (save_uploaded_file fcfg fid ts g up fs)) \<or>
   (\<exists>fid. req = F_Remove fid \<and>
      snd (snd (file_route cfg fcfg now req u fs)) = snd (delete_file fcfg fid fs))"
  by (cases req)
     (auto simp: upload_file_def get_files_def get_file_by_id_def remove_file_def
        split: prod.splits sum.splits py_exc.splits bool.splits option.splits)

lemma files_wf_on_disk:
  "files_wf fcfg fs \<Longrightarrow> map_of (uploaded_files fs) fid = Some fd \<Longrightarrow>
   \<exists>c. disk fs (file_path_of fcfg fid (filename fd)) = Some c"
  by (drule map_of_SomeD)
     (fastforce simp: files_wf_def list_all_iff file_entry_ok_def split: option.splits)

text \<open>A file request keeps the registry consistent, provided an upload's identifier is fresh.\<close>

lemma files_wf_file_route:
  assumes "files_wf fcfg fs" "fresh_upload fcfg req fs"
  shows "files_wf fcfg (snd (snd (file_route cfg fcfg now req u fs)))"
proof -
  consider (same) "snd (snd (file_route cfg fcfg now req u fs)) = fs"
    | (up) cu fid ts g up where "req = F_Upload cu fid ts g up"
        "snd (snd (file_route cfg fcfg now req u fs)) = snd (save_uploaded_file fcfg fid ts g up fs)"
    | (rm) fid where "snd (snd (file_route cfg fcfg now req u fs)) = snd (delete_file fcfg fid fs)"
    using file_route_state [of cfg fcfg now req u fs] by blast
  then show ?thesis
  proof cases
    case same
    with assms(1) show ?thesis by simp
  next
    case up
    with assms show ?thesis by (simp add: files_wf_save)
  next
    case rm
    with assms(1) show ?thesis by (simp add: files_wf_delete)
  qed
qed

text \<open>A file request leaves the counters as they were or as a request check leaves them.\<close>

lemma file_route_usage:
  "fst (snd (file_route cfg fcfg now req u fs)) = u \<or>
   fst (snd (file_route cfg fcfg now req u fs)) = snd (throttle_apply cfg now Track_Request u)"
  by (cases req)
     (auto simp: upload_file_def get_files_def get_file_by_id_def remove_file_def
        split: prod.splits sum.splits py_exc.splits bool.splits option.splits)

definition demo_fs :: file_state where
  "demo_fs = \<lparr>uploaded_files = [], disk = Map.empty\<rparr>"

definition demo_upload :: upload where
  "demo_upload = \<lparr>up_filename = ''cat.PNG'', up_content_type = Some ''image/png'', up_data = ''abc''\<rparr>"

lemma demo_upload_allowed:
  "py_lower (py_splitext_ext (up_filename demo_upload)) = ''.png''"
  unfolding demo_upload_def by code_simp

lemma upload_size_limit_facts:
  "\<exists>fd. get_file_info ''f1''
     (snd (save_uploaded_file default_file_config ''f1'' ''T'' (\<lambda>_. None) demo_upload demo_fs)) = Some fd"
  using save_uploaded_file_allowed [of demo_upload default_file_config demo_fs "''f1''" "''T''" "\<lambda>_. None"]
  by (simp add: demo_upload_allowed default_file_config_def demo_fs_def get_file_info_def)
     (simp add: demo_upload_def)

section \<open>Properties\<close>

text \<open>
  C25: The copy loop of \<open>save_uploaded_file\<close> always ends, whatever the
  upload and the limit: run from any state, the \<open>while\<close> loop reaches a
  state where its condition fails, and that state is either the 413 error
  or a state with nothing of the upload left unread.
\<close>

theorem copy_loop_terminates:
  "\<exists>s. while_option copy_continue (copy_step cfg) (Inr (file_size, data, written)) = Some s \<and>
       (s = Inl (too_large_error cfg) \<or> (\<exists>n w. s = Inr (n, [], w)))"
proof -
  let ?P = "\<lambda>s. case s of Inl e \<Rightarrow> e = too_large_error cfg | Inr _ \<Rightarrow> True"
  let ?f = "\<lambda>s. case s of Inr (n, d, w) \<Rightarrow> length d | Inl e \<Rightarrow> (0::nat)"
  obtain s where s: "while_option copy_continue (copy_step cfg) (Inr (file_size, data, written)) = Some s"
    using measure_while_option_Some [where P = ?P and f = ?f and b = copy_continue and c = "copy_step cfg"]
      copy_step_decreases copy_step_error by fastforce
  have "?P s"
    using while_option_rule [where P = ?P, OF _ s] copy_step_error by simp
  moreover have "\<not> copy_continue s" using while_option_stop [OF s] .
  ultimately have "s = Inl (too_large_error cfg) \<or> (\<exists>n w. s = Inr (n, [], w))"
    by (auto simp: copy_continue_def upload_chunk_size_def split: sum.splits)
  with s show ?thesis by blast
qed

text \<open>
  C24: Upload size limit and round trip: an upload with an allowed
  extension under a fresh identifier is rejected with 413, leaving the
  registry and the upload directory as they were, exactly when it is
  non-empty and larger than \<open>MAX_UPLOAD_SIZE\<close>; otherwise its metadata
  records its size, it is found again by its identifier, it is listed
  last, and its bytes are on disk at its path.
\<close>

theorem upload_size_limit:
  assumes "py_lower (py_splitext_ext (up_filename up)) \<in> set (allowed_extensions cfg)"
    and "fid \<notin> fst ` set (uploaded_files fs)"
    and "disk fs (file_path_of cfg fid (up_filename up)) = None"
  shows "(up_data up \<noteq> [] \<and> int (length (up_data up)) > max_upload_size cfg \<longrightarrow>
            save_uploaded_file cfg fid ts g up fs = (Inl (too_large_error cfg), fs)) \<and>
         (\<not> (up_data up \<noteq> [] \<and> int (length (up_data up)) > max_upload_size cfg) \<longrightarrow>
            (\<exists>fd fs'. save_uploaded_file cfg fid ts g up fs = (Inr fd, fs') \<and>
               size fd = int (length (up_data up)) \<and> get_file_info fid fs' = Some fd \<and>
               list_files fs' = list_files fs @ [fd] \<and>
               disk fs' (file_path_of cfg fid (up_filename up)) = Some (up_data up)))"
proof -
  have "fid \<notin> dom (map_of (uploaded_files fs))" using assms(2) by (simp add: dom_map_of_conv_image_fst)
  with assms show ?thesis
    by (simp add: save_uploaded_file_allowed dict_set_fresh get_file_info_def list_files_def map_add_dom_app_simps(3))
qed

theorem upload_size_limit_witness:
  "save_uploaded_file (default_file_config\<lparr>max_upload_size := 2\<rparr>) ''f1'' ''T'' (\<lambda>_. None) demo_upload demo_fs =
     (Inl (too_large_error (default_file_config\<lparr>max_upload_size := 2\<rparr>)), demo_fs)"
  using upload_size_limit [of demo_upload "default_file_config\<lparr>max_upload_size := 2\<rparr>" "''f1''" demo_fs
      "''T''" "\<lambda>_. None"]
  by (simp add: demo_upload_allowed default_file_config_def demo_fs_def) (simp add: demo_upload_def)

text \<open>
  An upload whose lower-cased extension is not allowed is answered
  400 with the list of allowed types before anything is written: the
  registry and the upload directory are unchanged (only the request is
  counted).
\<close>

theorem upload_rejects_extension:
  assumes "au_active cu"
    and "requests_used (check_and_reset_counters now u) < requests_per_minute cfg"
    and "py_lower (py_splitext_ext (up_filename up)) \<notin> set (allowed_extensions fcfg)"
  shows "upload_file cfg fcfg now cu fid ts g up u fs =
         (Error_Response 400 (''File type not allowed. Allowed types: '' @ py_join '', '' (allowed_extensions fcfg)),
          snd (track_request cfg now u), fs)"
  using assms
  by (simp add: upload_file_def get_current_active_user_def save_uploaded_file_def not_allowed_error_def Let_def)

theorem upload_rejects_extension_witness:
  "upload_file default_rate_config default_file_config 1 stranger ''f1'' ''T'' (\<lambda>_. None)
     (demo_upload\<lparr>up_filename := ''run.sh''\<rparr>) (initial_usage 0) demo_fs =
   (Error_Response 400 (''File type not allowed. Allowed types: '' @ py_join '', '' (allowed_extensions default_file_config)),
    snd (track_request default_rate_config 1 (initial_usage 0)), demo_fs)"
  by (rule upload_rejects_extension)
     (simp_all add: stranger_def default_rate_config_def default_file_config_def py_splitext_ext_def py_lower_def)

text \<open>
  In every registry the process can reach through the file
  endpoints, in any order and under any state of the throttle, the
  identifiers are distinct and name their entries, distinct files live at
  distinct paths, and every registered file is on disk with its
  registered size.
\<close>

theorem files_reachable_wf:
  assumes "files_reachable fcfg fs"
  shows "files_wf fcfg fs"
  using assms
proof (induction rule: files_reachable.induct)
  case (init d)
  show ?case by (simp add: files_wf_def)
next
  case (step fs req cfg now u)
  then show ?case using files_wf_file_route by blast
qed

theorem files_reachable_wf_witness:
  "files_wf default_file_config
     (snd (snd (file_route default_rate_config default_file_config 1
        (F_Upload stranger ''f1'' ''T'' (\<lambda>_. None) demo_upload) (initial_usage 0) demo_fs)))"
proof -
  have "files_reachable default_file_config demo_fs"
    unfolding demo_fs_def by (rule files_reachable.init)
  then have "files_reachable default_file_config
     (snd (snd (file_route default_rate_config default_file_config 1
        (F_Upload stranger ''f1'' ''T'' (\<lambda>_. None) demo_upload) (initial_usage 0) demo_fs)))"
    by (rule files_reachable.step) (simp add: demo_fs_def)
  then show ?thesis by (rule files_reachable_wf)
qed

text \<open>
  C26: Deleting a file needs no credentials: \<open>remove_file\<close> has no
  authentication dependency, so any request within the request budget
  that names a registered file deletes it and its bytes, whoever sends
  it.
\<close>

theorem remove_file_without_credentials:
  assumes "get_file_info fid fs = Some fd"
    and "requests_used (check_and_reset_counters now u) < requests_per_minute cfg"
  shows "remove_file cfg fcfg now fid u fs =
           (Response (''File '' @ filename fd @ '' deleted successfully''), snd (track_request cfg now u),
            snd (delete_file fcfg fid fs)) \<and>
         get_file_info fid (snd (delete_file fcfg fid fs)) = None \<and>
         disk (snd (delete_file fcfg fid fs)) (file_path_of fcfg fid (filename fd)) = None"
  using assms
  by (auto simp: remove_file_def delete_file_def get_file_info_def map_of_eq_None_iff Let_def)

theorem remove_file_without_credentials_witness:
  "get_file_info ''f1'' (snd (delete_file default_file_config ''f1''
     (snd (save_uploaded_file default_file_config ''f1'' ''T'' (\<lambda>_. None) demo_upload demo_fs)))) = None"
proof -
  let ?fs = "snd (save_uploaded_file default_file_config ''f1'' ''T'' (\<lambda>_. None) demo_upload demo_fs)"
  obtain fd where fd: "get_file_info ''f1'' ?fs = Some fd"
    using upload_size_limit_facts by blast
  show ?thesis
    using remove_file_without_credentials [OF fd, of 1 "initial_usage 0" default_rate_config default_file_config]
    by (simp add: default_rate_config_def)
qed

text \<open>
  Preparing the file parts of a chat request: in a consistent
  registry it succeeds, with one part per identifier, exactly when every
  identifier is registered; the 404 for a file that is registered but
  missing on disk cannot occur.
\<close>

theorem prepare_file_parts_total:
  assumes wf: "files_wf fcfg fs"
  shows "(\<exists>ps. prepare_file_parts fcfg fids fs = Inr ps \<and> length ps = length fids) \<longleftrightarrow>
         set fids \<subseteq> fst ` set (uploaded_files fs)"
proof (induction fids)
  case Nil
  then show ?case by simp
next
  case (Cons fid fids)
  show ?case
  proof (cases "map_of (uploaded_files fs) fid")
    case None
    then have "fid \<notin> fst ` set (uploaded_files fs)" by (simp add: map_of_eq_None_iff)
    with None show ?thesis by simp
  next
    case (Some fd)
    then have key: "fid \<in> fst ` set (uploaded_files fs)"
      by (metis map_of_eq_None_iff option.distinct(1))
    obtain c where c: "disk fs (file_path_of fcfg fid (filename fd)) = Some c"
      using files_wf_on_disk [OF wf Some] by blast
    show ?thesis
      using Some c key Cons.IH by (auto simp: Let_def split: sum.splits)
  qed
qed

theorem prepare_file_parts_total_witness:
  "\<exists>ps. prepare_file_parts default_file_config [''f1'']
          (snd (save_uploaded_file default_file_config ''f1'' ''T'' (\<lambda>_. None) demo_upload demo_fs)) = Inr ps \<and>
        length ps = length [''f1'']"
proof -
  let ?fs = "snd (save_uploaded_file default_file_config ''f1'' ''T'' (\<lambda>_. None) demo_upload demo_fs)"
  have "files_wf default_file_config demo_fs" by (simp add: files_wf_def demo_fs_def)
  then have wf: "files_wf default_file_config ?fs"
    by (rule files_wf_save) (simp_all add: demo_fs_def)
  obtain fd where "get_file_info ''f1'' ?fs = Some fd"
    using upload_size_limit_facts by blast
  then have "set [''f1''] \<subseteq> fst ` set (uploaded_files ?fs)"
    by (simp add: get_file_info_def) (metis map_of_eq_None_iff option.distinct(1))
  then show ?thesis using prepare_file_parts_total [OF wf] by blast
qed

end
