(* ===== verification/TokenUtils.thy ===== *)
theory TokenUtils
  imports RateLimiter ThreadStore
begin

text \<open>
  The token statistics of \<open>app/utils/token_utils.py\<close>: three aggregate
  queries over the \<open>conversations\<close> table (modelled over the store of
  theory \<open>ThreadStore\<close>) and the sum of the input tokens of a list of
  message dictionaries, which caches the counts it computes back into the
  dictionaries (the list is returned with the total).
\<close>

section \<open>Aggregate queries\<close>

text \<open>
  \<open>get_messages_token_count\<close>: the filter on the thread when one is given
  (a UUID is never empty), else on the identifiers when the list is
  non-empty, else none; then \<open>SUM\<close> over the non-null counts, \<open>NULL or 0\<close>.
\<close>

definition get_messages_token_count :: "uuid option \<Rightarrow> uuid list option \<Rightarrow> store \<Rightarrow> int" where
  "get_messages_token_count thread_id conversation_ids st =
     (let rows = (case thread_id of
                    Some tid \<Rightarrow> filter (\<lambda>c. conv_thread c = tid) (conversations st)
                  | None \<Rightarrow>
                      (case conversation_ids of
                         Some ids \<Rightarrow> if ids = [] then conversations st
                                     else filter (\<lambda>c. conv_pk c \<in> set ids) (conversations st)
                       | None \<Rightarrow> conversations st))
      in sum_list (map (\<lambda>c. the (token_count c)) (filter (\<lambda>c. token_count c \<noteq> None) rows)))"

definition get_thread_total_tokens_optimized :: "uuid \<Rightarrow> store \<Rightarrow> int" where
  "get_thread_total_tokens_optimized tid st =
     sum_list (map (\<lambda>c. the (token_count c))
       (filter (\<lambda>c. token_count c \<noteq> None) (filter (\<lambda>c. conv_thread c = tid) (conversations st))))"

record token_stats =
  total_tokens :: int
  user_tokens :: int
  assistant_tokens :: int
  message_count :: int
  average_tokens_per_message :: real

definition role_tokens :: "uuid \<Rightarrow> string list \<Rightarrow> store \<Rightarrow> int" where
  "role_tokens tid roles st =
     sum_list (map (\<lambda>c. the (token_count c))
       (filter (\<lambda>c. conv_thread c = tid \<and> role c \<in> set roles \<and> token_count c \<noteq> None) (conversations st)))"

definition get_thread_token_usage_stats :: "uuid \<Rightarrow> store \<Rightarrow> token_stats" where
  "get_thread_token_usage_stats tid st =
     (let user_tokens = role_tokens tid [''user''] st;
          assistant_tokens = role_tokens tid [''assistant'', ''model''] st;
          total_tokens = user_tokens + assistant_tokens;
          message_count = int (length (filter (\<lambda>c. conv_thread c = tid) (conversations st)))
      in \<lparr>total_tokens = total_tokens, user_tokens = user_tokens, assistant_tokens = assistant_tokens,
          message_count = message_count,
          average_tokens_per_message =
            (if message_count > 0 then real_of_int total_tokens / real_of_int message_count else 0)\<rparr>)"

section \<open>Input tokens of a message list\<close>

record msg_dict =
  md_content :: string
  md_token_count :: "int option"

definition calculate_input_tokens_for_messages ::
  "(string \<Rightarrow> nat option) \<Rightarrow> msg_dict list \<Rightarrow> int \<times> msg_dict list" where
  "calculate_input_tokens_for_messages enc messages =
     (let total_tokens =
            sum_list (map (\<lambda>msg. py_or (md_token_count msg) (count_tokens enc (md_content msg))) messages);
          messages' =
            map (\<lambda>msg. if md_token_count msg = None
                       then msg\<lparr>md_token_count := Some (count_tokens enc (md_content msg))\<rparr> else msg)
              messages
      in (total_tokens, messages'))"

section \<open>Lemmas\<close>

text \<open>
  The rows the service writes: \<open>add_messages_to_thread\<close> is the only
  writer of conversations, and it writes user and model turns with a
  token count.
\<close>

definition row_ok :: "conversation \<Rightarrow> bool" where
  "row_ok c \<longleftrightarrow> (role c = ''user'' \<or> role c = ''model'') \<and> token_count c \<noteq> None"

lemma row_ok_create_conversation:
  "list_all row_ok (conversations st) \<Longrightarrow> r = ''user'' \<or> r = ''model'' \<Longrightarrow>
   list_all row_ok (conversations (snd (create_conversation tid r c m (Some n) now st)))"
  by (auto simp: create_conversation_def row_ok_def Let_def)

lemma row_ok_step:
  assumes "list_all row_ok (conversations st)"
  shows "list_all row_ok (conversations (store_step tok now op st))"
proof (cases op)
  case (Op_Add_Messages tid um am)
  with assms show ?thesis
    by (auto simp: add_messages_to_thread_def Let_def intro!: row_ok_create_conversation
        split: option.splits)
qed (use assms in \<open>auto simp: create_thread_def crud_create_thread_def crud_update_thread_def
        crud_delete_thread_def clear_thread_conversations_def Let_def list_all_iff
        split: option.splits sum.splits\<close>)

lemma store_reachable_rows_ok:
  "store_reachable tok t st \<Longrightarrow> list_all row_ok (conversations st)"
  by (induction rule: store_reachable.induct) (simp_all add: empty_store_def row_ok_step)

lemma sum_list_filter_split:
  "sum_list (map (f :: 'a \<Rightarrow> int) (filter P xs)) =
   sum_list (map f (filter (\<lambda>x. P x \<and> Q x) xs)) + sum_list (map f (filter (\<lambda>x. P x \<and> \<not> Q x) xs))"
  by (induction xs) (simp_all add: ac_simps)

lemma md_content_cached [simp]:
  "md_content (if b then m\<lparr>md_token_count := v\<rparr> else m) = md_content m"
  by simp

lemma py_or_count_cached:
  "py_or (md_token_count (if md_token_count m = None
                          then m\<lparr>md_token_count := Some (count_tokens enc (md_content m))\<rparr> else m))
         (count_tokens enc (md_content m)) =
   py_or (md_token_count m) (count_tokens enc (md_content m))"
  by (cases "md_token_count m") (simp_all add: py_or_def)

section \<open>Properties\<close>

text \<open>
  The token totals of a thread agree: in every store the service can
  reach, the per-role statistics add up to the raw SQL total
  (\<open>get_thread_total_tokens_optimized\<close>), which equals the ORM total of
  \<open>get_messages_token_count\<close> and of \<open>thread_service.get_thread_token_count\<close>,
  and the message count is the number of the thread's rows.
\<close>

theorem token_totals_agree:
  assumes "store_reachable tok t st"
  shows "total_tokens (get_thread_token_usage_stats tid st) = get_thread_total_tokens_optimized tid st \<and>
         get_thread_total_tokens_optimized tid st = get_thread_token_count tid st \<and>
         get_messages_token_count (Some tid) None st = get_thread_token_count tid st \<and>
         message_count (get_thread_token_usage_stats tid st) = int (length (thread_rows tid st))"
proof -
  have ok: "list_all row_ok (conversations st)" using assms by (rule store_reachable_rows_ok)
  let ?P = "\<lambda>c. conv_thread c = tid \<and> token_count c \<noteq> None"
  let ?f = "\<lambda>c. the (token_count c)"
  have "sum_list (map ?f (filter ?P (conversations st))) =
        sum_list (map ?f (filter (\<lambda>c. ?P c \<and> role c = ''user'') (conversations st))) +
        sum_list (map ?f (filter (\<lambda>c. ?P c \<and> role c \<noteq> ''user'') (conversations st)))"
    by (rule sum_list_filter_split)
  moreover have "filter (\<lambda>c. ?P c \<and> role c = ''user'') (conversations st) =
                 filter (\<lambda>c. conv_thread c = tid \<and> role c \<in> set [''user''] \<and> token_count c \<noteq> None)
                   (conversations st)"
    by (rule filter_cong) auto
  moreover have "filter (\<lambda>c. ?P c \<and> role c \<noteq> ''user'') (conversations st) =
                 filter (\<lambda>c. conv_thread c = tid \<and> role c \<in> set [''assistant'', ''model''] \<and> token_count c \<noteq> None)
                   (conversations st)"
    using ok by (intro filter_cong) (auto simp: list_all_iff row_ok_def)
  ultimately show ?thesis
    by (simp add: get_thread_token_usage_stats_def get_thread_total_tokens_optimized_def
        get_thread_token_count_def get_messages_token_count_def role_tokens_def thread_rows_def
        filter_filter conj_commute Let_def)
qed

theorem token_totals_agree_witness:
  "total_tokens (get_thread_token_usage_stats 0 demo_store) = get_thread_token_count 0 demo_store"
  using token_totals_agree [OF demo_store_reachable, of 0] by simp

text \<open>
  \<open>calculate_input_tokens_for_messages\<close> caches what it computes and
  nothing else: afterwards every message has a count, the contents are
  untouched, and a second call returns the same total and changes nothing
  more.  (A stored count of 0 is re-counted in the total but kept as 0.)
\<close>

theorem calculate_input_tokens_idempotent:
  assumes "calculate_input_tokens_for_messages enc msgs = (input_total, msgs')"
  shows "calculate_input_tokens_for_messages enc msgs' = (input_total, msgs') \<and>
         list_all (\<lambda>m. md_token_count m \<noteq> None) msgs' \<and> map md_content msgs' = map md_content msgs"
  using assms
  by (auto simp: calculate_input_tokens_for_messages_def py_or_count_cached comp_def list_all_iff
      intro!: map_idI)

theorem calculate_input_tokens_idempotent_witness:
  "calculate_input_tokens_for_messages (\<lambda>s. Some (length s))
     [\<lparr>md_content = ''abc'', md_token_count = Some 3\<rparr>, \<lparr>md_content = ''de'', md_token_count = Some 0\<rparr>] =
   (5, [\<lparr>md_content = ''abc'', md_token_count = Some 3\<rparr>, \<lparr>md_content = ''de'', md_token_count = Some 0\<rparr>])"
proof -
  have "calculate_input_tokens_for_messages (\<lambda>s. Some (length s))
     [\<lparr>md_content = ''abc'', md_token_count = None\<rparr>, \<lparr>md_content = ''de'', md_token_count = Some 0\<rparr>] =
     (5, [\<lparr>md_content = ''abc'', md_token_count = Some 3\<rparr>, \<lparr>md_content = ''de'', md_token_count = Some 0\<rparr>])"
    by (simp add: calculate_input_tokens_for_messages_def count_tokens_def py_or_def)
  then show ?thesis by (blast dest: calculate_input_tokens_idempotent)
qed

end
