(* ===== verification/Auth.thy ===== *)
theory Auth
  imports ThreadRoutes
begin

text \<open>
  Authentication and user accounts: the users table (app/models/user.py),
  the user schemas (app/schemas/user.py, app/models/base.py), the JWT
  helpers of app/auth/auth.py and the endpoints of app/api/routes/auth.py
  (mounted under /api/auth), app/api/endpoints/auth.py and
  app/api/endpoints/users.py (neither is mounted by app/main.py).

  The user CRUD module app/crud/user.py and the password module
  app/utils/password.py are imported by these files but are not part of the
  repository; the CRUD functions are written from their call sites and the
  table's constraints (a lookup by e-mail, a lookup by the UUID string, an
  insert that fails on the unique e-mail and user-name columns), and the
  password functions are a parameter \<open>password_scheme\<close>.  PyJWT is modelled
  with perfect cryptography, as signed messages are in the protocol
  theories of HOL/Auth: a token is either the signature of a payload under
  a key with an algorithm header, which only a holder of the key builds, or
  a string that does not decode.  Clock readings of \<open>datetime.utcnow()\<close> are
  arguments (seconds since the epoch), and \<open>tz\<close> is the server's offset from
  UTC in seconds, which \<open>datetime.timestamp()\<close> applies to a naive datetime.
\<close>

section \<open>Settings (app/config/settings.py)\<close>

definition default_jwt_secret_key :: string where
  "default_jwt_secret_key = ''a_very_secret_key_please_change_in_production''"

text \<open>\<open>os.environ.get("JWT_SECRET_KEY", default)\<close>.\<close>

definition jwt_secret_key :: "string option \<Rightarrow> string" where
  "jwt_secret_key env = (case env of None \<Rightarrow> default_jwt_secret_key | Some k \<Rightarrow> k)"

definition JWT_ALGORITHM :: string where
  "JWT_ALGORITHM = ''HS256''"

definition JWT_ACCESS_TOKEN_EXPIRE_MINUTES :: nat where
  "JWT_ACCESS_TOKEN_EXPIRE_MINUTES = 30"

section \<open>Users table and schemas\<close>

record user_row =
  u_id :: uuid
  u_email :: string
  u_username :: string
  u_hashed_password :: string
  u_created_at :: timestamp
  u_updated_at :: "timestamp option"
  u_is_active :: bool
  u_is_admin :: bool

record user_db =
  users :: "user_row list"
  next_user_id :: uuid

definition empty_user_db :: user_db where
  "empty_user_db = \<lparr>users = [], next_user_id = 0\<rparr>"

text \<open>\<open>UserCreate\<close>: the validated registration body.\<close>

record user_create =
  uc_email :: string
  uc_username :: string
  uc_password :: string

text \<open>
  The field constraints pydantic checks before the endpoint runs: the user
  name has 3 to 50 characters and the password at least 8.  The \<open>EmailStr\<close>
  check of the e-mail library is not modelled.
\<close>

definition valid_user_create :: "user_create \<Rightarrow> bool" where
  "valid_user_create uc =
     (3 \<le> length (uc_username uc) \<and> length (uc_username uc) \<le> 50 \<and> 8 \<le> length (uc_password uc))"

text \<open>The \<open>User\<close> response built from a row, without the password hash.\<close>

definition user_out :: "user_row \<Rightarrow> auth_user" where
  "user_out r =
     \<lparr>au_id = u_id r, au_email = u_email r, au_name = u_username r,
      au_created = u_created_at r, au_active = u_is_active r, au_admin = u_is_admin r\<rparr>"

section \<open>Collaborators outside the repository\<close>

record password_scheme =
  get_password_hash :: "string \<Rightarrow> string"
  verify_password :: "string \<Rightarrow> string \<Rightarrow> bool"

definition get_user_by_email :: "user_db \<Rightarrow> string \<Rightarrow> user_row option" where
  "get_user_by_email db e = find (\<lambda>r. u_email r = e) (users db)"

definition get_user_by_username :: "user_db \<Rightarrow> string \<Rightarrow> user_row option" where
  "get_user_by_username db n = find (\<lambda>r. u_username r = n) (users db)"

definition get_users :: "user_db \<Rightarrow> nat \<Rightarrow> nat \<Rightarrow> user_row list" where
  "get_users db n_skip n_limit = take n_limit (drop n_skip (users db))"

definition crud_get_user :: "user_db \<Rightarrow> string \<Rightarrow> py_exc + user_row option" where
  "crud_get_user db s =
     (case parse_uuid s of
        None \<Rightarrow> Inl (DB_Error ''badly formed hexadecimal UUID string'')
      | Some i \<Rightarrow> Inr (find (\<lambda>r. u_id r = i) (users db)))"

text \<open>
  The unique columns \<open>email\<close> and \<open>username\<close> of the users table: the
  message of the integrity error an insert of a row with this e-mail and
  user name raises, if any.
\<close>

definition user_unique_violation :: "user_row list \<Rightarrow> string \<Rightarrow> string \<Rightarrow> string option" where
  "user_unique_violation rs e n =
     (if list_ex (\<lambda>r. u_email r = e) rs
      then Some ''duplicate key value violates unique constraint ix_users_email''
      else if list_ex (\<lambda>r. u_username r = n) rs
      then Some ''duplicate key value violates unique constraint ix_users_username''
      else None)"

definition crud_create_user ::
  "password_scheme \<Rightarrow> timestamp \<Rightarrow> user_create \<Rightarrow> user_db \<Rightarrow> py_exc + user_row \<times> user_db" where
  "crud_create_user pw now uc db =
     (let r = \<lparr>u_id = next_user_id db, u_email = uc_email uc, u_username = uc_username uc,
               u_hashed_password = get_password_hash pw (uc_password uc),
               u_created_at = now, u_updated_at = None, u_is_active = True, u_is_admin = False\<rparr>
      in case user_unique_violation (users db) (uc_email uc) (uc_username uc) of
           Some m \<Rightarrow> Inl (DB_Error m)
         | None \<Rightarrow> Inr (r, db\<lparr>users := users db @ [r], next_user_id := Suc (next_user_id db)\<rparr>))"

section \<open>JSON Web Tokens (PyJWT)\<close>

text \<open>
  Claim values: strings, integers, and the datetimes the code puts into a
  payload, as seconds since the epoch.  \<open>jwt.encode\<close> turns a datetime
  under \<open>exp\<close>, \<open>iat\<close> or \<open>nbf\<close> into the integer \<open>timegm(d.utctimetuple())\<close>,
  the whole seconds of a naive datetime read as UTC.
\<close>

datatype claim = Claim_Str string | Claim_Int int | Claim_Datetime real

datatype jwt = JWT string string "(string \<times> claim) list" | JWT_Malformed string

fun numeric_date :: "string \<times> claim \<Rightarrow> string \<times> claim" where
  "numeric_date (k, Claim_Datetime d) =
     (if k \<in> {''exp'', ''iat'', ''nbf''} then (k, Claim_Int \<lfloor>d\<rfloor>) else (k, Claim_Datetime d))"
| "numeric_date kv = kv"

definition jwt_encode :: "(string \<times> claim) list \<Rightarrow> string \<Rightarrow> string \<Rightarrow> jwt" where
  "jwt_encode payload key alg = JWT key alg (map numeric_date payload)"

text \<open>
  \<open>jwt.decode(token, key, algorithms=algs)\<close> at the clock reading \<open>now\<close>:
  a token that does not parse, carries an algorithm outside \<open>algs\<close> or is
  not signed with \<open>key\<close> raises; an \<open>exp\<close> claim must be an integer and the
  token is expired once \<open>exp \<le> now\<close>; a subject must be a string
  (PyJWT 2.10).  Every failure is a \<open>PyJWTError\<close>, the value \<open>None\<close>.
\<close>

fun claim_ok :: "timestamp \<Rightarrow> string \<times> claim \<Rightarrow> bool" where
  "claim_ok now (k, v) =
     (if k = ''exp'' then (case v of Claim_Int e \<Rightarrow> now < real_of_int e | _ \<Rightarrow> False)
      else if k = ''sub'' then (case v of Claim_Str _ \<Rightarrow> True | _ \<Rightarrow> False)
      else True)"

definition jwt_decode :: "jwt \<Rightarrow> string \<Rightarrow> string list \<Rightarrow> timestamp \<Rightarrow> (string \<times> claim) list option" where
  "jwt_decode tok key algs now =
     (case tok of
        JWT_Malformed s \<Rightarrow> None
      | JWT k alg payload \<Rightarrow>
          if alg \<in> set algs \<and> k = key \<and> list_all (claim_ok now) payload then Some payload
          else None)"

section \<open>Token helpers (app/auth/auth.py)\<close>

text \<open>
  \<open>create_access_token\<close>: the payload with \<open>exp\<close> set to the clock reading
  plus the given lifetime; a missing or zero \<open>timedelta\<close> (falsy) means the
  default of \<open>JWT_ACCESS_TOKEN_EXPIRE_MINUTES\<close>.
\<close>

definition default_expire_seconds :: real where
  "default_expire_seconds = 60 * real JWT_ACCESS_TOKEN_EXPIRE_MINUTES"

definition create_access_token ::
  "string \<Rightarrow> (string \<times> claim) list \<Rightarrow> real option \<Rightarrow> timestamp \<Rightarrow> jwt" where
  "create_access_token key data expires_delta now =
     (let expire = (case expires_delta of
                      Some d \<Rightarrow> if d \<noteq> 0 then now + d else now + default_expire_seconds
                    | None \<Rightarrow> now + default_expire_seconds)
      in jwt_encode (dict_set ''exp'' (Claim_Datetime expire) data) key JWT_ALGORITHM)"

definition credentials_exception :: py_exc where
  "credentials_exception = HTTPException 401 ''Invalid authentication credentials''"

text \<open>
  \<open>get_current_user\<close>: decode the bearer token with the server's key, take
  its subject, and load the user with that UUID.  A decoding failure, a
  missing subject and an unknown user are the 401 \<open>credentials_exception\<close>;
  an error of the lookup itself (a subject that is not a UUID) is outside
  the \<open>try\<close> and escapes.
\<close>

definition get_current_user :: "string \<Rightarrow> user_db \<Rightarrow> timestamp \<Rightarrow> jwt \<Rightarrow> py_exc + auth_user" where
  "get_current_user key db now token =
     (case jwt_decode token key [JWT_ALGORITHM] now of
        None \<Rightarrow> Inl credentials_exception
      | Some payload \<Rightarrow>
          (case map_of payload ''sub'' of
             Some (Claim_Str user_id) \<Rightarrow>
               (case crud_get_user db user_id of
                  Inl e \<Rightarrow> Inl e
                | Inr None \<Rightarrow> Inl credentials_exception
                | Inr (Some user) \<Rightarrow> Inr (user_out user))
           | _ \<Rightarrow> Inl credentials_exception))"

text \<open>The dependency chain of a protected endpoint: the user, then the active check.\<close>

definition current_active_user :: "string \<Rightarrow> user_db \<Rightarrow> timestamp \<Rightarrow> jwt \<Rightarrow> py_exc + auth_user" where
  "current_active_user key db now token =
     (case get_current_user key db now token of
        Inl e \<Rightarrow> Inl e
      | Inr cu \<Rightarrow> get_current_active_user cu)"

section \<open>Endpoints (app/api/routes/auth.py, app/api/endpoints/auth.py)\<close>

record token_out =
  access_token :: jwt
  token_type :: string
  expires_at :: int

text \<open>
  The token response of both login endpoints and of the unmounted
  \<open>register\<close>: a token for the user's UUID with the default lifetime, and
  \<open>expires_at = int((datetime.utcnow() + delta).timestamp())\<close> from a second
  clock reading, where \<open>timestamp()\<close> reads the naive UTC datetime as local
  time and so subtracts the offset \<open>tz\<close>.
\<close>

definition issue_token :: "string \<Rightarrow> real \<Rightarrow> timestamp \<Rightarrow> timestamp \<Rightarrow> uuid \<Rightarrow> token_out" where
  "issue_token key tz now1 now2 uid =
     (let access_token_expires = default_expire_seconds;
          tok = create_access_token key [(''sub'', Claim_Str (py_str_int (int uid)))]
                  (Some access_token_expires) now1
      in \<lparr>access_token = tok, token_type = ''bearer'',
          expires_at = py_int (now2 + access_token_expires - tz)\<rparr>)"

definition incorrect_login :: py_exc where
  "incorrect_login = HTTPException 401 ''Incorrect email or password''"

definition login_for_access_token ::
  "password_scheme \<Rightarrow> string \<Rightarrow> real \<Rightarrow> timestamp \<Rightarrow> timestamp \<Rightarrow> string \<Rightarrow> string \<Rightarrow> user_db \<Rightarrow>
   py_exc + token_out" where
  "login_for_access_token pw key tz now1 now2 username password db =
     (case get_user_by_email db username of
        None \<Rightarrow> Inl incorrect_login
      | Some user \<Rightarrow>
          if \<not> verify_password pw password (u_hashed_password user) then Inl incorrect_login
          else Inr (issue_token key tz now1 now2 (u_id user)))"

text \<open>
  \<open>register_user\<close> (POST /api/auth/register): 400 for a registered e-mail,
  otherwise the insert, any exception of which becomes a 500 carrying its
  message.
\<close>

definition register_user ::
  "password_scheme \<Rightarrow> timestamp \<Rightarrow> user_create \<Rightarrow> user_db \<Rightarrow> (py_exc + auth_user) \<times> user_db" where
  "register_user pw now user_data db =
     (if get_user_by_email db (uc_email user_data) \<noteq> None
      then (Inl (HTTPException 400 ''Email already registered''), db)
      else (case crud_create_user pw now user_data db of
              Inl e \<Rightarrow> (Inl (HTTPException 500 (''Error registering user: '' @ exc_str e)), db)
            | Inr (db_user, db') \<Rightarrow> (Inr (user_out db_user), db')))"

text \<open>\<open>read_users_me\<close> (GET /api/auth/me) returns the current active user.\<close>

definition read_users_me :: "string \<Rightarrow> user_db \<Rightarrow> timestamp \<Rightarrow> jwt \<Rightarrow> auth_user response" where
  "read_users_me key db now token = to_response (current_active_user key db now token)"

text \<open>
  \<open>register\<close> of app/api/endpoints/auth.py: 409 for a registered e-mail;
  then \<open>DBUserCreate(email=..., username=..., password=...)\<close> builds the
  \<open>UserCreate\<close> of schemas/user.py, whose field limits raise a pydantic
  \<open>ValidationError\<close> before the insert (the request schema of this module
  re-declares \<open>username\<close> without them); no handler around the insert, and
  a token instead of the user.
\<close>

definition user_create_error :: string where
  "user_create_error = ''1 validation error for UserCreate''"

definition register ::
  "password_scheme \<Rightarrow> string \<Rightarrow> real \<Rightarrow> timestamp \<Rightarrow> timestamp \<Rightarrow> timestamp \<Rightarrow> user_create \<Rightarrow> user_db \<Rightarrow>
   (py_exc + token_out) \<times> user_db" where
  "register pw key tz now0 now1 now2 user db =
     (if get_user_by_email db (uc_email user) \<noteq> None
      then (Inl (HTTPException 409 ''Email already registered''), db)
      else if \<not> valid_user_create user then (Inl (Validation_Error user_create_error), db)
      else (case crud_create_user pw now0 user db of
              Inl e \<Rightarrow> (Inl e, db)
            | Inr (db_user, db') \<Rightarrow> (Inr (issue_token key tz now1 now2 (u_id db_user)), db')))"

text \<open>\<open>login_for_access_token\<close> of the unmounted app/api/endpoints/auth.py, written out as it stands there.\<close>

definition endpoints_login_for_access_token ::
  "password_scheme \<Rightarrow> string \<Rightarrow> real \<Rightarrow> timestamp \<Rightarrow> timestamp \<Rightarrow> string \<Rightarrow> string \<Rightarrow> user_db \<Rightarrow>
   py_exc + token_out" where
  "endpoints_login_for_access_token pw key tz now1 now2 username password db =
     (case get_user_by_email db username of
        None \<Rightarrow> Inl (HTTPException 401 ''Incorrect email or password'')
      | Some user \<Rightarrow>
          if \<not> verify_password pw password (u_hashed_password user)
          then Inl (HTTPException 401 ''Incorrect email or password'')
          else
            (let access_token_expires = default_expire_seconds;
                 access_token = create_access_token key [(''sub'', Claim_Str (py_str_int (int (u_id user))))]
                                  (Some access_token_expires) now1
             in Inr \<lparr>access_token = access_token, token_type = ''bearer'',
                     expires_at = py_int (now2 + access_token_expires - tz)\<rparr>))"

text \<open>
  The user-management endpoints of app/api/endpoints/users.py (a router
  that app/main.py does not mount): creation checks the e-mail and then the
  user name before the insert; reading a user answers 404 for an unknown id.
  \<open>update_user\<close> and \<open>delete_user\<close> only forward to CRUD functions whose
  code is not in the repository and are not modelled.
\<close>

definition create_user ::
  "password_scheme \<Rightarrow> timestamp \<Rightarrow> user_create \<Rightarrow> user_db \<Rightarrow> (py_exc + auth_user) \<times> user_db" where
  "create_user pw now user db =
     (if get_user_by_email db (uc_email user) \<noteq> None
      then (Inl (HTTPException 400 ''Email already registered''), db)
      else if get_user_by_username db (uc_username user) \<noteq> None
      then (Inl (HTTPException 400 ''Username already taken''), db)
      else (case crud_create_user pw now user db of
              Inl e \<Rightarrow> (Inl e, db)
            | Inr (db_user, db') \<Rightarrow> (Inr (user_out db_user), db')))"

definition read_users :: "nat \<Rightarrow> nat \<Rightarrow> user_db \<Rightarrow> auth_user list" where
  "read_users n_skip n_limit db = map user_out (get_users db n_skip n_limit)"

definition read_user :: "string \<Rightarrow> user_db \<Rightarrow> py_exc + auth_user" where
  "read_user user_id db =
     (case crud_get_user db user_id of
        Inl e \<Rightarrow> Inl e
      | Inr None \<Rightarrow> Inl (HTTPException 404 ''User not found'')
      | Inr (Some db_user) \<Rightarrow> Inr (user_out db_user))"

section \<open>The authentication router\<close>

text \<open>
  The requests of /api/auth as one datatype and the router that dispatches
  them (\<open>api_router.include_router(auth.router, prefix="/auth")\<close>).  A
  registration body that fails the field constraints is answered 422 by the
  framework before the endpoint runs; the two clock readings of a login are
  the same reading of the step.
\<close>

datatype auth_request = Auth_Register user_create | Auth_Login string string | Auth_Me jwt

datatype auth_reply = Reply_User auth_user | Reply_Token token_out

fun auth_route ::
  "password_scheme \<Rightarrow> string \<Rightarrow> real \<Rightarrow> timestamp \<Rightarrow> auth_request \<Rightarrow> user_db \<Rightarrow>
   auth_reply response \<times> user_db" where
  "auth_route pw key tz now (Auth_Register uc) db =
     (if \<not> valid_user_create uc then (Error_Response 422 ''Unprocessable Entity'', db)
      else (case register_user pw now uc db of (r, db') \<Rightarrow> (to_response (map_sum id Reply_User r), db')))"
| "auth_route pw key tz now (Auth_Login e p) db =
     (to_response (map_sum id Reply_Token (login_for_access_token pw key tz now now e p db)), db)"
| "auth_route pw key tz now (Auth_Me tok) db =
     (to_response (map_sum id Reply_User (current_active_user key db now tok)), db)"

inductive users_reachable :: "user_db \<Rightarrow> bool" where
  init: "users_reachable empty_user_db"
| step: "users_reachable db \<Longrightarrow> users_reachable (snd (auth_route pw key tz now req db))"

text \<open>
  A thread request under a bearer token: the dependency \<open>get_current_user\<close>
  runs first; its exception is the answer, otherwise the endpoint runs with
  the user it returned (\<open>thread_route\<close>, which applies the active check).
\<close>

definition authed_thread_route ::
  "rate_config \<Rightarrow> string \<Rightarrow> user_db \<Rightarrow> timestamp \<Rightarrow> jwt \<Rightarrow> thread_request \<Rightarrow> usage \<Rightarrow> store \<Rightarrow>
   int \<times> usage \<times> store" where
  "authed_thread_route cfg key db now token req u st =
     (case get_current_user key db now token of
        Inl e \<Rightarrow> (response_status (uncaught e :: unit response), u, st)
      | Inr cu \<Rightarrow> thread_route cfg now cu req u st)"

section \<open>Well-formed users table\<close>

definition users_wf :: "user_db \<Rightarrow> bool" where
  "users_wf db =
     (distinct (map u_id (users db)) \<and> distinct (map u_email (users db)) \<and>
      distinct (map u_username (users db)) \<and> list_all (\<lambda>r. u_id r < next_user_id db) (users db))"

text \<open>
  The field constraints of the user schemas hold for every stored account:
  the database column has no length limit, only the request validation
  of the registration body checks the user name.
\<close>

definition users_conform :: "user_db \<Rightarrow> bool" where
  "users_conform db =
     list_all (\<lambda>r. 3 \<le> length (u_username r) \<and> length (u_username r) \<le> 50) (users db)"

section \<open>Lemmas\<close>

lemma default_expire_seconds_val [simp]: "default_expire_seconds = 1800"
  by (simp add: default_expire_seconds_def JWT_ACCESS_TOKEN_EXPIRE_MINUTES_def)

text \<open>The token a login issues: the subject and the whole-second expiry.\<close>

lemma issue_token_token:
  "access_token (issue_token key tz now1 now2 uid) =
   JWT key JWT_ALGORITHM [(''sub'', Claim_Str (py_str_int (int uid))), (''exp'', Claim_Int \<lfloor>now1 + 1800\<rfloor>)]"
  by (simp add: issue_token_def create_access_token_def jwt_encode_def)

lemma issue_token_expires_at:
  "expires_at (issue_token key tz now1 now2 uid) = py_int (now2 + 1800 - tz)"
  by (simp add: issue_token_def)

lemma get_user_by_email_SomeD:
  "get_user_by_email db e = Some r \<Longrightarrow> r \<in> set (users db) \<and> u_email r = e"
  by (auto simp: get_user_by_email_def find_Some_iff)

lemma get_user_str:
  "users_wf db \<Longrightarrow> r \<in> set (users db) \<Longrightarrow> crud_get_user db (py_str_int (int (u_id r))) = Inr (Some r)"
  by (simp add: crud_get_user_def users_wf_def find_distinct_key)

lemma get_current_user_issued:
  assumes "users_wf db" "r \<in> set (users db)"
  shows "get_current_user key db t (access_token (issue_token key tz now1 now2 (u_id r))) =
    (if real_of_int \<lfloor>now1 + 1800\<rfloor> \<le> t then Inl credentials_exception else Inr (user_out r))"
  using get_user_str [OF assms]
  by (simp add: issue_token_token get_current_user_def jwt_decode_def JWT_ALGORITHM_def not_le)

lemma login_succeeds:
  "get_user_by_email db e = Some r \<Longrightarrow> verify_password pw p (u_hashed_password r) \<Longrightarrow>
   login_for_access_token pw key tz now1 now2 e p db = Inr (issue_token key tz now1 now2 (u_id r))"
  by (simp add: login_for_access_token_def)

lemma get_current_user_unsigned:
  "(\<forall>p. token \<noteq> JWT key JWT_ALGORITHM p) \<Longrightarrow> get_current_user key db now token = Inl credentials_exception"
  by (cases token) (auto simp: get_current_user_def jwt_decode_def JWT_ALGORITHM_def)

lemma crud_create_user_wf:
  assumes "users_wf db" "crud_create_user pw now uc db = Inr (r, db')"
  shows "users_wf db'"
proof -
  have new: "\<not> list_ex (\<lambda>r'. u_email r' = uc_email uc) (users db)"
            "\<not> list_ex (\<lambda>r'. u_username r' = uc_username uc) (users db)"
    and db': "db' = db\<lparr>users := users db @ [r], next_user_id := Suc (next_user_id db)\<rparr>"
    and r: "u_id r = next_user_id db" "u_email r = uc_email uc" "u_username r = uc_username uc"
    using assms(2) by (auto simp: crud_create_user_def user_unique_violation_def Let_def split: if_splits)
  have "u_id r \<notin> set (map u_id (users db))"
    using assms(1) r(1) by (auto simp: users_wf_def list_all_iff)
  with new assms(1) show ?thesis
    by (auto simp: users_wf_def db' r list_ex_iff list_all_iff)
qed

lemma users_wf_empty [simp]: "users_wf empty_user_db"
  and users_conform_empty [simp]: "users_conform empty_user_db"
  and users_empty_user_db [simp]: "users empty_user_db = []"
  by (simp_all add: users_wf_def users_conform_def empty_user_db_def)

lemma register_user_wf:
  "users_wf db \<Longrightarrow> users_wf (snd (register_user pw now uc db))"
  by (auto simp: register_user_def crud_create_user_wf split: sum.splits)

lemma auth_route_conform:
  "users_conform db \<Longrightarrow> users_conform (snd (auth_route pw key tz now req db))"
  by (cases req)
     (auto simp: users_conform_def valid_user_create_def register_user_def crud_create_user_def Let_def
        split: prod.splits sum.splits option.splits if_splits)

lemma auth_route_wf:
  "users_wf db \<Longrightarrow> users_wf (snd (auth_route pw key tz now req db))"
  using register_user_wf [of db pw now] by (cases req) (auto split: prod.splits, metis snd_conv)

lemma login_InrD:
  "login_for_access_token pw key tz now1 now2 e p db = Inr tok \<Longrightarrow>
   \<exists>r. get_user_by_email db e = Some r \<and> verify_password pw p (u_hashed_password r) \<and>
       tok = issue_token key tz now1 now2 (u_id r)"
  by (auto simp: login_for_access_token_def split: option.splits if_splits)

lemma jwt_decode_expired:
  "map_of p ''exp'' = Some (Claim_Int e) \<Longrightarrow> real_of_int e \<le> now \<Longrightarrow> jwt_decode (JWT k a p) key algs now = None"
proof -
  assume "map_of p ''exp'' = Some (Claim_Int e)" "real_of_int e \<le> now"
  then have "(''exp'', Claim_Int e) \<in> set p" "\<not> claim_ok now (''exp'', Claim_Int e)"
    by (auto dest: map_of_SomeD)
  then have "\<not> list_all (claim_ok now) p" by (auto simp: list_all_iff simp del: claim_ok.simps)
  then show ?thesis by (simp add: jwt_decode_def)
qed

lemma get_current_user_decode_None:
  "jwt_decode token key [JWT_ALGORITHM] now = None \<Longrightarrow> get_current_user key db now token = Inl credentials_exception"
  by (simp add: get_current_user_def)

lemma authed_thread_route_Inl:
  "get_current_user key db now token = Inl credentials_exception \<Longrightarrow>
   authed_thread_route cfg key db now token req u st = (401, u, st)"
  by (simp add: authed_thread_route_def credentials_exception_def)

lemma authed_thread_route_Inr:
  "get_current_user key db now token = Inr cu \<Longrightarrow>
   authed_thread_route cfg key db now token req u st = thread_route cfg now cu req u st"
  by (simp add: authed_thread_route_def)

text \<open>A token that names a user and carries no expiry, signed with the server's key, acts as that user.\<close>

lemma signed_sub_token_acts_as_user:
  assumes "users_wf db" "r \<in> set (users db)"
  shows "authed_thread_route cfg key db now
           (JWT key ''HS256'' [(''sub'', Claim_Str (py_str_int (int (u_id r))))]) req u st =
         thread_route cfg now (user_out r) req u st"
proof (rule authed_thread_route_Inr)
  show "get_current_user key db now (JWT key ''HS256'' [(''sub'', Claim_Str (py_str_int (int (u_id r))))]) =
        Inr (user_out r)"
    using get_user_str [OF assms] by (simp add: get_current_user_def jwt_decode_def JWT_ALGORITHM_def)
qed

text \<open>The two login endpoints agree; of the duplicate modules only registration differs.\<close>

lemma endpoints_login_agrees:
  "endpoints_login_for_access_token pw key tz now1 now2 username password db =
   login_for_access_token pw key tz now1 now2 username password db"
  by (simp add: endpoints_login_for_access_token_def login_for_access_token_def issue_token_def
      incorrect_login_def Let_def split: option.splits)

lemma issued_token_decode:
  "jwt_decode (access_token (issue_token key tz now1 now2 uid)) key [JWT_ALGORITHM] t \<noteq> None \<longleftrightarrow>
   t < real_of_int \<lfloor>now1\<rfloor> + 1800"
  by (simp add: issue_token_token jwt_decode_def JWT_ALGORITHM_def)

section \<open>Scenarios\<close>

text \<open>A stand-in password scheme (the hash is the reversed password) and a users table holding one account.\<close>

definition demo_pw :: password_scheme where
  "demo_pw = \<lparr>get_password_hash = rev, verify_password = (\<lambda>p h. rev p = h)\<rparr>"

definition alice_signup :: user_create where
  "alice_signup = \<lparr>uc_email = ''alice@example.com'', uc_username = ''alice'', uc_password = ''password1''\<rparr>"

text \<open>A second sign-up that reuses the user name.\<close>

definition bob_signup :: user_create where
  "bob_signup = \<lparr>uc_email = ''bob@example.com'', uc_username = ''alice'', uc_password = ''password2''\<rparr>"

definition demo_users :: user_db where
  "demo_users = snd (auth_route demo_pw ''k'' 0 10 (Auth_Register alice_signup) empty_user_db)"

definition alice_row :: user_row where
  "alice_row = \<lparr>u_id = 0, u_email = ''alice@example.com'', u_username = ''alice'',
     u_hashed_password = ''1drowssap'', u_created_at = 10, u_updated_at = None,
     u_is_active = True, u_is_admin = False\<rparr>"

lemma demo_users_val:
  "demo_users = \<lparr>users = [alice_row], next_user_id = 1\<rparr>"
  by (simp add: demo_users_def alice_signup_def alice_row_def demo_pw_def valid_user_create_def
      register_user_def crud_create_user_def user_unique_violation_def get_user_by_email_def empty_user_db_def Let_def)

lemma demo_users_wf: "users_wf demo_users"
  by (simp add: demo_users_val users_wf_def alice_row_def)

lemma crud_create_user_fresh:
  assumes "\<not> list_ex (\<lambda>r. u_email r = uc_email uc) (users db)"
    and "\<not> list_ex (\<lambda>r. u_username r = uc_username uc) (users db)"
  obtains r where "crud_create_user pw now uc db = Inr (r, db\<lparr>users := users db @ [r], next_user_id := Suc (next_user_id db)\<rparr>)"
    and "u_id r = next_user_id db" "u_email r = uc_email uc" "u_username r = uc_username uc"
    and "u_hashed_password r = get_password_hash pw (uc_password uc)" "u_is_active r" "\<not> u_is_admin r"
    and "get_user_by_email (db\<lparr>users := users db @ [r], next_user_id := Suc (next_user_id db)\<rparr>) (uc_email uc) = Some r"
proof -
  have "find (\<lambda>r. u_email r = uc_email uc) (users db) = None"
    using assms(1) by (simp add: find_None_iff list_ex_iff)
  then show ?thesis using assms that
    by (simp add: crud_create_user_def user_unique_violation_def Let_def get_user_by_email_def)
qed

section \<open>Properties\<close>

text \<open>
  C11: Registration, login and the identity endpoint fit together: a valid
  registration with an unused e-mail and user name, under a password
  scheme whose hash verifies, creates an active non-admin account; logging
  in with its e-mail and password issues a token and writes nothing; and
  GET /api/auth/me with that token returns the registered user until the
  token's whole-second expiry, 30 minutes after the login, and 401 from then on.
\<close>

theorem register_login_me_roundtrip:
  assumes "users_wf db" "valid_user_create uc"
    and "\<not> list_ex (\<lambda>r. u_email r = uc_email uc) (users db)"
    and "\<not> list_ex (\<lambda>r. u_username r = uc_username uc) (users db)"
    and "verify_password pw (uc_password uc) (get_password_hash pw (uc_password uc))"
  shows "\<exists>cu tok db'.
    auth_route pw key tz now (Auth_Register uc) db = (Response (Reply_User cu), db') \<and>
    au_email cu = uc_email uc \<and> au_name cu = uc_username uc \<and> au_active cu \<and> \<not> au_admin cu \<and>
    auth_route pw key tz now' (Auth_Login (uc_email uc) (uc_password uc)) db' =
      (Response (Reply_Token tok), db') \<and>
    (\<forall>t. auth_route pw key tz t (Auth_Me (access_token tok)) db' =
       (if real_of_int \<lfloor>now'\<rfloor> + 1800 \<le> t
        then (Error_Response 401 ''Invalid authentication credentials'', db')
        else (Response (Reply_User cu), db')))"
proof -
  obtain r where cr: "crud_create_user pw now uc db = Inr (r, db\<lparr>users := users db @ [r], next_user_id := Suc (next_user_id db)\<rparr>)"
    and fields: "u_email r = uc_email uc" "u_username r = uc_username uc"
       "u_hashed_password r = get_password_hash pw (uc_password uc)" "u_is_active r" "\<not> u_is_admin r"
    and email: "get_user_by_email (db\<lparr>users := users db @ [r], next_user_id := Suc (next_user_id db)\<rparr>) (uc_email uc) = Some r"
    using crud_create_user_fresh [OF assms(3,4)] by metis
  define db' where "db' = db\<lparr>users := users db @ [r], next_user_id := Suc (next_user_id db)\<rparr>"
  have wf': "users_wf db'" using crud_create_user_wf [OF assms(1) cr] by (simp add: db'_def)
  have mem: "r \<in> set (users db')" by (simp add: db'_def)
  have none: "get_user_by_email db (uc_email uc) = None"
    using assms(3) by (simp add: get_user_by_email_def find_None_iff list_ex_iff)
  have reg: "auth_route pw key tz now (Auth_Register uc) db = (Response (Reply_User (user_out r)), db')"
    using assms(2) none cr by (simp add: register_user_def to_response_def db'_def)
  have login: "auth_route pw key tz now' (Auth_Login (uc_email uc) (uc_password uc)) db' =
      (Response (Reply_Token (issue_token key tz now' now' (u_id r))), db')"
    using login_succeeds [of db' "uc_email uc" r pw "uc_password uc"] email fields(3) assms(5)
    by (simp add: db'_def to_response_def)
  have me: "auth_route pw key tz t (Auth_Me (access_token (issue_token key tz now' now' (u_id r)))) db' =
       (if real_of_int \<lfloor>now'\<rfloor> + 1800 \<le> t
        then (Error_Response 401 ''Invalid authentication credentials'', db')
        else (Response (Reply_User (user_out r)), db'))" for t
    using get_current_user_issued [OF wf' mem, of key t tz now' now'] fields(4)
    by (simp add: current_active_user_def get_current_active_user_def user_out_def to_response_def
        credentials_exception_def)
  show ?thesis
    using reg login me fields by (intro exI [of _ "user_out r"]) (auto simp: user_out_def)
qed

theorem register_login_me_roundtrip_witness:
  "\<exists>cu tok db'.
    auth_route demo_pw ''k'' 0 10 (Auth_Register alice_signup) empty_user_db = (Response (Reply_User cu), db') \<and>
    au_email cu = ''alice@example.com'' \<and> au_name cu = ''alice'' \<and> au_active cu \<and> \<not> au_admin cu \<and>
    auth_route demo_pw ''k'' 0 20 (Auth_Login ''alice@example.com'' ''password1'') db' =
      (Response (Reply_Token tok), db') \<and>
    (\<forall>t. auth_route demo_pw ''k'' 0 t (Auth_Me (access_token tok)) db' =
       (if real_of_int \<lfloor>20::real\<rfloor> + 1800 \<le> t
        then (Error_Response 401 ''Invalid authentication credentials'', db')
        else (Response (Reply_User cu), db')))"
  using register_login_me_roundtrip [of empty_user_db alice_signup demo_pw "''k''" 0 10 20]
  by (simp add: alice_signup_def demo_pw_def valid_user_create_def)

text \<open>
  C12: Tokens are checked before any endpoint work: a thread request whose
  bearer token was not signed with the server's key and HS256 (a string
  that does not decode, or a token signed under any other key or
  algorithm), or whose \<open>exp\<close> has passed, is answered 401 and leaves the
  usage dictionary and the store unchanged.
\<close>

theorem forged_or_expired_token_rejected:
  assumes "(\<forall>p. token \<noteq> JWT key JWT_ALGORITHM p) \<or>
    (\<exists>p e. token = JWT key JWT_ALGORITHM p \<and> map_of p ''exp'' = Some (Claim_Int e) \<and> real_of_int e \<le> now)"
  shows "authed_thread_route cfg key db now token req u st = (401, u, st)"
  using assms
proof
  assume "\<forall>p. token \<noteq> JWT key JWT_ALGORITHM p"
  then show ?thesis by (intro authed_thread_route_Inl get_current_user_unsigned)
next
  assume "\<exists>p e. token = JWT key JWT_ALGORITHM p \<and> map_of p ''exp'' = Some (Claim_Int e) \<and> real_of_int e \<le> now"
  then show ?thesis
    by (auto intro: authed_thread_route_Inl get_current_user_decode_None jwt_decode_expired)
qed

theorem forged_or_expired_token_rejected_witness:
  "authed_thread_route default_rate_config ''k'' demo_users 5
     (JWT ''guess'' ''HS256'' [(''sub'', Claim_Str ''0'')]) Req_List (initial_usage 0) empty_store =
   (401, initial_usage 0, empty_store)"
  by (rule forged_or_expired_token_rejected) (simp add: JWT_ALGORITHM_def)

text \<open>
  C13: When JWT_SECRET_KEY is not set, the key is the constant written in
  settings.py, and anyone who reads the source can sign a token with it:
  a token naming a user's UUID as subject, without an expiry, makes every
  thread request act as that user, at any time.
\<close>

theorem default_key_forges_any_user:
  assumes "users_wf db" "r \<in> set (users db)"
  shows "authed_thread_route cfg (jwt_secret_key None) db now
           (JWT default_jwt_secret_key ''HS256'' [(''sub'', Claim_Str (py_str_int (int (u_id r))))]) req u st =
         thread_route cfg now (user_out r) req u st"
  using signed_sub_token_acts_as_user [OF assms, of cfg default_jwt_secret_key]
  by (simp add: jwt_secret_key_def)

theorem default_key_forges_any_user_witness:
  "authed_thread_route default_rate_config (jwt_secret_key None) demo_users 1000000
     (JWT default_jwt_secret_key ''HS256'' [(''sub'', Claim_Str (py_str_int (int (u_id alice_row))))])
     Req_List (initial_usage 0) empty_store =
   thread_route default_rate_config 1000000 (user_out alice_row) Req_List (initial_usage 0) empty_store"
  by (rule default_key_forges_any_user) (simp_all add: demo_users_wf, simp add: demo_users_val)

text \<open>
  C17: The \<open>expires_at\<close> a login reports is not the token's expiry on a
  server whose local time is not UTC: the token is accepted exactly until
  the whole second \<open>\<lfloor>t\<rfloor> + 1800\<close> after the login at \<open>t\<close>, while
  \<open>expires_at\<close> is that instant minus the offset \<open>z\<close> of the local zone
  (both clock readings in the same second).
\<close>

theorem login_expires_at_shifted_by_utc_offset:
  assumes "login_for_access_token pw key (real_of_int z) t t e p db = Inr tok"
    and "real_of_int z \<le> t + 1800"
  shows "(\<forall>t'. jwt_decode (access_token tok) key [JWT_ALGORITHM] t' \<noteq> None \<longleftrightarrow>
              t' < real_of_int (\<lfloor>t\<rfloor> + 1800)) \<and>
         expires_at tok = \<lfloor>t\<rfloor> + 1800 - z"
proof -
  obtain r :: user_row where tok: "tok = issue_token key (real_of_int z) t t (u_id r)"
    using login_InrD [OF assms(1)] by metis
  have "\<lfloor>t + 1800 - real_of_int z\<rfloor> = \<lfloor>t\<rfloor> + 1800 - z"
    by (metis floor_add_int floor_diff_of_int of_int_numeral)
  moreover have "jwt_decode (access_token tok) key [JWT_ALGORITHM] t' \<noteq> None \<longleftrightarrow>
      t' < real_of_int (\<lfloor>t\<rfloor> + 1800)" for t'
    unfolding tok issued_token_decode by simp
  ultimately show ?thesis
    using assms(2) by (simp add: tok issue_token_expires_at)
qed

theorem login_expires_at_shifted_by_utc_offset_witness:
  "(\<forall>t'. jwt_decode (access_token (issue_token ''k'' 3600 1700000000 1700000000 0)) ''k'' [JWT_ALGORITHM] t' \<noteq> None \<longleftrightarrow>
        t' < 1700001800) \<and>
   expires_at (issue_token ''k'' 3600 1700000000 1700000000 0) = 1699998200"
  using login_expires_at_shifted_by_utc_offset
          [of demo_pw "''k''" 3600 1700000000 "''alice@example.com''" "''password1''" demo_users
              "issue_token ''k'' 3600 1700000000 1700000000 0"]
  by (simp add: login_for_access_token_def demo_users_val get_user_by_email_def alice_row_def demo_pw_def)

text \<open>
  C15: Every users table the authentication endpoints can produce from an
  empty one, under any password scheme, key, clock and sequence of
  requests, has distinct user ids, e-mails and user names, every id is
  below the next one to be issued, and every user name has the 3 to 50
  characters the user schema requires (a constraint only the request
  validation enforces).
\<close>

theorem users_reachable_wf:
  "users_reachable db \<Longrightarrow> users_wf db \<and> users_conform db"
  by (induction rule: users_reachable.induct) (simp_all add: auth_route_wf auth_route_conform)

theorem users_reachable_wf_witness:
  "users_reachable demo_users \<and> users_wf demo_users \<and> users_conform demo_users"
proof -
  have r: "users_reachable demo_users"
    unfolding demo_users_def by (rule users_reachable.step [OF users_reachable.init])
  show ?thesis using r users_reachable_wf [OF r] by simp
qed

text \<open>
  C16: Registration errors: on POST /api/auth/register a valid body whose
  e-mail is registered is answered 400; one whose e-mail is new but whose
  user name is taken reaches the insert, violates the unique user-name
  column and is answered 500 with the database message; neither changes the
  table.  Of the unmounted routers, \<open>register\<close> (app/api/endpoints/auth.py)
  answers the registered e-mail with 409 instead, and \<open>create_user\<close>
  (app/api/endpoints/users.py) checks the user name before the insert and
  answers a taken one with 400.
\<close>

theorem register_error_paths:
  assumes "valid_user_create uc"
  shows "(list_ex (\<lambda>r. u_email r = uc_email uc) (users db) \<longrightarrow>
      auth_route pw key tz now (Auth_Register uc) db =
        (Error_Response 400 ''Email already registered'', db) \<and>
      fst (register pw key tz now now now uc db) = Inl (HTTPException 409 ''Email already registered'')) \<and>
    (\<not> list_ex (\<lambda>r. u_email r = uc_email uc) (users db) \<and>
     list_ex (\<lambda>r. u_username r = uc_username uc) (users db) \<longrightarrow>
      auth_route pw key tz now (Auth_Register uc) db =
        (Error_Response 500
          ''Error registering user: duplicate key value violates unique constraint ix_users_username'', db) \<and>
      create_user pw now uc db = (Inl (HTTPException 400 ''Username already taken''), db))"
proof -
  have taken: "get_user_by_email db (uc_email uc) \<noteq> None \<longleftrightarrow> list_ex (\<lambda>r. u_email r = uc_email uc) (users db)"
    by (auto simp: get_user_by_email_def find_None_iff list_ex_iff)
  have name: "get_user_by_username db (uc_username uc) \<noteq> None \<longleftrightarrow> list_ex (\<lambda>r. u_username r = uc_username uc) (users db)"
    by (auto simp: get_user_by_username_def find_None_iff list_ex_iff)
  show ?thesis
    using assms taken name
    by (auto simp: register_user_def register_def create_user_def crud_create_user_def user_unique_violation_def Let_def to_response_def)
qed

theorem register_error_paths_witness:
  "auth_route demo_pw ''k'' 0 20 (Auth_Register bob_signup) demo_users =
     (Error_Response 500
       ''Error registering user: duplicate key value violates unique constraint ix_users_username'', demo_users) \<and>
   auth_route demo_pw ''k'' 0 20 (Auth_Register alice_signup) demo_users =
     (Error_Response 400 ''Email already registered'', demo_users)"
  using register_error_paths [of bob_signup "demo_users" demo_pw "''k''" 0 20]
        register_error_paths [of alice_signup "demo_users" demo_pw "''k''" 0 20]
  by (simp add: bob_signup_def alice_signup_def valid_user_create_def demo_users_val alice_row_def)

text \<open>
  C14: A token obtained by logging in stands for the account that logged in:
  until its whole-second expiry 30 minutes after the login, every thread
  request carrying it behaves exactly as the endpoint called by that user
  (the authenticated user the server model's requests carry), and from then
  on it is answered 401 with nothing changed.
\<close>

theorem login_token_acts_as_user:
  assumes "users_wf db" "login_for_access_token pw key tz now1 now2 e p db = Inr tok"
  shows "\<exists>r. get_user_by_email db e = Some r \<and>
    (\<forall>t req u st. authed_thread_route cfg key db t (access_token tok) req u st =
       (if real_of_int \<lfloor>now1\<rfloor> + 1800 \<le> t then (401, u, st) else thread_route cfg t (user_out r) req u st))"
proof -
  obtain r :: user_row where r: "get_user_by_email db e = Some r" and tok: "tok = issue_token key tz now1 now2 (u_id r)"
    using login_InrD [OF assms(2)] by metis
  have mem: "r \<in> set (users db)" using get_user_by_email_SomeD [OF r] by simp
  have "authed_thread_route cfg key db t (access_token tok) req u st =
       (if real_of_int \<lfloor>now1\<rfloor> + 1800 \<le> t then (401, u, st) else thread_route cfg t (user_out r) req u st)"
    for t req u st
    using get_current_user_issued [OF assms(1) mem, of key t tz now1 now2]
    by (simp add: tok authed_thread_route_def credentials_exception_def)
  with r show ?thesis by blast
qed

theorem login_token_acts_as_user_witness:
  "\<exists>r. get_user_by_email demo_users ''alice@example.com'' = Some r \<and>
    (\<forall>t req u st. authed_thread_route default_rate_config ''k'' demo_users t
        (access_token (issue_token ''k'' 0 10 10 0)) req u st =
       (if real_of_int \<lfloor>10::real\<rfloor> + 1800 \<le> t then (401, u, st)
        else thread_route default_rate_config t (user_out r) req u st))"
  using login_token_acts_as_user [OF demo_users_wf,
          of demo_pw "''k''" 0 10 10 "''alice@example.com''" "''password1''" "issue_token ''k'' 0 10 10 0"]
  by (simp add: login_for_access_token_def demo_users_val get_user_by_email_def alice_row_def demo_pw_def)

end
