(* ===== verification/Monitor.thy ===== *)
theory Monitor
  imports FileService
begin

text \<open>
  The decisions of the free-tier monitor \<open>monitor_free_tier.py\<close>: which
  AWS resources it reports on, the usage figures it computes from the AWS
  responses and the verdict it prints for each (the AWS client calls are
  inputs: the responses are the arguments).  A report is the list of the
  values the script prints, in order, with the verdict of each check as a
  datatype; the decorations and number formats of the printed lines are
  not modelled.  Dates follow CPython's \<open>datetime\<close>: the proleptic
  Gregorian ordinal of \<open>_ymd2ord\<close> and the difference of two datetimes in
  seconds.
\<close>

section \<open>Python helpers\<close>

text \<open>\<open>sub in s\<close> for strings.\<close>

fun py_contains :: "string \<Rightarrow> string \<Rightarrow> bool" where
  "py_contains sub [] = (sub = [])"
| "py_contains sub (c # cs) = (take (length sub) (c # cs) = sub \<or> py_contains sub cs)"

text \<open>\<open>s.split("/")[-1]\<close>: the text after the last slash.\<close>

definition last_segment :: "string \<Rightarrow> string" where
  "last_segment s = rev (takeWhile (\<lambda>c. c \<noteq> CHR ''/'') (rev s))"

section \<open>Calendar (CPython datetime)\<close>

record cal_datetime =
  dt_year :: int
  dt_month :: nat
  dt_day :: nat
  dt_hour :: nat
  dt_minute :: nat
  dt_second :: nat
  dt_microsecond :: nat

definition is_leap :: "int \<Rightarrow> bool" where
  "is_leap y = (if y mod 400 = 0 then True else if y mod 100 = 0 then False else y mod 4 = 0)"

definition days_in_month :: "int \<Rightarrow> nat \<Rightarrow> nat" where
  "days_in_month y m =
     (if m = 2 \<and> is_leap y then 29 else [31, 28, 31, 30, 31, 30, 31, 31, 30, 31, 30, 31] ! (m - 1))"

definition days_before_month :: "int \<Rightarrow> nat \<Rightarrow> nat" where
  "days_before_month y m =
     [0, 31, 59, 90, 120, 151, 181, 212, 243, 273, 304, 334] ! (m - 1) + (if m > 2 \<and> is_leap y then 1 else 0)"

definition days_before_year :: "int \<Rightarrow> int" where
  "days_before_year year = (let y = year - 1 in y * 365 + y div 4 - y div 100 + y div 400)"

definition ymd2ord :: "int \<Rightarrow> nat \<Rightarrow> nat \<Rightarrow> int" where
  "ymd2ord y m d = days_before_year y + int (days_before_month y m) + int d"

text \<open>Seconds since the proleptic epoch; a difference of two datetimes is a difference of these.\<close>

definition dt_seconds :: "cal_datetime \<Rightarrow> real" where
  "dt_seconds dt =
     real_of_int (ymd2ord (dt_year dt) (dt_month dt) (dt_day dt)) * 86400 +
     real (dt_hour dt) * 3600 + real (dt_minute dt) * 60 + real (dt_second dt) +
     real (dt_microsecond dt) / 1000000"

definition cal_valid :: "cal_datetime \<Rightarrow> bool" where
  "cal_valid dt =
     (1 \<le> dt_month dt \<and> dt_month dt \<le> 12 \<and> 1 \<le> dt_day dt \<and>
      dt_day dt \<le> days_in_month (dt_year dt) (dt_month dt) \<and> dt_hour dt < 24 \<and>
      dt_minute dt < 60 \<and> dt_second dt < 60 \<and> dt_microsecond dt < 1000000)"

text \<open>\<open>now.replace(day=1, hour=0, minute=0, second=0, microsecond=0)\<close>.\<close>

definition start_of_month :: "cal_datetime \<Rightarrow> cal_datetime" where
  "start_of_month now =
     now\<lparr>dt_day := 1, dt_hour := 0, dt_minute := 0, dt_second := 0, dt_microsecond := 0\<rparr>"

section \<open>AWS responses\<close>

record ecs_service =
  svc_arn :: string
  desired_count :: int
  running_count :: int
  svc_status :: string
  task_cpu :: string
  task_memory :: string

record ecs_cluster =
  cluster_arn :: string
  cluster_services :: "ecs_service list"

record ecr_repository =
  repository_name :: string
  repository_size_bytes :: "nat option"

record load_balancer =
  lb_name :: string
  lb_state :: string
  lb_scheme :: string
  lb_created :: cal_datetime

record log_group =
  log_group_name :: string
  stored_bytes :: "nat option"

section \<open>Checks\<close>

datatype verdict = Exceeds | Within

text \<open>\<open>"ai-chat" in name.lower()\<close>, the filter of every check.\<close>

definition is_ai_chat :: "string \<Rightarrow> bool" where
  "is_ai_chat name = py_contains ''ai-chat'' (py_lower name)"

text \<open>ECS: each service's running tasks for 24 hours a day over 30 days, against 750 hours.\<close>

definition estimated_monthly_hours :: "ecs_service \<Rightarrow> int" where
  "estimated_monthly_hours s = running_count s * 24 * 30"

record ecs_service_report =
  esr_name :: string
  esr_desired :: int
  esr_running :: int
  esr_status :: string
  esr_cpu :: string
  esr_memory :: string
  esr_hours :: int
  esr_verdict :: verdict

definition ecs_service_report :: "ecs_service \<Rightarrow> ecs_service_report" where
  "ecs_service_report s =
     \<lparr>esr_name = last_segment (svc_arn s), esr_desired = desired_count s, esr_running = running_count s,
      esr_status = svc_status s, esr_cpu = task_cpu s, esr_memory = task_memory s,
      esr_hours = estimated_monthly_hours s,
      esr_verdict = (if estimated_monthly_hours s > 750 then Exceeds else Within)\<rparr>"

definition check_ecs_usage :: "ecs_cluster list \<Rightarrow> (string \<times> ecs_service_report list) list option" where
  "check_ecs_usage clusters =
     (let ai_chat_clusters = filter (\<lambda>c. is_ai_chat (cluster_arn c)) clusters
      in if ai_chat_clusters = [] then None
         else Some (map (\<lambda>c. (last_segment (cluster_arn c), map ecs_service_report (cluster_services c)))
                      ai_chat_clusters))"

text \<open>ECR: the sizes of the repositories in MB, their total, against 500 MB.\<close>

definition repo_size_mb :: "ecr_repository \<Rightarrow> real" where
  "repo_size_mb r = real (case repository_size_bytes r of None \<Rightarrow> 0 | Some b \<Rightarrow> b) / (1024 * 1024)"

datatype storage_verdict = Storage_Exceeds | Storage_Remaining real

definition check_ecr_usage ::
  "ecr_repository list \<Rightarrow> ((string \<times> real) list \<times> real \<times> storage_verdict) option" where
  "check_ecr_usage repos =
     (let ai_chat_repos = filter (\<lambda>r. is_ai_chat (repository_name r)) repos;
          total_size_mb = sum_list (map repo_size_mb ai_chat_repos)
      in if ai_chat_repos = [] then None
         else Some (map (\<lambda>r. (repository_name r, repo_size_mb r)) ai_chat_repos, total_size_mb,
                    if total_size_mb > 500 then Storage_Exceeds else Storage_Remaining (500 - total_size_mb)))"

text \<open>
  ALB: the hours of the current month the balancer has existed, from the
  start of the month or from its creation if that is later, against 750.
\<close>

definition hours_this_month :: "cal_datetime \<Rightarrow> cal_datetime \<Rightarrow> real" where
  "hours_this_month now created =
     (let som = start_of_month now
      in if dt_seconds created < dt_seconds som then (dt_seconds now - dt_seconds som) / 3600
         else (dt_seconds now - dt_seconds created) / 3600)"

definition check_alb_usage ::
  "cal_datetime \<Rightarrow> load_balancer list \<Rightarrow> (string \<times> string \<times> string \<times> real \<times> verdict) list option" where
  "check_alb_usage now lbs =
     (let ai_chat_albs = filter (\<lambda>lb. is_ai_chat (lb_name lb)) lbs
      in if ai_chat_albs = [] then None
         else Some (map (\<lambda>lb. let h = hours_this_month now (lb_created lb)
                              in (lb_name lb, lb_state lb, lb_scheme lb, h, if h > 750 then Exceeds else Within))
                      ai_chat_albs))"

text \<open>CloudWatch: the stored megabytes of the log groups under the prefix /ecs/ai-chat and their total.\<close>

definition log_group_mb :: "log_group \<Rightarrow> real" where
  "log_group_mb g = real (case stored_bytes g of None \<Rightarrow> 0 | Some b \<Rightarrow> b) / (1024 * 1024)"

definition check_cloudwatch_logs :: "log_group list \<Rightarrow> ((string \<times> real) list \<times> real) option" where
  "check_cloudwatch_logs groups =
     (if groups = [] then None
      else Some (map (\<lambda>g. (log_group_name g, log_group_mb g)) groups, sum_list (map log_group_mb groups)))"

text \<open>
  Cost Explorer: the cost of each service, a later group of the same
  service replacing an earlier one, and the summary over them.
\<close>

definition services_cost :: "(string \<times> real) list \<Rightarrow> (string \<times> real) list" where
  "services_cost groups = fold (\<lambda>(name, cost) d. dict_set name cost d) groups []"

definition relevant_services :: "string list" where
  "relevant_services =
     [''Amazon Elastic Container Service'', ''Amazon EC2-Instance'', ''Amazon Elastic Load Balancing'',
      ''Amazon EC2 Container Registry (ECR)'', ''Amazon CloudWatch Logs'']"

datatype cost_verdict = All_Free | Low_Cost | Cost_Detected

definition get_cost_summary :: "(string \<times> real) list \<Rightarrow> (real \<times> (string \<times> real) list \<times> cost_verdict) option" where
  "get_cost_summary costs =
     (if costs = [] then None
      else
        (let total_cost = sum_list (map snd costs);
             shown = filter (\<lambda>(s, c). c > 0)
                       (map (\<lambda>s. (s, case map_of costs s of None \<Rightarrow> 0 | Some c \<Rightarrow> c)) relevant_services)
         in Some (total_cost, shown,
                  if total_cost = 0 then All_Free else if total_cost < 5 then Low_Cost else Cost_Detected)))"

section \<open>The month's costs and the full check\<close>

text \<open>
  \<open>strftime("%Y-%m-%d")\<close>: the year's digits (four for the years the
  monitor runs in), then month and day with two digits each.
\<close>

definition pad2 :: "nat \<Rightarrow> string" where
  "pad2 n = (if n < 10 then CHR ''0'' # digits_of_nat n else digits_of_nat n)"

definition strftime_ymd :: "cal_datetime \<Rightarrow> string" where
  "strftime_ymd d = py_str_int (dt_year d) @ ''-'' @ pad2 (dt_month d) @ ''-'' @ pad2 (dt_day d)"

text \<open>
  \<open>get_cost_and_usage\<close> of Cost Explorer as a function of the requested
  period (\<open>Start\<close>, \<open>End\<close>): the message of the \<open>ClientError\<close> it raises,
  or for each entry of \<open>ResultsByTime\<close> its groups, each as the service
  name \<open>Keys[0]\<close> and the amount of \<open>BlendedCost\<close> as a float.
\<close>

type_synonym cost_explorer = "string \<Rightarrow> string \<Rightarrow> string + (string \<times> real) list list"

text \<open>
  \<open>get_current_month_usage\<close>: the period from the first of the month to
  today; a \<open>ClientError\<close> is printed and gives the empty dictionary.
\<close>

definition get_current_month_usage :: "cost_explorer \<Rightarrow> cal_datetime \<Rightarrow> (string \<times> real) list" where
  "get_current_month_usage get_cost_and_usage now =
     (let start = start_of_month now in
      case get_cost_and_usage (strftime_ymd start) (strftime_ymd now) of
        Inl client_error \<Rightarrow> []
      | Inr results \<Rightarrow> services_cost (concat results))"

text \<open>
  \<open>run_full_check\<close>: the five checks in order, each on its own AWS
  responses; the load-balancer check and the cost summary each read the
  clock.
\<close>

record full_check =
  fc_ecs :: "(string \<times> ecs_service_report list) list option"
  fc_ecr :: "((string \<times> real) list \<times> real \<times> storage_verdict) option"
  fc_alb :: "(string \<times> string \<times> string \<times> real \<times> verdict) list option"
  fc_logs :: "((string \<times> real) list \<times> real) option"
  fc_cost :: "(real \<times> (string \<times> real) list \<times> cost_verdict) option"

definition run_full_check ::
  "cost_explorer \<Rightarrow> cal_datetime \<Rightarrow> cal_datetime \<Rightarrow> ecs_cluster list \<Rightarrow> ecr_repository list \<Rightarrow>
   load_balancer list \<Rightarrow> log_group list \<Rightarrow> full_check" where
  "run_full_check ce now_alb now_cost clusters repos lbs groups =
     \<lparr>fc_ecs = check_ecs_usage clusters, fc_ecr = check_ecr_usage repos,
      fc_alb = check_alb_usage now_alb lbs, fc_logs = check_cloudwatch_logs groups,
      fc_cost = get_cost_summary (get_current_month_usage ce now_cost)\<rparr>"

text \<open>
  \<open>FreeTierMonitor.__init__\<close>: creating the clients and asking STS for
  the account either gives the account and the session's region (which
  may be unset), or fails: missing credentials and any other exception
  each print a message and \<open>exit(1)\<close>.  \<open>main\<close> runs the full check on
  a monitor that started.
\<close>

datatype init_failure = No_Credentials | Init_Exception string

definition monitor_init :: "init_failure + string \<times> string option \<Rightarrow> int + string \<times> string option" where
  "monitor_init clients =
     (case clients of
        Inl No_Credentials \<Rightarrow> Inl 1
      | Inl (Init_Exception e) \<Rightarrow> Inl 1
      | Inr (account_id, region) \<Rightarrow> Inr (account_id, region))"

definition monitor_main ::
  "init_failure + string \<times> string option \<Rightarrow> cost_explorer \<Rightarrow> cal_datetime \<Rightarrow> cal_datetime \<Rightarrow>
   ecs_cluster list \<Rightarrow> ecr_repository list \<Rightarrow> load_balancer list \<Rightarrow> log_group list \<Rightarrow>
   int + (string \<times> string option) \<times> full_check" where
  "monitor_main clients ce now_alb now_cost clusters repos lbs groups =
     (case monitor_init clients of
        Inl code \<Rightarrow> Inl code
      | Inr monitor \<Rightarrow> Inr (monitor, run_full_check ce now_alb now_cost clusters repos lbs groups))"

section \<open>Lemmas\<close>

lemma days_in_month_le_31:
  assumes "1 \<le> m" "m \<le> 12"
  shows "days_in_month y m \<le> 31"
proof -
  let ?ds = "[31, 28, 31, 30, 31, 30, 31, 31, 30, 31, 30, 31] :: nat list"
  have "?ds ! (m - 1) \<in> set ?ds" using assms by (intro nth_mem) simp
  then have "?ds ! (m - 1) \<le> 31" by auto
  then show ?thesis by (simp add: days_in_month_def)
qed

lemma seconds_since_start_of_month:
  "dt_seconds now - dt_seconds (start_of_month now) =
   real (dt_day now - 1) * 86400 + real (dt_hour now) * 3600 + real (dt_minute now) * 60 +
   real (dt_second now) + real (dt_microsecond now) / 1000000"
  if "1 \<le> dt_day now"
  using that by (simp add: dt_seconds_def start_of_month_def ymd2ord_def algebra_simps of_nat_diff)

lemma seconds_in_month_bound:
  assumes "cal_valid now"
  shows "dt_seconds now - dt_seconds (start_of_month now) < 31 * 86400"
proof -
  have d: "dt_day now \<le> 31" using assms days_in_month_le_31 [of "dt_month now" "dt_year now"]
    by (simp add: cal_valid_def)
  have "real (dt_day now - 1) * 86400 \<le> 30 * 86400" using d by simp
  moreover have "real (dt_hour now) * 3600 \<le> 23 * 3600" "real (dt_minute now) * 60 \<le> 59 * 60"
    "real (dt_second now) \<le> 59" "real (dt_microsecond now) / 1000000 < 1"
    using assms by (simp_all add: cal_valid_def)
  ultimately show ?thesis
    using seconds_since_start_of_month [of now] assms by (simp add: cal_valid_def)
qed

lemma hours_this_month_bound:
  "cal_valid now \<Longrightarrow> hours_this_month now created < 744"
  using seconds_in_month_bound [of now]
  by (auto simp: hours_this_month_def Let_def)

lemma ecs_verdict_exceeds:
  "esr_verdict (ecs_service_report s) = Exceeds \<longleftrightarrow> 2 \<le> running_count s"
  by (simp add: ecs_service_report_def estimated_monthly_hours_def)

lemma digits_value_pad2: "digits_value 0 (pad2 n) = Some n"
  by (simp add: pad2_def digits_value_digits_of_nat)

lemma pad2_inj: "pad2 a = pad2 b \<longleftrightarrow> a = b"
  by (metis digits_value_pad2 option.inject)

lemma strftime_start_of_month:
  "strftime_ymd (start_of_month now) = strftime_ymd now \<longleftrightarrow> dt_day now = 1"
  by (auto simp: strftime_ymd_def start_of_month_def pad2_inj)

section \<open>Scenarios\<close>

text \<open>Two load balancers of the application that have existed since before the month began, read on 31 January.\<close>

definition jan31 :: cal_datetime where
  "jan31 = \<lparr>dt_year = 2025, dt_month = 1, dt_day = 31, dt_hour = 23, dt_minute = 59, dt_second = 59,
            dt_microsecond = 999999\<rparr>"

definition dec2024 :: cal_datetime where
  "dec2024 = \<lparr>dt_year = 2024, dt_month = 12, dt_day = 1, dt_hour = 0, dt_minute = 0, dt_second = 0,
              dt_microsecond = 0\<rparr>"

definition two_albs :: "load_balancer list" where
  "two_albs = [\<lparr>lb_name = ''ai-chat-alb-1'', lb_state = ''active'', lb_scheme = ''internet-facing'', lb_created = dec2024\<rparr>,
               \<lparr>lb_name = ''ai-chat-alb-2'', lb_state = ''active'', lb_scheme = ''internet-facing'', lb_created = dec2024\<rparr>]"

text \<open>
  A Cost Explorer that refuses an empty period, as the service does
  (\<open>Start\<close> must be before the exclusive \<open>End\<close>), and otherwise reports
  one container service cost.
\<close>

definition strict_ce :: cost_explorer where
  "strict_ce start stop =
     (if start = stop then Inl ''ValidationException: Start date must be before end date''
      else Inr [[(''Amazon Elastic Container Service'', 3)]])"

section \<open>Properties\<close>

text \<open>
  C29: The load-balancer warning of the monitor can never be printed: on any
  valid date, the hours of the month counted for a balancer stay below 744
  (a month has at most 31 days), so each of them is reported within the
  750-hour allowance, even when several balancers together use more than
  the allowance they share.
\<close>

theorem alb_warning_unreachable:
  assumes "cal_valid now" "check_alb_usage now lbs = Some rs"
  shows "\<forall>(name, state, scheme, h, v) \<in> set rs. h < 744 \<and> v = Within"
proof -
  have h: "hours_this_month now c < 744" for c using hours_this_month_bound [OF assms(1)] .
  then have "\<not> 750 < hours_this_month now c" for c using h [of c] by linarith
  with h show ?thesis using assms(2) by (auto simp: check_alb_usage_def Let_def split: if_splits)
qed

theorem alb_warning_unreachable_witness:
  "\<exists>rs. check_alb_usage jan31 two_albs = Some rs \<and> length rs = 2 \<and>
     (\<forall>(name, state, scheme, h, v) \<in> set rs. h < 744 \<and> v = Within)"
proof -
  have valid: "cal_valid jan31"
    by (simp add: cal_valid_def jan31_def days_in_month_def is_leap_def)
  obtain rs where rs: "check_alb_usage jan31 two_albs = Some rs" and len: "length rs = 2"
    by (simp add: check_alb_usage_def two_albs_def is_ai_chat_def py_lower_def Let_def)
  show ?thesis using alb_warning_unreachable [OF valid rs] rs len by blast
qed

text \<open>
  C30: The month's cost query asks for the empty period exactly on the
  first day of a month: \<open>Start\<close> (the first of the month) equals \<open>End\<close>
  (today) then and only then, so against a Cost Explorer that refuses an
  empty period the cost summary of \<open>get_cost_summary\<close> and of the full
  check is lost on every first of the month.
\<close>

theorem cost_query_empty_on_first_day:
  assumes "\<And>d. isl (ce d d)"
  shows "(strftime_ymd (start_of_month now) = strftime_ymd now \<longleftrightarrow> dt_day now = 1) \<and>
         (dt_day now = 1 \<longrightarrow>
            get_cost_summary (get_current_month_usage ce now) = None \<and>
            fc_cost (run_full_check ce now_alb now clusters repos lbs groups) = None)"
proof -
  have "dt_day now = 1 \<Longrightarrow> get_current_month_usage ce now = []"
    using assms [of "strftime_ymd now"] strftime_start_of_month [of now]
    by (auto simp: get_current_month_usage_def Let_def split: sum.splits)
  then show ?thesis
    by (simp add: strftime_start_of_month run_full_check_def get_cost_summary_def)
qed

theorem cost_query_empty_on_first_day_witness:
  "get_cost_summary (get_current_month_usage strict_ce dec2024) = None \<and>
   get_cost_summary (get_current_month_usage strict_ce jan31) \<noteq> None"
proof -
  have "isl (strict_ce d d)" for d by (simp add: strict_ce_def)
  note c = cost_query_empty_on_first_day [where ce = strict_ce, OF this]
  have "dt_day jan31 \<noteq> 1" by (simp add: jan31_def)
  then have "strftime_ymd (start_of_month jan31) \<noteq> strftime_ymd jan31"
    using c [of jan31] by blast
  then have "get_current_month_usage strict_ce jan31 = [(''Amazon Elastic Container Service'', 3)]"
    by (simp add: get_current_month_usage_def strict_ce_def services_cost_def)
  moreover have "dt_day dec2024 = 1" by (simp add: dec2024_def)
  ultimately show ?thesis
    using c [of dec2024] by (simp add: get_cost_summary_def)
qed

end
