(* ===== verification/App.thy ===== *)
theory App
  imports Server AppConfig Auth
begin

text \<open>
  The application of \<open>app/main.py\<close>: the routers mounted under \<open>/api\<close>
  (chat, files, models, rate limits, threads, auth) and the root and health
  endpoints, as one dispatcher over a request datatype, on the state the
  components share in one process: the usage dictionary, the database
  and the open generators (\<open>Server\<close>), the users table (\<open>Auth\<close>) and the
  upload registry with its directory (\<open>FileService\<close>).  A bearer token
  is decoded by \<open>get_current_user\<close> before the endpoints that depend on
  it; the chat, rate-limit, file lookup and file removal endpoints have no
  such dependency.
\<close>

section \<open>State and requests\<close>

record app_state =
  app_server :: server
  app_users :: user_db
  app_files :: file_state

definition initial_app :: "timestamp \<Rightarrow> (string \<Rightarrow> string option) \<Rightarrow> app_state" where
  "initial_app t d =
     \<lparr>app_server = initial_server t, app_users = empty_user_db,
      app_files = \<lparr>uploaded_files = [], disk = d\<rparr>\<rparr>"

text \<open>
  The requests by the router that serves them; \<open>Api_Resume\<close> is the event
  loop resuming an open chat stream, which the server interleaves with
  requests.
\<close>

datatype api_request =
    Api_Auth auth_request
  | Api_Thread jwt thread_request
  | Api_Chat uuid string string "string option" "string option list" "string option"
  | Api_Resume nat
  | Api_Rate_Limits
  | Api_Upload jwt string string "string \<Rightarrow> string option" upload
  | Api_List_Files jwt
  | Api_Get_File string
  | Api_Remove_File string
  | Api_Models
  | Api_Root
  | Api_Health

section \<open>Dispatch\<close>

text \<open>\<open>Depends(get_current_active_user)\<close>: the token is decoded first; its exception is the answer.\<close>

definition with_user ::
  "string \<Rightarrow> timestamp \<Rightarrow> jwt \<Rightarrow> (auth_user \<Rightarrow> int \<times> app_state) \<Rightarrow> app_state \<Rightarrow> int \<times> app_state" where
  "with_user key now token k s =
     (case get_current_user key (app_users s) now token of
        Inl e \<Rightarrow> (response_status (uncaught e :: unit response), s)
      | Inr cu \<Rightarrow> k cu)"

definition file_request_step ::
  "rate_config \<Rightarrow> file_config \<Rightarrow> timestamp \<Rightarrow> file_request \<Rightarrow> app_state \<Rightarrow> int \<times> app_state" where
  "file_request_step cfg fcfg now fr s =
     (case file_route cfg fcfg now fr (srv_usage (app_server s)) (app_files s) of
        (code, u', fs') \<Rightarrow> (code, s\<lparr>app_server := (app_server s)\<lparr>srv_usage := u'\<rparr>, app_files := fs'\<rparr>))"

definition server_request_step ::
  "rate_config \<Rightarrow> tokenizer \<Rightarrow> server_event \<Rightarrow> int \<Rightarrow> app_state \<Rightarrow> int \<times> app_state" where
  "server_request_step cfg tok ev code s = (code, s\<lparr>app_server := server_step cfg tok ev (app_server s)\<rparr>)"

text \<open>
  One request at clock reading \<open>now\<close> (the three readings of the rate-limit
  endpoint, taken without an \<open>await\<close> between them, are the same reading).
\<close>

fun app_step ::
  "rate_config \<Rightarrow> file_config \<Rightarrow> password_scheme \<Rightarrow> string \<Rightarrow> real \<Rightarrow> tokenizer \<Rightarrow> timestamp \<Rightarrow>
   api_request \<Rightarrow> app_state \<Rightarrow> int \<times> app_state" where
  "app_step cfg fcfg pw key tz tok now (Api_Auth ar) s =
     (case auth_route pw key tz now ar (app_users s) of (r, db') \<Rightarrow> (response_status r, s\<lparr>app_users := db'\<rparr>))"
| "app_step cfg fcfg pw key tz tok now (Api_Thread token tr) s =
     with_user key now token
       (\<lambda>cu. server_request_step cfg tok (Ev_Route now cu tr)
               (fst (thread_route cfg now cu tr (srv_usage (app_server s)) (srv_store (app_server s)))) s) s"
| "app_step cfg fcfg pw key tz tok now (Api_Chat tid q m e cs f) s =
     server_request_step cfg tok (Ev_Chat now tid q m e cs f) 200 s"
| "app_step cfg fcfg pw key tz tok now (Api_Resume sid) s = server_request_step cfg tok (Ev_Resume sid now) 200 s"
| "app_step cfg fcfg pw key tz tok now Api_Rate_Limits s =
     (case get_rate_limits cfg now now now (srv_usage (app_server s)) of
        (r, u') \<Rightarrow> (response_status r, s\<lparr>app_server := (app_server s)\<lparr>srv_usage := u'\<rparr>\<rparr>))"
| "app_step cfg fcfg pw key tz tok now (Api_Upload token fid ts g up) s =
     with_user key now token (\<lambda>cu. file_request_step cfg fcfg now (F_Upload cu fid ts g up) s) s"
| "app_step cfg fcfg pw key tz tok now (Api_List_Files token) s =
     with_user key now token (\<lambda>cu. file_request_step cfg fcfg now (F_List cu) s) s"
| "app_step cfg fcfg pw key tz tok now (Api_Get_File fid) s = file_request_step cfg fcfg now (F_Get fid) s"
| "app_step cfg fcfg pw key tz tok now (Api_Remove_File fid) s = file_request_step cfg fcfg now (F_Remove fid) s"
| "app_step cfg fcfg pw key tz tok now Api_Models s = (200, s)"
| "app_step cfg fcfg pw key tz tok now Api_Root s = (200, s)"
| "app_step cfg fcfg pw key tz tok now Api_Health s = (200, s)"

section \<open>Reachable states\<close>

text \<open>An upload's identifier names no registered file and no file on disk (see \<open>fresh_upload\<close>).\<close>

fun app_fresh :: "file_config \<Rightarrow> api_request \<Rightarrow> app_state \<Rightarrow> bool" where
  "app_fresh fcfg (Api_Upload token fid ts g up) s =
     (fid \<notin> fst ` set (uploaded_files (app_files s)) \<and>
      disk (app_files s) (file_path_of fcfg fid (up_filename up)) = None)"
| "app_fresh fcfg req s = True"

inductive app_reachable ::
  "rate_config \<Rightarrow> file_config \<Rightarrow> password_scheme \<Rightarrow> string \<Rightarrow> real \<Rightarrow> (string \<Rightarrow> nat option) \<Rightarrow>
   timestamp \<Rightarrow> app_state \<Rightarrow> bool"
  for cfg fcfg pw key tz enc where
  init: "app_reachable cfg fcfg pw key tz enc t (initial_app t d)"
| step: "app_reachable cfg fcfg pw key tz enc t s \<Longrightarrow> t \<le> now \<Longrightarrow> app_fresh fcfg req s \<Longrightarrow>
         app_reachable cfg fcfg pw key tz enc now (snd (app_step cfg fcfg pw key tz (count_tokens enc) now req s))"

definition app_inv :: "rate_config \<Rightarrow> file_config \<Rightarrow> timestamp \<Rightarrow> app_state \<Rightarrow> bool" where
  "app_inv cfg fcfg t s \<longleftrightarrow>
     server_inv cfg t (app_server s) \<and> users_wf (app_users s) \<and> users_conform (app_users s) \<and>
     files_wf fcfg (app_files s)"

section \<open>Lemmas\<close>

lemma server_inv_mono: "server_inv cfg t srv \<Longrightarrow> t \<le> t' \<Longrightarrow> server_inv cfg t' srv"
  by (auto simp: server_inv_def intro: chrono_mono)

lemma server_inv_usage: "server_inv cfg t srv \<Longrightarrow> usage_inv cfg u' \<Longrightarrow> server_inv cfg t (srv\<lparr>srv_usage := u'\<rparr>)"
  by (simp add: server_inv_def)

lemma with_user_cases:
  "with_user key now token k s = (fst (with_user key now token k s), s) \<or>
   (\<exists>cu. with_user key now token k s = k cu)"
  by (auto simp: with_user_def split: sum.split)

lemma get_rate_limits_usage:
  "snd (get_rate_limits cfg t1 t2 t3 u) = snd (track_request cfg t1 u) \<or>
   snd (get_rate_limits cfg t1 t2 t3 u) = snd (throttle_apply cfg t2 (Get_Status t3) (snd (track_request cfg t1 u)))"
  by (auto simp: get_rate_limits_def split: prod.splits sum.splits)

lemma usage_inv_track_request: "usage_inv cfg u \<Longrightarrow> usage_inv cfg (snd (track_request cfg t u))"
  using throttle_apply_usage_inv [of cfg u Track_Request t] by (simp add: case_prod_beta)

lemma usage_inv_get_rate_limit_status:
  "usage_inv cfg u \<Longrightarrow> usage_inv cfg (snd (get_rate_limit_status cfg t t2 u))"
  using throttle_apply_usage_inv [of cfg u "Get_Status t2" t] by (simp add: case_prod_beta)

lemma usage_inv_get_rate_limits:
  "usage_inv cfg u \<Longrightarrow> usage_inv cfg (snd (get_rate_limits cfg t1 t2 t3 u))"
  by (auto simp: get_rate_limits_def usage_inv_track_request usage_inv_get_rate_limit_status
      split: prod.splits sum.splits) (metis snd_conv usage_inv_track_request, metis snd_conv usage_inv_get_rate_limit_status usage_inv_track_request)

lemma usage_inv_file_route:
  "usage_inv cfg u \<Longrightarrow> usage_inv cfg (fst (snd (file_route cfg fcfg now req u fs)))"
  using file_route_usage [of cfg fcfg now req u fs] throttle_apply_usage_inv [of cfg u Track_Request now]
  by auto

lemma file_request_step_inv:
  assumes "app_inv cfg fcfg t s" "t \<le> now" "fresh_upload fcfg fr (app_files s)"
  shows "app_inv cfg fcfg now (snd (file_request_step cfg fcfg now fr s))"
proof -
  have "server_inv cfg now (app_server s)" using assms(1,2) by (auto simp: app_inv_def intro: server_inv_mono)
  moreover have "usage_inv cfg (fst (snd (file_route cfg fcfg now fr (srv_usage (app_server s)) (app_files s))))"
    using assms(1) by (intro usage_inv_file_route) (simp add: app_inv_def server_inv_def)
  moreover have "files_wf fcfg (snd (snd (file_route cfg fcfg now fr (srv_usage (app_server s)) (app_files s))))"
    using assms(1,3) by (intro files_wf_file_route) (simp_all add: app_inv_def)
  ultimately show ?thesis
    using assms(1) by (auto simp: file_request_step_def app_inv_def server_inv_usage split: prod.splits)
qed

lemma server_request_step_inv:
  assumes "app_inv cfg fcfg t s" "t \<le> event_time ev"
  shows "app_inv cfg fcfg (event_time ev) (snd (server_request_step cfg (count_tokens enc) ev code s))"
  using assms server_inv_step [of cfg t "app_server s" ev enc]
  by (simp add: server_request_step_def app_inv_def)

lemma app_inv_mono: "app_inv cfg fcfg t s \<Longrightarrow> t \<le> t' \<Longrightarrow> app_inv cfg fcfg t' s"
  by (auto simp: app_inv_def intro: server_inv_mono)

lemma with_user_inv:
  assumes "app_inv cfg fcfg t s" "t \<le> now" "\<And>cu. app_inv cfg fcfg now (snd (k cu))"
  shows "app_inv cfg fcfg now (snd (with_user key now token k s))"
proof (cases "get_current_user key (app_users s) now token")
  case (Inl e)
  with assms(1,2) show ?thesis by (simp add: with_user_def app_inv_mono)
next
  case (Inr cu)
  with assms(3) show ?thesis by (simp add: with_user_def)
qed

lemma app_step_inv:
  assumes "app_inv cfg fcfg t s" "t \<le> now" "app_fresh fcfg req s"
  shows "app_inv cfg fcfg now (snd (app_step cfg fcfg pw key tz (count_tokens enc) now req s))"
proof (cases req)
  case (Api_Auth ar)
  with assms(1,2) show ?thesis
    by (auto simp: app_inv_def auth_route_wf auth_route_conform intro: server_inv_mono split: prod.splits)
       (metis auth_route_wf snd_conv, metis auth_route_conform snd_conv)
next
  case (Api_Thread token tr)
  have "app_inv cfg fcfg now (snd (server_request_step cfg (count_tokens enc) (Ev_Route now cu tr) code s))"
    for cu code using server_request_step_inv [OF assms(1), of "Ev_Route now cu tr"] assms(2) by simp
  with Api_Thread assms(1,2) show ?thesis by (simp add: with_user_inv)
next
  case (Api_Chat tid q m e cs f)
  with assms(1,2) show ?thesis using server_request_step_inv [OF assms(1), of "Ev_Chat now tid q m e cs f"] by simp
next
  case (Api_Resume sid)
  with assms(1,2) show ?thesis using server_request_step_inv [OF assms(1), of "Ev_Resume sid now"] by simp
next
  case Api_Rate_Limits
  have "usage_inv cfg (snd (get_rate_limits cfg now now now (srv_usage (app_server s))))"
    using assms(1) by (intro usage_inv_get_rate_limits) (simp add: app_inv_def server_inv_def)
  with Api_Rate_Limits assms(1,2) show ?thesis
    by (auto simp: app_inv_def server_inv_usage intro: server_inv_mono split: prod.splits)
       (metis server_inv_mono server_inv_usage snd_conv)
next
  case (Api_Upload token fid ts g up)
  have "app_inv cfg fcfg now (snd (file_request_step cfg fcfg now (F_Upload cu fid ts g up) s))" for cu
    using assms Api_Upload by (intro file_request_step_inv) simp_all
  with Api_Upload assms(1,2) show ?thesis by (simp add: with_user_inv)
next
  case (Api_List_Files token)
  have "app_inv cfg fcfg now (snd (file_request_step cfg fcfg now (F_List cu) s))" for cu
    using assms by (intro file_request_step_inv) simp_all
  with Api_List_Files assms(1,2) show ?thesis by (simp add: with_user_inv)
next
  case (Api_Get_File fid)
  with assms show ?thesis by (simp add: file_request_step_inv)
next
  case (Api_Remove_File fid)
  with assms show ?thesis by (simp add: file_request_step_inv)
qed (use assms in \<open>auto simp: app_inv_def intro: server_inv_mono\<close>)

lemma app_inv_initial: "app_inv cfg fcfg t (initial_app t d)"
  by (simp add: app_inv_def initial_app_def server_inv_initial files_wf_def)

section \<open>Scenarios\<close>

definition demo_app :: app_state where
  "demo_app =
     snd (app_step default_rate_config default_file_config demo_pw ''k'' 0 (count_tokens (\<lambda>_. None)) 10
            (Api_Auth (Auth_Register alice_signup)) (initial_app 0 Map.empty))"

lemma demo_app_reachable:
  "app_reachable default_rate_config default_file_config demo_pw ''k'' 0 (\<lambda>_. None) 10 demo_app"
  unfolding demo_app_def by (rule app_reachable.step [OF app_reachable.init]) simp_all

section \<open>Properties\<close>

text \<open>
  C21: The whole application keeps the invariants of its components under
  every sequence of requests to any router, interleaved with the
  resumptions of open chat streams, at non-decreasing clock readings
  (uploads under fresh identifiers): the usage counters stay within their
  limits, the database keeps its keys, foreign keys and clock order, no
  stream identifier is reused, the users table keeps distinct ids,
  e-mails and user names of 3 to 50 characters, and the upload registry
  stays consistent with the upload directory.
\<close>

theorem app_reachable_invariants:
  assumes "app_reachable cfg fcfg pw key tz enc t s"
  shows "server_inv cfg t (app_server s) \<and> users_wf (app_users s) \<and> users_conform (app_users s) \<and>
         files_wf fcfg (app_files s)"
proof -
  have "app_inv cfg fcfg t s"
    using assms by induction (auto intro: app_inv_initial app_step_inv)
  then show ?thesis by (simp add: app_inv_def)
qed

theorem app_reachable_invariants_witness:
  "server_inv default_rate_config 10 (app_server demo_app) \<and> users_wf (app_users demo_app) \<and>
   users_conform (app_users demo_app) \<and> files_wf default_file_config (app_files demo_app)"
  using app_reachable_invariants [OF demo_app_reachable] .

text \<open>
  C22: The routers share nothing but the usage counters: only an
  authentication request changes the users table; only an upload or a
  file removal changes the upload registry or directory (removal needing
  no token); only a thread request, a chat request or a stream resumption
  changes the database; and only a chat request or a resumption changes
  the open streams.
\<close>

theorem app_step_frame:
  "let s' = snd (app_step cfg fcfg pw key tz tok now req s) in
     (app_users s' = app_users s \<or> (\<exists>ar. req = Api_Auth ar)) \<and>
     (app_files s' = app_files s \<or> (\<exists>token fid ts g up. req = Api_Upload token fid ts g up) \<or>
        (\<exists>fid. req = Api_Remove_File fid)) \<and>
     (srv_store (app_server s') = srv_store (app_server s) \<or> (\<exists>token tr. req = Api_Thread token tr) \<or>
        (\<exists>tid q m e cs f. req = Api_Chat tid q m e cs f) \<or> (\<exists>sid. req = Api_Resume sid)) \<and>
     (srv_sessions (app_server s') = srv_sessions (app_server s) \<or>
        (\<exists>tid q m e cs f. req = Api_Chat tid q m e cs f) \<or> (\<exists>sid. req = Api_Resume sid))"
  by (cases req)
     (auto simp: with_user_def server_request_step_def file_request_step_def get_file_by_id_def get_files_def
        split: prod.splits sum.splits option.splits)

end
