(* ===== verification/Schemas.thy ===== *)
theory Schemas
  imports App
begin

text \<open>
  The pydantic schemas of \<open>app/schemas/chat.py\<close>, \<open>app/schemas/user.py\<close>
  and \<open>app/models/base.py\<close> as validators from a decoded JSON body to the
  records the endpoints receive, and the response models as functions from
  the rows to what a client is sent.  Validation checks every field and
  reports one error per failing field, in field order (FastAPI answers them
  together with 422); a key missing from the body is told apart from an
  explicit \<open>null\<close>, which is what \<open>model_dump(exclude_unset=True)\<close> of
  the update relies on (unset fields are \<open>None\<close> of \<open>thread_update\<close>).
  Two library checks are parameters: the e-mail
  check of \<open>EmailStr\<close> (the \<open>email-validator\<close> package, which returns the
  normalised address or refuses it) and pydantic's lax conversion of a
  non-boolean JSON value to \<open>bool\<close>.
\<close>

section \<open>JSON values and field validation\<close>

text \<open>
  A decoded request body (\<open>json.loads\<close>).  An object keeps its members in
  order; for a key given twice \<open>json.loads\<close> keeps the last value.
\<close>

datatype json =
    JNull
  | JBool bool
  | JInt int
  | JFloat real
  | JStr string
  | JArr "json list"
  | JObj "(string \<times> json) list"

definition json_get :: "(string \<times> json) list \<Rightarrow> string \<Rightarrow> json option" where
  "json_get kvs k = map_of (rev kvs) k"

text \<open>A validation error: the location (the field's alias) and pydantic's error type.\<close>

type_synonym validation_error = "string \<times> string"

type_synonym 'a validated = "validation_error list + 'a"

fun errs :: "'a validated \<Rightarrow> validation_error list" where
  "errs (Inl es) = es"
| "errs (Inr v) = []"

text \<open>Two fields validated independently; the errors of both are reported.\<close>

definition both :: "'a validated \<Rightarrow> 'b validated \<Rightarrow> ('a \<times> 'b) validated" where
  "both x y = (case (x, y) of (Inr a, Inr b) \<Rightarrow> Inr (a, b) | _ \<Rightarrow> Inl (errs x @ errs y))"

text \<open>\<open>Field(min_length=lo, max_length=hi)\<close> on a string, in characters.\<close>

definition str_constraints :: "nat \<Rightarrow> nat option \<Rightarrow> string \<Rightarrow> string \<Rightarrow> validation_error list" where
  "str_constraints lo hi loc s =
     (if length s < lo then [(loc, ''string_too_short'')]
      else (case hi of
              Some h \<Rightarrow> if h < length s then [(loc, ''string_too_long'')] else []
            | None \<Rightarrow> []))"

text \<open>A required \<open>str\<close> field: a JSON string only (pydantic does not turn numbers into strings).\<close>

fun str_field :: "nat \<Rightarrow> nat option \<Rightarrow> string \<Rightarrow> json option \<Rightarrow> string validated" where
  "str_field lo hi loc None = Inl [(loc, ''missing'')]"
| "str_field lo hi loc (Some (JStr s)) =
     (let es = str_constraints lo hi loc s in if es = [] then Inr s else Inl es)"
| "str_field lo hi loc (Some j) = Inl [(loc, ''string_type'')]"

text \<open>
  \<open>Optional[str] = Field(None, ...)\<close>: \<open>None\<close> when the key is missing (the
  field is unset), \<open>Some None\<close> for an explicit \<open>null\<close>, and the
  constraints only on a string.
\<close>

fun opt_str_field :: "nat \<Rightarrow> nat option \<Rightarrow> string \<Rightarrow> json option \<Rightarrow> string option option validated" where
  "opt_str_field lo hi loc None = Inr None"
| "opt_str_field lo hi loc (Some JNull) = Inr (Some None)"
| "opt_str_field lo hi loc (Some (JStr s)) =
     (let es = str_constraints lo hi loc s in if es = [] then Inr (Some (Some s)) else Inl es)"
| "opt_str_field lo hi loc (Some j) = Inl [(loc, ''string_type'')]"

text \<open>
  \<open>Optional[bool] = None\<close>: a JSON boolean, \<open>null\<close>, or another value
  that pydantic's lax mode converts (\<open>lax_bool\<close>, which returns the
  error type when it does not).
\<close>

fun opt_bool_field ::
  "(json \<Rightarrow> string + bool) \<Rightarrow> string \<Rightarrow> json option \<Rightarrow> bool option option validated" where
  "opt_bool_field lax loc None = Inr None"
| "opt_bool_field lax loc (Some JNull) = Inr (Some None)"
| "opt_bool_field lax loc (Some (JBool b)) = Inr (Some (Some b))"
| "opt_bool_field lax loc (Some j) =
     (case lax j of Inl ty \<Rightarrow> Inl [(loc, ty)] | Inr b \<Rightarrow> Inr (Some (Some b)))"

text \<open>
  \<open>EmailStr\<close>: a string the e-mail check accepts, replaced by the address
  the check returns.
\<close>

definition email_field ::
  "(string \<Rightarrow> string option) \<Rightarrow> string \<Rightarrow> json option \<Rightarrow> string validated" where
  "email_field check_email loc v =
     (case str_field 0 None loc v of
        Inl es \<Rightarrow> Inl es
      | Inr s \<Rightarrow> (case check_email s of None \<Rightarrow> Inl [(loc, ''value_error'')] | Some e \<Rightarrow> Inr e))"

text \<open>
  \<open>Field(alias="name")\<close> with \<open>populate_by_name = True\<close>: the value under
  the alias, or else under the field's own name.
\<close>

definition by_alias :: "(string \<times> json) list \<Rightarrow> string \<Rightarrow> string \<Rightarrow> json option" where
  "by_alias kvs alias name = (case json_get kvs alias of None \<Rightarrow> json_get kvs name | v \<Rightarrow> v)"

text \<open>A model is validated from a JSON object only.\<close>

definition model_fields ::
  "((string \<times> json) list \<Rightarrow> 'a validated) \<Rightarrow> json \<Rightarrow> 'a validated" where
  "model_fields f j = (case j of JObj kvs \<Rightarrow> f kvs | _ \<Rightarrow> Inl [(''body'', ''model_type'')])"

section \<open>Request schemas\<close>

text \<open>
  \<open>ThreadCreate\<close> (schemas/chat.py): \<open>title: str\<close>, required, with no
  length limit (the \<open>Optional\<close> title of \<open>ThreadBase\<close> is overridden).
\<close>

definition validate_ThreadCreate :: "json \<Rightarrow> string validated" where
  "validate_ThreadCreate =
     model_fields (\<lambda>kvs. str_field 0 None ''title'' (json_get kvs ''title''))"

text \<open>
  \<open>ThreadUpdate\<close>: both fields optional; a field the body leaves out stays
  unset (\<open>None\<close> of \<open>thread_update\<close>), an explicit \<open>null\<close> is set to \<open>None\<close>.
\<close>

definition validate_ThreadUpdate :: "(json \<Rightarrow> string + bool) \<Rightarrow> json \<Rightarrow> thread_update validated" where
  "validate_ThreadUpdate lax =
     model_fields (\<lambda>kvs.
       map_sum id (\<lambda>(t, a). \<lparr>upd_title = t, upd_is_archived = a\<rparr>)
         (both (opt_str_field 0 None ''title'' (json_get kvs ''title''))
               (opt_bool_field lax ''is_archived'' (json_get kvs ''is_archived''))))"

text \<open>\<open>ChatRequestWithThread\<close> (models/base.py): the model name and the question.\<close>

record chat_request =
  cr_model :: string
  cr_question :: string

definition validate_ChatRequestWithThread :: "json \<Rightarrow> chat_request validated" where
  "validate_ChatRequestWithThread =
     model_fields (\<lambda>kvs.
       map_sum id (\<lambda>(m, q). \<lparr>cr_model = m, cr_question = q\<rparr>)
         (both (str_field 0 None ''model'' (json_get kvs ''model''))
               (str_field 0 None ''question'' (json_get kvs ''question''))))"

text \<open>
  \<open>UserCreate\<close> (schemas/user.py, the body of POST /api/auth/register):
  the e-mail, the user name under the alias \<open>name\<close> (or its own name) with
  3 to 50 characters, and a password of at least 8.
\<close>

definition validate_UserCreate :: "(string \<Rightarrow> string option) \<Rightarrow> json \<Rightarrow> user_create validated" where
  "validate_UserCreate check_email =
     model_fields (\<lambda>kvs.
       map_sum id (\<lambda>(e, n, p). \<lparr>uc_email = e, uc_username = n, uc_password = p\<rparr>)
         (both (email_field check_email ''email'' (json_get kvs ''email''))
           (both (str_field 3 (Some 50) ''name'' (by_alias kvs ''name'' ''username''))
                 (str_field 8 None ''password'' (json_get kvs ''password'')))))"

text \<open>
  The \<open>UserCreate\<close> of app/api/endpoints/auth.py subclasses it and
  re-declares \<open>username: str\<close>: the new declaration replaces the field, so
  the alias and both length limits are gone.
\<close>

definition validate_endpoints_UserCreate ::
  "(string \<Rightarrow> string option) \<Rightarrow> json \<Rightarrow> user_create validated" where
  "validate_endpoints_UserCreate check_email =
     model_fields (\<lambda>kvs.
       map_sum id (\<lambda>(e, n, p). \<lparr>uc_email = e, uc_username = n, uc_password = p\<rparr>)
         (both (email_field check_email ''email'' (json_get kvs ''email''))
           (both (str_field 0 None ''username'' (json_get kvs ''username''))
                 (str_field 8 None ''password'' (json_get kvs ''password'')))))"

text \<open>\<open>UserUpdate\<close> (schemas/user.py): every field optional, the limits on the given values only.\<close>

record user_update =
  uu_email :: "string option option"
  uu_username :: "string option option"
  uu_password :: "string option option"
  uu_is_active :: "bool option option"
  uu_is_admin :: "bool option option"

definition opt_email_field ::
  "(string \<Rightarrow> string option) \<Rightarrow> string \<Rightarrow> json option \<Rightarrow> string option option validated" where
  "opt_email_field check_email loc v =
     (case v of
        None \<Rightarrow> Inr None
      | Some JNull \<Rightarrow> Inr (Some None)
      | Some j \<Rightarrow> map_sum id (\<lambda>e. Some (Some e)) (email_field check_email loc (Some j)))"

definition validate_UserUpdate ::
  "(string \<Rightarrow> string option) \<Rightarrow> (json \<Rightarrow> string + bool) \<Rightarrow> json \<Rightarrow> user_update validated" where
  "validate_UserUpdate check_email lax =
     model_fields (\<lambda>kvs.
       map_sum id (\<lambda>(e, n, p, a, ad).
           \<lparr>uu_email = e, uu_username = n, uu_password = p, uu_is_active = a, uu_is_admin = ad\<rparr>)
         (both (opt_email_field check_email ''email'' (json_get kvs ''email''))
           (both (opt_str_field 3 (Some 50) ''name'' (by_alias kvs ''name'' ''username''))
             (both (opt_str_field 8 None ''password'' (json_get kvs ''password''))
               (both (opt_bool_field lax ''is_active'' (json_get kvs ''is_active''))
                     (opt_bool_field lax ''is_admin'' (json_get kvs ''is_admin'')))))))"

section \<open>Response models\<close>

text \<open>
  \<open>response_model=ThreadResponse\<close> (schemas/chat.py, \<open>from_attributes\<close>):
  what a thread endpoint sends for a row of the threads table.  The model
  has no \<open>is_archived\<close> field, so the column is not sent.
\<close>

record thread_response =
  tr_id :: uuid
  tr_user_id :: uuid
  tr_title :: string
  tr_created_at :: timestamp
  tr_updated_at :: "timestamp option"

definition ThreadResponse_of :: "thread \<Rightarrow> thread_response" where
  "ThreadResponse_of th =
     \<lparr>tr_id = thread_pk th, tr_user_id = owner th, tr_title = title th,
      tr_created_at = thread_created_at th, tr_updated_at = updated_at th\<rparr>"

text \<open>
  \<open>response_model=List[ConversationResponse]\<close>: a message row; the row has
  no \<open>updated_at\<close> attribute, so the field takes its default \<open>None\<close>.
\<close>

record conversation_response =
  cv_role :: string
  cv_content :: string
  cv_model :: "string option"
  cv_token_count :: "int option"
  cv_id :: uuid
  cv_thread_id :: uuid
  cv_created_at :: timestamp
  cv_updated_at :: "timestamp option"

definition ConversationResponse_of :: "conversation \<Rightarrow> conversation_response" where
  "ConversationResponse_of c =
     \<lparr>cv_role = role c, cv_content = content c, cv_model = model c, cv_token_count = token_count c,
      cv_id = conv_pk c, cv_thread_id = conv_thread c, cv_created_at = conv_created_at c,
      cv_updated_at = None\<rparr>"

text \<open>
  \<open>response_model=List[ThreadPreviewResponse]\<close>: the keys of a preview
  dictionary of \<open>get_all_thread_previews\<close>.
\<close>

record thread_preview_response =
  tp_id :: uuid
  tp_title :: string
  tp_last_message_content :: "string option"
  tp_last_message_timestamp :: "timestamp option"
  tp_updated_at :: "timestamp option"

definition ThreadPreviewResponse_of :: "thread_preview \<Rightarrow> thread_preview_response" where
  "ThreadPreviewResponse_of pv =
     \<lparr>tp_id = pv_id pv, tp_title = pv_title pv, tp_last_message_content = last_message_content pv,
      tp_last_message_timestamp = last_message_timestamp pv, tp_updated_at = pv_updated_at pv\<rparr>"

text \<open>
  The reply a client receives from each read endpoint of routes/threads.py:
  the endpoint's return value passed through its \<open>response_model\<close>.
\<close>

datatype thread_view =
    View_Threads "thread_response list response"
  | View_Previews "thread_preview_response list response"
  | View_Thread "thread_response response"
  | View_Messages "conversation_response list response"

fun read_view ::
  "rate_config \<Rightarrow> timestamp \<Rightarrow> auth_user \<Rightarrow> thread_request \<Rightarrow> usage \<Rightarrow> store \<Rightarrow> thread_view option" where
  "read_view cfg now cu Req_List u st =
     Some (View_Threads (map_response (map ThreadResponse_of) (fst (list_all_threads cfg now cu u st))))"
| "read_view cfg now cu Req_Previews u st =
     Some (View_Previews (map_response (map ThreadPreviewResponse_of) (fst (get_thread_previews cfg now cu u st))))"
| "read_view cfg now cu (Req_Get tid) u st =
     Some (View_Thread (map_response ThreadResponse_of (fst (get_thread_by_id cfg now cu tid u st))))"
| "read_view cfg now cu (Req_Messages tid) u st =
     Some (View_Messages (map_response (map ConversationResponse_of)
             (fst (get_messages_for_thread cfg now cu tid u st))))"
| "read_view cfg now cu req u st = None"

text \<open>
  The store with the \<open>is_archived\<close> column of every thread replaced,
  to state that no reply depends on it.
\<close>

definition archive :: "(uuid \<Rightarrow> bool option) \<Rightarrow> store \<Rightarrow> store" where
  "archive f st = st\<lparr>threads := map (\<lambda>th. th\<lparr>is_archived := f (thread_pk th)\<rparr>) (threads st)\<rparr>"

section \<open>Lemmas: field validation\<close>

lemma both_Inr [simp]: "both (Inr a) (Inr b) = Inr (a, b)"
  and both_Inl [simp]: "both (Inl es) y = Inl (es @ errs y)"
  and both_Inr_Inl [simp]: "both (Inr a) (Inl es) = Inl es"
  by (simp_all add: both_def split: sum.splits)

lemma both_Inr_iff [simp]:
  "both x y = Inr p \<longleftrightarrow> (\<exists>a b. x = Inr a \<and> y = Inr b \<and> p = (a, b))"
  by (cases x; cases y) (auto simp: both_def)

lemma map_sum_id_Inr_iff [simp]: "map_sum id f x = Inr y \<longleftrightarrow> (\<exists>z. x = Inr z \<and> y = f z)"
  by (cases x) auto

lemma json_get_None_iff: "json_get kvs k = None \<longleftrightarrow> k \<notin> fst ` set kvs"
  by (simp add: json_get_def map_of_eq_None_iff)

lemma json_get_Nil [simp]: "json_get [] k = None"
  and json_get_Cons [simp]:
    "json_get ((k', v) # kvs) k = (case json_get kvs k of None \<Rightarrow> if k' = k then Some v else None | r \<Rightarrow> r)"
  by (auto simp: json_get_def map_add_def split: option.splits)

lemma str_constraints_Nil [simp]: "str_constraints 0 None loc s = []"
  by (simp add: str_constraints_def)

lemma str_field_Inr_iff:
  "str_field lo hi loc v = Inr s \<longleftrightarrow>
     v = Some (JStr s) \<and> lo \<le> length s \<and> (case hi of Some h \<Rightarrow> length s \<le> h | None \<Rightarrow> True)"
  by (cases "(lo, hi, loc, v)" rule: str_field.cases)
     (auto simp: str_constraints_def Let_def split: option.splits if_splits)

lemma email_field_JStr:
  "email_field ce loc (Some (JStr s)) =
     (case ce s of None \<Rightarrow> Inl [(loc, ''value_error'')] | Some e \<Rightarrow> Inr e)"
  by (simp add: email_field_def)

lemma email_field_Inr: "email_field ce loc v = Inr e \<Longrightarrow> \<exists>s. v = Some (JStr s) \<and> ce s = Some e"
  by (auto simp: email_field_def str_field_Inr_iff split: sum.splits option.splits)

lemma validate_UserCreate_valid:
  assumes "validate_UserCreate ce j = Inr uc"
  shows "valid_user_create uc \<and> (\<exists>s. ce s = Some (uc_email uc))"
  using assms
  by (auto simp: validate_UserCreate_def model_fields_def valid_user_create_def str_field_Inr_iff
        dest!: email_field_Inr split: json.splits)

lemma validate_UserCreate_body:
  "validate_UserCreate ce (JObj [(''email'', JStr e), (''name'', JStr n), (''password'', JStr p)]) =
     (let es = (case ce e of None \<Rightarrow> [(''email'', ''value_error'')] | Some e' \<Rightarrow> []) @
               str_constraints 3 (Some 50) ''name'' n @ str_constraints 8 None ''password'' p
      in if es = [] then Inr \<lparr>uc_email = the (ce e), uc_username = n, uc_password = p\<rparr> else Inl es)"
  by (simp add: validate_UserCreate_def model_fields_def by_alias_def
        email_field_JStr Let_def split: option.splits)

lemma validate_endpoints_UserCreate_body:
  "validate_endpoints_UserCreate ce (JObj [(''email'', JStr e), (''username'', JStr n), (''password'', JStr p)]) =
     (let es = (case ce e of None \<Rightarrow> [(''email'', ''value_error'')] | Some e' \<Rightarrow> []) @
               str_constraints 8 None ''password'' p
      in if es = [] then Inr \<lparr>uc_email = the (ce e), uc_username = n, uc_password = p\<rparr> else Inl es)"
  by (simp add: validate_endpoints_UserCreate_def model_fields_def email_field_JStr Let_def
        split: option.splits)

section \<open>Lemmas: the response models\<close>

lemma find_map_option: "find P (map g xs) = map_option g (find (P \<circ> g) xs)"
  by (induction xs) auto

lemma map_response_uncaught [simp]: "map_response g (uncaught e) = uncaught e"
  by (cases e) simp_all

lemma to_response_map_sum: "to_response (map_sum id g r) = map_response g (to_response r)"
  by (cases r) simp_all

lemma archive_lookups:
  "crud_get_thread tid (archive f st) =
     map_option (\<lambda>th. th\<lparr>is_archived := f (thread_pk th)\<rparr>) (crud_get_thread tid st)"
  "get_user_threads uid (archive f st) =
     map (\<lambda>th. th\<lparr>is_archived := f (thread_pk th)\<rparr>) (get_user_threads uid st)"
  "thread_rows tid (archive f st) = thread_rows tid st"
  by (simp_all add: archive_def crud_get_thread_def get_user_threads_def thread_rows_def
        find_map_option filter_map comp_def)

lemma archive_views [simp]:
  "ThreadResponse_of (th\<lparr>is_archived := a\<rparr>) = ThreadResponse_of th"
  "thread_preview_of (th\<lparr>is_archived := a\<rparr>) (archive f st) = thread_preview_of th st"
  "get_thread_messages tid (archive f st) = get_thread_messages tid st"
  by (simp_all add: ThreadResponse_of_def thread_preview_of_def archive_lookups
        get_thread_messages_def get_thread_conversations_def)

lemma owned_thread_archive:
  "owned_thread cu action tid (archive f st) =
     map_sum id (\<lambda>th. th\<lparr>is_archived := f (thread_pk th)\<rparr>) (owned_thread cu action tid st)"
  by (simp add: owned_thread_def archive_lookups split: option.splits)

section \<open>Properties\<close>

text \<open>
  C18: The \<open>UserCreate\<close> of the unmounted app/api/endpoints/auth.py
  re-declares \<open>username: str\<close> and so loses the length limits at the
  request: a body with a user name of fewer than 3 or more than 50
  characters under \<open>username\<close> is accepted there and refused by the
  schema of the mounted route, and a body that names it \<open>name\<close> is
  refused.  Its \<open>register\<close> then builds the schema's \<open>UserCreate\<close> from
  the accepted values, which raises a ValidationError: the client is
  answered 500 instead of 422 (409 when the e-mail is taken) and nothing is
  stored.
\<close>

theorem endpoints_register_name_limits_answer_500:
  assumes "ce e = Some e'" "8 \<le> length p" "length n < 3 \<or> 50 < length n"
  shows "validate_endpoints_UserCreate ce
           (JObj [(''email'', JStr e), (''username'', JStr n), (''password'', JStr p)]) =
           Inr \<lparr>uc_email = e', uc_username = n, uc_password = p\<rparr> \<and>
         (\<exists>es. validate_UserCreate ce
           (JObj [(''email'', JStr e), (''name'', JStr n), (''password'', JStr p)]) = Inl es) \<and>
         validate_endpoints_UserCreate ce
           (JObj [(''email'', JStr e), (''name'', JStr n), (''password'', JStr p)]) =
           Inl [(''username'', ''missing'')] \<and>
         response_status (to_response (fst (register pw key tz t0 t1 t2
              \<lparr>uc_email = e', uc_username = n, uc_password = p\<rparr> db))) =
           (if get_user_by_email db e' \<noteq> None then 409 else 500) \<and>
         snd (register pw key tz t0 t1 t2 \<lparr>uc_email = e', uc_username = n, uc_password = p\<rparr> db) = db"
  using assms
  by (auto simp: validate_endpoints_UserCreate_body validate_UserCreate_body str_constraints_def Let_def
        validate_endpoints_UserCreate_def model_fields_def email_field_JStr register_def
        valid_user_create_def)

theorem endpoints_register_name_limits_answer_500_witness:
  "validate_endpoints_UserCreate Some
     (JObj [(''email'', JStr ''a@b.c''), (''username'', JStr ''''), (''password'', JStr ''12345678'')]) =
     Inr \<lparr>uc_email = ''a@b.c'', uc_username = '''', uc_password = ''12345678''\<rparr> \<and>
   response_status (to_response (fst (register demo_pw ''k'' 0 0 0 0
     \<lparr>uc_email = ''a@b.c'', uc_username = '''', uc_password = ''12345678''\<rparr> empty_user_db))) = 500"
  using endpoints_register_name_limits_answer_500
    [of Some "''a@b.c''" "''a@b.c''" "''12345678''" "''''" demo_pw "''k''" 0 0 0 0 empty_user_db]
  by (simp add: get_user_by_email_def empty_user_db_def)

text \<open>
  C10: The archive flag a client sets through PUT is never seen again: the
  list, preview, single-thread and message endpoints send exactly the same
  reply whatever the \<open>is_archived\<close> values of the stored threads.
\<close>

theorem archived_flag_unobservable:
  "read_view cfg now cu req u (archive f st) = read_view cfg now cu req u st"
  by (cases req)
     (simp_all add: route_defs endpoint_def archive_lookups get_all_thread_previews_def
        owned_thread_archive to_response_map_sum response.map_comp comp_def split: prod.splits sum.splits)

end
