(* ===== verification/Middleware.thy ===== *)
theory Middleware
  imports Schemas
begin

text \<open>
  The request-scoped machinery around the endpoints: the request-logging
  middleware of \<open>app/utils/middleware.py\<close> (which app/main.py never
  installs), the exception handler \<open>handle_rate_limit\<close> of
  \<open>app/utils/rate_limiter.py\<close> that app/main.py registers for slowapi's
  \<open>RateLimitExceeded\<close>, and the session dependency \<open>get_db\<close> of
  \<open>app/database/database.py\<close>.  A log line is kept as the values it
  prints (the request id, the method and path, the status, the elapsed
  seconds, the message of the exception); the text layout of the f-strings
  is not modelled.
\<close>

section \<open>Requests, responses and log records\<close>

record http_req =
  req_method :: string
  req_path :: string

record http_resp =
  resp_status :: int
  resp_headers :: "(string \<times> string) list"

datatype log_record =
    Log_Started string string string
  | Log_Completed string int real
  | Log_Failed string real string

text \<open>
  \<open>response.headers[k] = v\<close> on Starlette's \<open>MutableHeaders\<close>: names are
  stored lower-cased; the first header of that name takes the value and
  any later ones are removed; a new name is appended.
\<close>

fun set_header :: "string \<Rightarrow> string \<Rightarrow> (string \<times> string) list \<Rightarrow> (string \<times> string) list" where
  "set_header k v [] = [(py_lower k, v)]"
| "set_header k v ((k', v') # hs) =
     (if k' = py_lower k then (py_lower k, v) # filter (\<lambda>(k'', v''). k'' \<noteq> py_lower k) hs
      else (k', v') # set_header k v hs)"

section \<open>RequestLoggingMiddleware.dispatch\<close>

text \<open>
  \<open>dispatch\<close> with the request id \<open>rid\<close> drawn by \<open>uuid.uuid4()\<close>, the
  two clock readings \<open>t0\<close> (before \<open>call_next\<close>) and \<open>t1\<close> (after it),
  and \<open>call_next\<close> as a step on the application's state that returns the
  response or the exception that escaped the application: the start is
  logged, then the completion with the status and the header added, or the
  failure, after which the exception is re-raised.
\<close>

definition dispatch ::
  "string \<Rightarrow> timestamp \<Rightarrow> timestamp \<Rightarrow> ('s \<Rightarrow> (py_exc + http_resp) \<times> 's) \<Rightarrow> http_req \<Rightarrow> 's \<Rightarrow>
   (py_exc + http_resp) \<times> 's \<times> log_record list" where
  "dispatch rid t0 t1 call_next request s =
     (let started = Log_Started rid (req_method request) (req_path request) in
      case call_next s of
        (Inr response, s') \<Rightarrow>
          (let process_time = t1 - t0 in
           (Inr (response\<lparr>resp_headers := set_header ''X-Request-ID'' rid (resp_headers response)\<rparr>), s',
            [started, Log_Completed rid (resp_status response) process_time]))
      | (Inl e, s') \<Rightarrow>
          (let process_time = t1 - t0 in (Inl e, s', [started, Log_Failed rid process_time (exc_str e)])))"

text \<open>
  A run of requests through the middleware, each with its own id and
  clock readings; the log is the concatenation of the requests' records.
\<close>

fun dispatch_run ::
  "('r \<Rightarrow> 's \<Rightarrow> (py_exc + http_resp) \<times> 's) \<Rightarrow> (string \<times> timestamp \<times> timestamp \<times> http_req \<times> 'r) list \<Rightarrow>
   's \<Rightarrow> (py_exc + http_resp) list \<times> 's \<times> log_record list" where
  "dispatch_run app [] s = ([], s, [])"
| "dispatch_run app ((rid, t0, t1, request, r) # rs) s =
     (case dispatch rid t0 t1 (app r) request s of
        (resp, s1, log1) \<Rightarrow>
          (case dispatch_run app rs s1 of (resps, s2, log2) \<Rightarrow> (resp # resps, s2, log1 @ log2)))"

text \<open>The same run without the middleware.\<close>

fun plain_run ::
  "('r \<Rightarrow> 's \<Rightarrow> (py_exc + http_resp) \<times> 's) \<Rightarrow> 'r list \<Rightarrow> 's \<Rightarrow> (py_exc + http_resp) list \<times> 's" where
  "plain_run app [] s = ([], s)"
| "plain_run app (r # rs) s =
     (case app r s of (resp, s1) \<Rightarrow> (case plain_run app rs s1 of (resps, s2) \<Rightarrow> (resp # resps, s2)))"

text \<open>
  What the middleware adds to one request: the response with the request
  id header, and its two log records.
\<close>

definition with_request_id :: "string \<Rightarrow> py_exc + http_resp \<Rightarrow> py_exc + http_resp" where
  "with_request_id rid resp =
     map_sum id (\<lambda>x. x\<lparr>resp_headers := set_header ''X-Request-ID'' rid (resp_headers x)\<rparr>) resp"

definition request_log :: "string \<Rightarrow> timestamp \<Rightarrow> timestamp \<Rightarrow> http_req \<Rightarrow> py_exc + http_resp \<Rightarrow> log_record list" where
  "request_log rid t0 t1 request resp =
     [Log_Started rid (req_method request) (req_path request),
      case resp of
        Inr x \<Rightarrow> Log_Completed rid (resp_status x) (t1 - t0)
      | Inl e \<Rightarrow> Log_Failed rid (t1 - t0) (exc_str e)]"

section \<open>The rate-limit exception handler\<close>

text \<open>
  The exceptions the handler can be given: slowapi's \<open>RateLimitExceeded\<close>
  (its \<open>str\<close>) or any other exception, which is re-raised.  The warning
  names the client's host, or \<open>unknown\<close> when the request has no client.
\<close>

datatype handler_exc = Rate_Limit_Exceeded string | Other_Exception py_exc

definition handle_rate_limit ::
  "string option \<Rightarrow> handler_exc \<Rightarrow> (py_exc + int \<times> (string \<times> string) list) \<times> string list" where
  "handle_rate_limit client exc =
     (case exc of
        Other_Exception e \<Rightarrow> (Inl e, [])
      | Rate_Limit_Exceeded detail \<Rightarrow>
          (let client_ip = (case client of Some host \<Rightarrow> host | None \<Rightarrow> ''unknown'') in
           (Inr (429, [(''error'', ''Rate limit exceeded''), (''detail'', detail)]),
            [''Rate limit exceeded for '' @ client_ip])))"

text \<open>
  \<open>app.add_exception_handler(RateLimitExceeded, handle_rate_limit)\<close> in
  app/main.py: an exception that escapes an endpoint goes to the handler
  registered for its class, any other to the framework's default
  (\<open>uncaught\<close>); the answer's status and the warnings logged.
\<close>

definition app_exception_response :: "string option \<Rightarrow> handler_exc \<Rightarrow> int \<times> string list" where
  "app_exception_response client exc =
     (case exc of
        Rate_Limit_Exceeded d \<Rightarrow>
          (case handle_rate_limit client exc of
             (Inr (code, body), logs) \<Rightarrow> (code, logs)
           | (Inl e, logs) \<Rightarrow> (response_status (uncaught e :: unit response), logs))
      | Other_Exception e \<Rightarrow> (response_status (uncaught e :: unit response), []))"

section \<open>The session dependency get_db\<close>

text \<open>
  \<open>get_db\<close> opens a session, hands it to the endpoint and closes it in
  \<open>finally\<close>, whether the endpoint returns or raises.  The sessions of the
  engine's pool are the set of open session numbers.
\<close>

record session_pool =
  open_sessions :: "nat set"
  next_session :: nat

definition get_db ::
  "(nat \<Rightarrow> 's \<Rightarrow> (py_exc + 'a) \<times> 's) \<Rightarrow> session_pool \<Rightarrow> 's \<Rightarrow> (py_exc + 'a) \<times> session_pool \<times> 's" where
  "get_db body p s =
     (let db = next_session p;
          p1 = p\<lparr>open_sessions := insert db (open_sessions p), next_session := Suc db\<rparr>
      in case body db s of
           (r, s') \<Rightarrow> (r, p1\<lparr>open_sessions := open_sessions p1 - {db}\<rparr>, s'))"


definition pool_wf :: "session_pool \<Rightarrow> bool" where
  "pool_wf p = (\<forall>db \<in> open_sessions p. db < next_session p)"

section \<open>Lemmas\<close>

lemma set_header_single:
  "filter (\<lambda>(k', v'). k' = py_lower k) (set_header k v hs) = [(py_lower k, v)]"
  by (induction hs) (auto simp: filter_empty_conv)

lemma set_header_others:
  "filter (\<lambda>(k', v'). k' \<noteq> py_lower k) (set_header k v hs) = filter (\<lambda>(k', v'). k' \<noteq> py_lower k) hs"
  by (induction hs) (auto simp: filter_id_conv)

lemma dispatch_eq:
  "dispatch rid t0 t1 call_next request s =
     (with_request_id rid (fst (call_next s)), snd (call_next s),
      request_log rid t0 t1 request (fst (call_next s)))"
  by (cases "call_next s" rule: prod.exhaust; rename_tac r s'; case_tac r)
     (simp_all add: dispatch_def with_request_id_def request_log_def)


lemma get_db_scoped:
  assumes "pool_wf p"
  shows "get_db body p s =
           (fst (body (next_session p) s), p\<lparr>next_session := Suc (next_session p)\<rparr>,
            snd (body (next_session p) s)) \<and>
         pool_wf (p\<lparr>next_session := Suc (next_session p)\<rparr>)"
proof -
  have "next_session p \<notin> open_sessions p" using assms by (auto simp: pool_wf_def)
  then have "insert (next_session p) (open_sessions p) - {next_session p} = open_sessions p" by auto
  then show ?thesis
    using assms by (auto simp: get_db_def pool_wf_def Let_def split: prod.splits)
qed

lemma app_exception_response_status:
  "fst (app_exception_response client exc) =
     (case exc of
        Rate_Limit_Exceeded d \<Rightarrow> 429
      | Other_Exception e \<Rightarrow> response_status (uncaught e :: unit response)) \<and>
   snd (app_exception_response client exc) =
     (case exc of
        Rate_Limit_Exceeded d \<Rightarrow> [''Rate limit exceeded for '' @ (case client of Some h \<Rightarrow> h | None \<Rightarrow> ''unknown'')]
      | Other_Exception e \<Rightarrow> [])"
  by (cases exc) (simp_all add: app_exception_response_def handle_rate_limit_def)

section \<open>Properties\<close>

text \<open>
  C35: The logging middleware is transparent: a run of requests through it
  reaches the same state and gives the same responses as the run without
  it, each response with the X-Request-ID header of its own id, and the log
  holds for each request, in order, its start and then its completion with
  the status or its failure with the exception, which is re-raised.
\<close>

theorem middleware_refines_plain_run:
  "dispatch_run app rs s =
     (case plain_run app (map (\<lambda>(rid, t0, t1, request, r). r) rs) s of
        (resps, s') \<Rightarrow>
          (map2 (\<lambda>(rid, t0, t1, request, r) resp. with_request_id rid resp) rs resps, s',
           concat (map2 (\<lambda>(rid, t0, t1, request, r) resp. request_log rid t0 t1 request resp) rs resps)))"
proof (induction rs arbitrary: s)
  case Nil
  then show ?case by simp
next
  case (Cons x rs)
  obtain rid t0 t1 request r where x: "x = (rid, t0, t1, request, r)" by (cases x) auto
  obtain resp s1 where a: "app r s = (resp, s1)" by (cases "app r s")
  obtain presps ps2 where p: "plain_run app (map (\<lambda>(rid, t0, t1, request, r). r) rs) s1 = (presps, ps2)"
    by (cases "plain_run app (map (\<lambda>(rid, t0, t1, request, r). r) rs) s1")
  from Cons.IH [of s1] p a show ?case
    by (simp add: x dispatch_eq)
qed

end
