(* ===== verification/Spec2Isabelle.thy ===== *)
theory Spec2Isabelle
  imports Server FileService TokenUtils Auth Migration Monitor AppConfig Deployment App Schemas Middleware
begin

text \<open>
  \<^bold>\<open>A verification development of the g-chat backend.\<close>
  The program is the FastAPI service under \<open>src/backend/app\<close>: users
  keep chat threads in a relational database, send questions to a Gemini
  model through \<open>POST /chat/{thread_id}\<close> and receive the answer as a
  server-sent event stream, while a process-wide usage throttle limits
  requests and tokens per minute.  The development models the request
  handling of the service as executable HOL definitions and proves what
  it guarantees.

  \<^bold>\<open>Theories and what they model.\<close>
  \<^item> \<open>Prelude\<close>: the shared collections \<open>model_defs\<close> and \<open>store_simps\<close>,
    the type names (\<open>timestamp = real\<close>, \<open>uuid = nat\<close>, \<open>tokenizer\<close>), and
    Python's \<open>int()\<close> on floats (\<open>py_int\<close>), \<open>x or default\<close> (\<open>py_or\<close>) and
    \<open>str()\<close> of an integer (\<open>py_str_int\<close>) with its inverse on UUIDs
    (\<open>parse_uuid\<close>), and assignment into an insertion-ordered dict
    (\<open>dict_set\<close>).
  \<^item> \<open>Errors\<close> (\<open>app/utils/errors.py\<close>, \<open>app/main.py\<close>): the \<open>APIError\<close>
    family as a record, the exceptions of the program as the datatype
    \<open>py_exc\<close>, and how FastAPI answers an uncaught one (\<open>uncaught\<close>: an
    \<open>HTTPException\<close> with its code, anything else 500, since no handler for
    \<open>APIError\<close> is registered; a pydantic \<open>ValidationError\<close> raised inside
    an endpoint is one of these, only the validation of the request itself
    gives 422).
  \<^item> \<open>RateLimiter\<close> (\<open>app/utils/rate_limiter.py\<close>, limits from
    \<open>app/config/settings.py\<close>): the global dictionary \<open>usage_tracking\<close> as
    the record \<open>usage\<close>, and \<open>check_and_reset_counters\<close>,
    \<open>count_tokens\<close>, \<open>check_token_rate_limit\<close>, \<open>track_request\<close> and
    \<open>get_rate_limit_status\<close> as functions of the clock reading and the
    dictionary that return the dictionary they leave.  The three
    operations other components call form the datatype \<open>throttle_op\<close>
    with the step \<open>throttle_apply\<close>, the sequence \<open>throttle_run\<close> and the
    reachability relation \<open>throttle_reachable\<close>.
  \<^item> \<open>ThreadStore\<close> (\<open>app/models/chat.py\<close>, \<open>app/crud/chat.py\<close>,
    \<open>app/threads/thread_service.py\<close>): the tables \<open>threads\<close> and
    \<open>conversations\<close> as lists of rows in commit order with a key counter
    (the UUIDs), every CRUD and service function with its commits, and
    the writing operations as the datatype \<open>store_op\<close> with \<open>store_step\<close>
    and the relation \<open>store_reachable\<close>.
  \<^item> \<open>ChatStream\<close> (\<open>app/chat/chat_service.py\<close>, \<open>app/api/routes/chat.py\<close>):
    the generator \<open>stream_response\<close> over a finite list of upstream chunks
    (with the upstream's exception, if any, after them), its loop as the
    structural recursion \<open>stream_chunks\<close>, \<open>process_chat_request\<close> and the
    handler \<open>chat_with_thread\<close>, each run without interruption.
  \<^item> \<open>ThreadRoutes\<close> (\<open>app/api/routes/threads.py\<close>,
    \<open>app/api/routes/rate_limits.py\<close>, \<open>get_current_active_user\<close> of
    \<open>app/auth/auth.py\<close>): every endpoint with its exception handlers, the
    authenticated user as an argument, and the dispatcher
    \<open>thread_route\<close> over the datatype \<open>thread_request\<close>.
  \<^item> \<open>FileService\<close> (\<open>app/file_management/file_service.py\<close>,
    \<open>app/api/routes/files.py\<close>): the registry \<open>uploaded_files\<close> as an
    association list in insertion order, the upload directory as a map
    from paths to bytes, the chunked copy with its size limit as a
    \<open>while\<close> loop (\<open>copy_chunks\<close>), \<open>save_uploaded_file\<close>, \<open>get_file_info\<close>,
    \<open>list_files\<close>, \<open>delete_file\<close>, \<open>prepare_file_parts\<close>, the four
    endpoints, and the relation \<open>files_reachable\<close> over the datatype
    \<open>file_request\<close>; \<open>os.path.splitext\<close>, \<open>str.lower\<close>,
    \<open>os.path.join\<close>, \<open>str.join\<close> and the \<open>.1f\<close> format are written out.
  \<^item> \<open>TokenUtils\<close> (\<open>app/utils/token_utils.py\<close>): the aggregate token
    queries over the store of \<open>ThreadStore\<close> and the caching sum
    \<open>calculate_input_tokens_for_messages\<close>, which returns the message list
    it updates.  No other module calls this one.
  \<^item> \<open>Auth\<close> (\<open>app/auth/auth.py\<close>, \<open>app/api/routes/auth.py\<close>,
    \<open>app/api/endpoints/auth.py\<close>, \<open>app/api/endpoints/users.py\<close>,
    \<open>app/models/user.py\<close>, \<open>app/schemas/user.py\<close>): the users table
    with its unique columns, the JWT settings, \<open>create_access_token\<close> and
    \<open>get_current_user\<close> over PyJWT modelled with perfect cryptography,
    registration, login and \<open>/me\<close>, the router \<open>auth_route\<close> over the
    datatype \<open>auth_request\<close> with the relation \<open>users_reachable\<close>, and
    \<open>authed_thread_route\<close>, a thread request behind its bearer token.
  \<^item> \<open>Migration\<close> (\<open>migrate_to_supabase.py\<close>): a database as the three
    tables, the target's key, unique and foreign-key constraints
    (\<open>user_unique_violation\<close>, \<open>thread_fk_violation\<close>,
    \<open>conversation_fk_violation\<close>), the per-table copy loop
    \<open>merge_missing\<close>, \<open>migrate_data\<close> with one commit per table,
    \<open>verify_migration\<close> and \<open>migration_main\<close>.
  \<^item> \<open>Monitor\<close> (\<open>monitor_free_tier.py\<close>): each check of the cost
    monitor as a function of the AWS responses returning the values it
    prints and its verdicts, over CPython's calendar arithmetic
    (\<open>ymd2ord\<close>, \<open>dt_seconds\<close>), the month's cost query with the period it
    asks Cost Explorer for (a parameter), \<open>run_full_check\<close>, and the
    start-up of \<open>__init__\<close> and \<open>main\<close> by their outcome.
  \<^item> \<open>AppConfig\<close> (\<open>app/database/database.py\<close>, \<open>app/config/settings.py\<close>,
    \<open>app/api/routes/models.py\<close>, \<open>app/main.py\<close>, \<open>app.py\<close>): the database
    URL chosen from the environment and the part of it printed, the CORS
    origin settings, the model catalogue, the root and health endpoints,
    the settings read at import time and the account check of the CDK
    entry point.
  \<^item> \<open>Deployment\<close> (\<open>cdk_ecs_deployment.py\<close>): the CDK stack as the
    value it declares, one definition per \<open>_create_*\<close> method (VPC,
    cluster, repository, IAM roles, the Fargate service with its container
    environment and health check, outputs) composed by \<open>AiChatEcsStack\<close>
    and \<open>cdk_main\<close>; \<open>_create_placeholder_secrets\<close> runs against a model
    of the SSM parameter store (\<open>ssm_service\<close>) that may raise on any call;
    the container environment is the process environment the settings of
    \<open>Auth\<close> and \<open>AppConfig\<close> read, and \<open>cors_allows\<close> is the origin check of
    the CORS middleware of \<open>app/main.py\<close>.
  \<^item> \<open>App\<close> (\<open>app/main.py\<close>): the routers mounted under \<open>/api\<close> and the
    root and health endpoints as one dispatcher \<open>app_step\<close> over the
    datatype \<open>api_request\<close>, on the state the components share in one
    process (\<open>app_state\<close>: the server state, the users table, the upload
    registry), with the token dependency \<open>with_user\<close> and the reachability
    relation \<open>app_reachable\<close> from the startup on a fresh database.
  \<^item> \<open>Schemas\<close> (\<open>app/schemas/chat.py\<close>, \<open>app/schemas/user.py\<close>,
    \<open>app/models/base.py\<close>): each pydantic schema an endpoint reads as a
    validator from the decoded JSON body (the datatype \<open>json\<close>) to the
    record the endpoint receives, reporting every failing field; the
    response models of the thread endpoints as functions from the rows.
  \<^item> \<open>Middleware\<close> (\<open>app/utils/middleware.py\<close>,
    \<open>handle_rate_limit\<close> of \<open>app/utils/rate_limiter.py\<close>, \<open>get_db\<close> of
    \<open>app/database/database.py\<close>): the request-logging middleware as a
    wrapper of any application step, with its log records and the header
    it sets, runs of requests with and without it, the rate-limit
    exception handler with its registration in \<open>app/main.py\<close>, and the
    session scope of \<open>get_db\<close>.
  \<^item> \<open>Server\<close>: the components composed under the asyncio event loop: a
    state of the usage dictionary, the database and the open generators,
    whose steps are whole thread requests, the synchronous part of a chat
    request, and single resumptions of a generator (\<open>server_step\<close>,
    \<open>server_reachable\<close>).

  \<^bold>\<open>Conventions.\<close>  Every reading of \<open>time.time()\<close> or
  \<open>datetime.now()\<close> is an argument of the operation that makes it.  The
  tokenizer (\<open>tiktoken\<close>) and the model (Gemini) are external: the first
  is the argument \<open>enc\<close> of \<open>count_tokens\<close> (or a \<open>tokenizer\<close>), the
  second a finite list of chunks.  Raised exceptions are values
  (\<open>py_exc + 'a\<close>), and each handler returns the state it leaves on every
  branch, so a failed request is seen with its side effects.  The
  database's \<open>ORDER BY created_at\<close> is a stable sort of the rows in commit
  order.  No loop of the program needs fuel: the throttle, the stream,
  the server and the placeholder-secrets loop are run over finite lists
  by structural recursion, and the upload copy loop is kept as a
  \<open>while\<close> loop over its state (\<open>copy_continue\<close>, \<open>copy_step\<close>), whose
  termination is proved with the length of the unread data as measure
  (every chunk read is non-empty); the one-minute window is the constant
  60 of the code.

  \<^bold>\<open>What is proved.\<close>  The properties are stated where their
  component is (claims C1 to C19, C21, C22 and C24 to C35) and, for
  those that span components, below (C20, C23 and C31):
  \<^item> the throttle (C1, C34): the counters stay within their limits
    along any sequence of operations; the tokens admitted inside any
    60-second interval are at most twice the limit, the boundary burst
    the fixed window accepts, and this bound is reached;
  \<^item> the store (C2, C3): keys are distinct and every message belongs
    to an existing thread in every reachable store; the history handed to
    the model is the thread's turns in commit order;
  \<^item> the stream (C4 to C6, C33): a token check that fails stops forwarding,
    sends the notice and \<open>[DONE]\<close> and stores nothing; a completed stream
    is stored once, with the forwarded text; the question is stored
    before the model is asked; a chat for a missing thread is not
    rejected but streamed, charged and stored nowhere;
  \<^item> the endpoints (C7 to C10, C32): another user's thread is answered
    403 and left unchanged; a request over the request budget is
    answered 500, never 429; a title longer than the 255 characters of
    its column passes validation and is answered 500 with the store
    unchanged; the archive flag is never seen in any reply; no thread request of one
    user changes another user's threads or their messages (the chat
    endpoint, which has no such check, is outside this guarantee);
  \<^item> authentication (C11 to C18): registration, login and \<open>/me\<close> round-trip
    until the token's expiry; a token not signed with the server's key, or
    expired, is answered 401 before any endpoint work; with
    \<open>JWT_SECRET_KEY\<close> unset anyone can sign a never-expiring token for any
    user; a login token refines to the authenticated user the thread
    endpoints take as argument; the users table keeps distinct ids,
    e-mails and user names; a taken user name at registration is answered
    500 (and the unmounted routers disagree on the codes); the reported
    \<open>expires_at\<close> is off by the server's UTC offset; the registration
    schema of the unmounted \<open>endpoints/auth.py\<close> has lost the user name's
    alias and length limits, so a name outside 3 to 50 characters passes
    the request and fails when \<open>register\<close> rebuilds the schema's
    \<open>UserCreate\<close>, answered 500 instead of 422 with nothing stored;
  \<^item> the deployment (C19): every stack the CDK script builds runs the
    application with the placeholder database URL whatever the parameter
    store holds, and without \<open>JWT_SECRET_KEY\<close>, so the deployed service
    accepts tokens signed with the public default key;
  \<^item> the server (C20, C23, C31): under every interleaving of thread
    requests, chat requests and stream resumptions the counters stay within their
    limits, the database keeps its keys and foreign keys and its clock
    order, and stream identifiers are fresh; a thread deleted during its
    stream loses the model's answer silently; every open stream, resumed
    one time more than it has chunks left, is closed with a reply ending
    in \<open>[DONE]\<close>, whatever runs in between;
  \<^item> the application (C21, C22): under every sequence of requests to
    any router, interleaved with stream resumptions, all the invariants
    above hold together, of the counters, the database, the stream
    identifiers, the users table and the upload registry; the routers
    share only the usage counters, and each part of the state is changed
    only by the requests of the router that owns it;
  \<^item> the file service (C24 to C26): an upload with an allowed extension is
    rejected with 413 and leaves no trace exactly when it is non-empty
    and over the size limit, and otherwise is stored whole, found again
    and listed last (the chunked copy is a single write); the copy loop
    always ends, with the 413 error or with the whole upload read;
    deleting a file needs no credentials;
  \<^item> the migration (C27, C28): a database satisfying its constraints is
    copied exactly into an empty target; the row-count verification
    accepts a target that keeps stale rows under the migrated keys;
  \<^item> the free-tier monitor (C29, C30): the load-balancer warning can never
    be printed, since a month has fewer than the 750 hours it is compared
    with; the month's cost query asks for the empty period exactly on the
    first of the month;
  \<^item> the logging middleware (C35): were it installed, it would change no
    response, status or state, and would log each request's start and end
    in order under its own id.
  Further lemmas of the components, kept without a claim, show that an
  expired window forgets the past, admitted tokens are counted exactly
  once, a user's thread list holds exactly that user's threads, the
  messages endpoint returns the oldest 100 messages of a thread, the
  counters are in bounds in every state reachable by interleaved atomic
  operations, status reads are idempotent and bounded, single-token
  checks against a remaining budget of N admit exactly N of them, a
  request check counts once or raises the 429 error value, create then
  get round-trips in the store, adding messages appends exactly the given
  turns, an update with an explicit null title fails at commit, an
  upstream failure stores nothing, the stored text is the concatenation
  of the forwarded chunks, every stream ends with \<open>[DONE]\<close>, every
  reachable server state projects to states the throttle and the store
  reach on their own, a disallowed extension is answered 400, file parts
  are produced exactly when every identifier is registered, the raw SQL
  total, the ORM totals and the per-role statistics of a thread agree,
  the input-token sum is idempotent, a failed migration fails in the
  users table and leaves the target untouched, a migration rerun changes
  nothing, deleting a thread deletes exactly its messages, every non-200
  answer of a thread endpoint leaves the store unchanged, a database
  password containing \<open>@\<close> leaks its tail into the line printed at import
  time, \<open>int(str(n)) = n\<close>, the two login endpoints agree, the upload
  registry and directory stay consistent under every sequence of file
  requests, the deployed process serves on the container port with reload
  off and the default limits, the placeholder-secrets loop never
  overwrites a parameter, a validated registration body always satisfies
  the user name and password limits the authentication model assumes,
  \<open>get_db\<close> closes its session on every path, the rate-limit handler
  answers 429 only for slowapi's exception, and a chat request whose
  steps run back to back in the interleaved server changes the state
  exactly as \<open>chat_with_thread\<close> does (\<open>chat_schedule_setup_failed\<close>,
  \<open>chat_schedule_opened\<close>).

  \<^bold>\<open>Not modelled.\<close>  bcrypt and the user CRUD functions, which live in
  \<open>app/utils/password.py\<close> and \<open>app/crud/user.py\<close>, modules the
  repository does not contain (the CRUD functions are written from their
  call sites and the table's unique columns, the password functions are a
  parameter), and \<open>update_user\<close> and \<open>delete_user\<close> of the unmounted
  \<open>app/api/endpoints/users.py\<close>, which only forward to them (their body
  schema \<open>UserUpdate\<close> is modelled); the cryptography of PyJWT (a signed
  token is a value only the key holder builds); the e-mail check of
  \<open>EmailStr\<close> and pydantic's lax conversion of non-boolean values, which
  are parameters of the validators, and a body that is not JSON at all;
  the schema classes nothing uses (\<open>Thread\<close> and \<open>Conversation\<close> of
  \<open>app/schemas/chat.py\<close>, \<open>UserInDB\<close> of \<open>app/schemas/user.py\<close>, and
  \<open>Message\<close> and the user and thread models of \<open>app/models/base.py\<close>);
  the database engine, its connections and table creation, and the
  database's column types other than the title's length; the text layout
  of log lines, kept as the values they print; the per-address
  \<open>slowapi\<close> limit on the chat route, which is library code, and the
  logging configuration; the JSON text of each server-sent event, which
  is modelled by its content (\<open>sse_event\<close>); what CloudFormation and AWS
  do with the stack's declaration (the stack itself is modelled as a
  value), the AWS clients of the cost monitor (their creation is modelled
  by its outcome) and its printed text, and what the migration script's connection and schema steps
  do beyond succeeding or failing; the test suites.  The upload
  identifier is assumed fresh (an MD5 digest over a fresh \<open>uuid4\<close>), and
  a failure of the disk other than the size limit is not modelled.
\<close>

section \<open>Scenarios\<close>

definition alice :: auth_user where
  "alice = \<lparr>au_id = 7, au_email = ''alice@example.com'', au_name = ''alice'', au_created = 0, au_active = True, au_admin = False\<rparr>"

definition demo_server :: server where
  "demo_server = server_step demo_cfg len_tok (Ev_Route 1 alice (Req_Create ''t'')) (initial_server 0)"

definition demo_enc :: "string \<Rightarrow> nat option" where
  "demo_enc s = Some (length s)"

definition delete_mid_stream :: "server_event list" where
  "delete_mid_stream =
     [Ev_Chat 2 0 ''hi'' ''m'' None [Some ''ab''] None, Ev_Resume 0 3,
      Ev_Route 4 alice (Req_Delete 0)]"

definition demo_open :: server where
  "demo_open = server_step demo_cfg len_tok (Ev_Chat 2 0 ''hi'' ''m'' None [Some ''ab''] None) demo_server"

definition demo_schedule :: "server_event list" where
  "demo_schedule = [Ev_Resume 0 3, Ev_Route 4 alice Req_List, Ev_Resume 0 5]"

lemma demo_server_reachable:
  "server_reachable demo_cfg (count_tokens demo_enc) 1 demo_server"
proof -
  have "count_tokens demo_enc = len_tok"
    by (simp add: fun_eq_iff count_tokens_def demo_enc_def len_tok_def)
  then show ?thesis
    using server_reachable.step [OF server_reachable.init [of demo_cfg "count_tokens demo_enc" 0],
        of "Ev_Route 1 alice (Req_Create ''t'')"]
    by (simp add: demo_server_def)
qed

section \<open>Properties\<close>

text \<open>
  C20: Under every interleaving of thread requests, chat requests and
  resumptions of the open streams at non-decreasing clock readings, the
  shared usage counters stay within their limits, the database keeps its
  keys distinct and every message attached to an existing thread, the
  messages are stored in clock order, and no stream identifier is handed
  out twice.
\<close>

theorem server_reachable_invariants:
  assumes "server_reachable cfg (count_tokens enc) t srv"
  shows "usage_inv cfg (srv_usage srv) \<and> store_wf (srv_store srv) \<and> chrono t (srv_store srv) \<and>
         (\<forall>sid. srv_next_session srv \<le> sid \<longrightarrow> srv_sessions srv sid = None)"
proof -
  have "server_inv cfg t srv"
    using assms by induction (auto intro: server_inv_initial server_inv_step)
  then show ?thesis by (simp add: server_inv_def)
qed

theorem server_reachable_invariants_witness:
  "usage_inv demo_cfg (srv_usage demo_server) \<and> store_wf (srv_store demo_server)"
  using server_reachable_invariants [OF demo_server_reachable] by simp

text \<open>
  The composed server refines each shared component: the usage
  dictionary of every reachable server state is a state the throttle
  alone reaches (theory \<open>RateLimiter\<close>), and its database is a store the
  store operations alone reach (theory \<open>ThreadStore\<close>), each at a clock
  reading no later than the server's; so every invariant of either
  component holds of the composed server.
\<close>

theorem server_reachable_refines_components:
  assumes "server_reachable cfg (count_tokens enc) t srv"
  shows "(\<exists>t0 \<le> t. throttle_reachable cfg t0 (srv_usage srv)) \<and>
         (\<exists>t1 \<le> t. store_reachable (count_tokens enc) t1 (srv_store srv))"
  using assms
proof (induction rule: server_reachable.induct)
  case (init t)
  have "throttle_reachable cfg t (srv_usage (initial_server t))"
    using throttle_reachable.boot by (simp add: initial_server_def)
  moreover have "store_reachable (count_tokens enc) t (srv_store (initial_server t))"
    using store_reachable.init by (simp add: initial_server_def)
  ultimately show ?case by auto
next
  case (step t srv ev)
  let ?srv' = "server_step cfg (count_tokens enc) ev srv"
  from step.IH obtain t0 t1 where t0: "t0 \<le> t" "throttle_reachable cfg t0 (srv_usage srv)"
    and t1: "t1 \<le> t" "store_reachable (count_tokens enc) t1 (srv_store srv)" by blast
  have "\<exists>t0' \<le> event_time ev. throttle_reachable cfg t0' (srv_usage ?srv')"
    using server_step_usage_wf [of "count_tokens enc" cfg ev srv] t0 step.hyps(2)
    by (metis count_tokens_nonneg order_trans throttle_reachable.step order_refl)
  moreover have "\<exists>t1' \<le> event_time ev. store_reachable (count_tokens enc) t1' (srv_store ?srv')"
    using server_step_store [of cfg "count_tokens enc" ev srv] t1 step.hyps(2)
    by (metis order_trans store_reachable.step order_refl)
  ultimately show ?case by blast
qed

theorem server_reachable_refines_components_witness:
  "\<exists>t0 \<le> 1. throttle_reachable demo_cfg t0 (srv_usage demo_server)"
  using server_reachable_refines_components [OF demo_server_reachable] by blast


text \<open>
  C23: A thread deleted while one of its streams is open: the stream still
  ends with \<open>[DONE]\<close> exactly as a successful one, but its model turn is
  dropped without a trace (\<open>add_messages_to_thread\<close> returns \<open>False\<close>, which
  \<open>stream_response\<close> ignores); the store is unchanged and the client is not
  told.
\<close>

theorem finish_after_thread_deleted:
  assumes "srv_sessions srv sid = Some s" and "sess_pending s = []" and "sess_failure s = None"
    and "crud_get_thread (sess_thread s) (srv_store srv) = None"
  shows "server_step cfg tok (Ev_Resume sid now) srv = close_session sid (sess_sent s @ [SSE_Done]) srv"
  using assms by (simp add: finish_stream_def Let_def add_messages_to_thread_missing)

theorem finish_after_thread_deleted_witness:
  "server_step demo_cfg len_tok (Ev_Resume 0 5) (server_run demo_cfg len_tok delete_mid_stream demo_server) =
   close_session 0 [SSE_Content ''ab'', SSE_Done] (server_run demo_cfg len_tok delete_mid_stream demo_server) \<and>
   conversations (srv_store (server_run demo_cfg len_tok delete_mid_stream demo_server)) = []"
proof -
  let ?S = "server_run demo_cfg len_tok delete_mid_stream demo_server"
  let ?s = "\<lparr>sess_thread = 0, sess_model = ''m'', sess_pending = [], sess_failure = None,
             sess_acc = ''ab'', sess_sent = [SSE_Content ''ab'']\<rparr>"
  have S: "srv_sessions ?S 0 = Some ?s \<and> threads (srv_store ?S) = [] \<and> conversations (srv_store ?S) = []"
    by (simp add: delete_mid_stream_def demo_server_def initial_server_def alice_def open_chat_def
        resume_stream_def route_defs owned_thread_def crud_delete_thread_def crud_get_thread_def
        track_request_def check_token_rate_limit_def check_and_reset_counters_def
        add_messages_to_thread_def create_conversation_def create_thread_def crud_create_thread_def
        empty_store_def demo_cfg_def len_tok_def Let_def)
  then have "crud_get_thread 0 (srv_store ?S) = None" by (simp add: crud_get_thread_def)
  with S show ?thesis
    using finish_after_thread_deleted [of ?S 0 ?s demo_cfg len_tok 5] by simp
qed

text \<open>
  C31: Every open stream ends: whatever other requests and streams run in
  between, once a stream has been resumed one time more than it has
  chunks left, it is closed and its reply, ending with \<open>[DONE]\<close>, has
  been sent (after the last chunk, a truncation, or an upstream failure
  alike).
\<close>

theorem open_stream_terminates:
  assumes "srv_sessions srv sid = Some s" and "sid < srv_next_session srv"
    and "Suc (length (sess_pending s)) \<le> length (filter (is_resume sid) evs)"
  shows "srv_sessions (server_run cfg tok evs srv) sid = None \<and>
         stream_replied sid (server_run cfg tok evs srv)"
  using assms by (intro server_run_closes) (simp_all add: stream_potential_def)

theorem open_stream_terminates_witness:
  "srv_sessions (server_run demo_cfg len_tok demo_schedule demo_open) 0 = None \<and>
   stream_replied 0 (server_run demo_cfg len_tok demo_schedule demo_open)"
proof -
  have s: "srv_sessions demo_open 0 = Some \<lparr>sess_thread = 0, sess_model = ''m'', sess_pending = [Some ''ab''],
             sess_failure = None, sess_acc = [], sess_sent = []\<rparr>"
    and n: "0 < srv_next_session demo_open"
    by (simp_all add: demo_open_def demo_server_def initial_server_def open_chat_def Let_def)
  show ?thesis
    by (rule open_stream_terminates [OF s n]) (simp add: demo_schedule_def)
qed

end
